theory Spec2Isabelle
  imports Complex_Main "HOL-Library.Product_Lexorder"
begin

section \<open>Python values used by the scheduler\<close>

text \<open>
  The program is \<^verbatim>\<open>src/app.py\<close>, a Streamlit application; the part modelled here is
  the conflict checker \<^verbatim>\<open>check_conflicts\<close> and the generation handler
  \<^verbatim>\<open>generate_schedule\<close> with its nested helper functions.

  A Python \<^verbatim>\<open>str\<close> is a sequence of Unicode code points, so a string is a list of
  code points (natural numbers). The source's literals are Chinese; they appear below
  as their code points in decimal, and in the text as U+ numbers.
\<close>

type_synonym pystr = "nat list"

text \<open>\<^verbatim>\<open>s.startswith(p)\<close>, and \<^verbatim>\<open>needle in hay\<close> on strings (a substring test).\<close>

fun startswith :: "'a list \<Rightarrow> 'a list \<Rightarrow> bool" where
  "startswith [] s = True"
| "startswith (p # ps) [] = False"
| "startswith (p # ps) (c # cs) = (p = c \<and> startswith ps cs)"

fun str_contains :: "'a list \<Rightarrow> 'a list \<Rightarrow> bool" where
  "str_contains needle [] = (needle = [])"
| "str_contains needle (c # cs) = (startswith needle (c # cs) \<or> str_contains needle cs)"

text \<open>
  A Python \<^verbatim>\<open>dict\<close> keeps its keys in insertion order: it is an association list.
  \<^verbatim>\<open>d.get(k)\<close> is \<open>map_of d k\<close>, \<^verbatim>\<open>k in d\<close> is \<open>k \<in> set (dict_keys d)\<close>,
  \<^verbatim>\<open>d[k] = v\<close> is \<open>dict_set d k v\<close> (in place when the key is there, appended
  otherwise), and \<^verbatim>\<open>d[k]\<close> raises \<^verbatim>\<open>KeyError\<close> on a missing key.
\<close>

type_synonym ('k, 'v) pydict = "('k \<times> 'v) list"

datatype py_error = KeyError

definition dict_keys :: "('k, 'v) pydict \<Rightarrow> 'k list" where
  "dict_keys d = map fst d"

definition dict_get_or :: "('k, 'v) pydict \<Rightarrow> 'k \<Rightarrow> 'v \<Rightarrow> 'v" where
  "dict_get_or d k dflt = (case map_of d k of None \<Rightarrow> dflt | Some v \<Rightarrow> v)"

definition getitem :: "('k, 'v) pydict \<Rightarrow> 'k \<Rightarrow> py_error + 'v" where
  "getitem d k = (case map_of d k of None \<Rightarrow> Inl KeyError | Some v \<Rightarrow> Inr v)"

fun dict_set :: "('k, 'v) pydict \<Rightarrow> 'k \<Rightarrow> 'v \<Rightarrow> ('k, 'v) pydict" where
  "dict_set [] k v = [(k, v)]"
| "dict_set ((k', v') # d) k v = (if k' = k then (k, v) # d else (k', v') # dict_set d k v)"

text \<open>A \<^verbatim>\<open>for\<close> loop over a list whose body updates the state and may raise.\<close>

fun for_each :: "('a \<Rightarrow> 's \<Rightarrow> py_error + 's) \<Rightarrow> 'a list \<Rightarrow> 's \<Rightarrow> py_error + 's" where
  "for_each body [] s = Inr s"
| "for_each body (x # xs) s =
     (case body x s of Inl e \<Rightarrow> Inl e | Inr s' \<Rightarrow> for_each body xs s')"

subsection \<open>Floats\<close>

text \<open>
  A Python \<^verbatim>\<open>float\<close> is an IEEE 754 binary64 number. A finite double is a rational
  number and is represented by it; \<^verbatim>\<open>+\<close>, \<^verbatim>\<open>-\<close> and \<^verbatim>\<open>*\<close> on floats are the exact
  operation followed by rounding to the nearest double, a tie going to the even
  mantissa. A double has a mantissa of 53 bits, and the exponent of its last bit is at
  least -1074 (below \<open>2 ^ -1022\<close> the doubles are equally spaced). \<open>float_exponent x\<close> is
  the exponent \<open>e\<close> with \<open>2 ^ e \<le> \<bar>x\<bar> < 2 ^ (e + 1)\<close>. An \<^verbatim>\<open>int\<close> operand is converted
  first (\<open>float_of_int\<close>), and the literal \<^verbatim>\<open>0.1\<close> is the double nearest to one tenth.
  A result of magnitude \<open>2 ^ 1024\<close> or more, which Python turns into \<^verbatim>\<open>inf\<close> or
  \<^verbatim>\<open>OverflowError\<close>, is outside the model: \<open>round_double\<close> rounds it to 53 bits.
\<close>

type_synonym pyfloat = rat

fun bit_length :: "nat \<Rightarrow> nat" where
  "bit_length n = (if n = 0 then 0 else Suc (bit_length (n div 2)))"

declare bit_length.simps [simp del]

definition pow2 :: "int \<Rightarrow> rat" where
  "pow2 e = (if 0 \<le> e then 2 ^ nat e else 1 / 2 ^ nat (- e))"

definition float_exponent :: "rat \<Rightarrow> int" where
  "float_exponent x =
     (if 1 \<le> \<bar>x\<bar> then int (bit_length (nat \<lfloor>\<bar>x\<bar>\<rfloor>)) - 1
      else - int (bit_length (nat (\<lceil>1 / \<bar>x\<bar>\<rceil> - 1))))"

definition round_half_even :: "rat \<Rightarrow> int" where
  "round_half_even q =
     (let f = \<lfloor>q\<rfloor>; r = q - of_int f
      in if r < 1 / 2 then f
         else if 1 / 2 < r then f + 1
         else if even f then f else f + 1)"

definition round_double :: "rat \<Rightarrow> pyfloat" where
  "round_double x =
     (if x = 0 then 0
      else let e = max (float_exponent x) (- 1022);
               ulp = pow2 (e - 52)
           in of_int (round_half_even (x / ulp)) * ulp)"

definition float_add :: "pyfloat \<Rightarrow> pyfloat \<Rightarrow> pyfloat" where
  "float_add a b = round_double (a + b)"

definition float_sub :: "pyfloat \<Rightarrow> pyfloat \<Rightarrow> pyfloat" where
  "float_sub a b = round_double (a - b)"

definition float_mul :: "pyfloat \<Rightarrow> pyfloat \<Rightarrow> pyfloat" where
  "float_mul a b = round_double (a * b)"

definition float_of_int :: "int \<Rightarrow> pyfloat" where
  "float_of_int n = round_double (of_int n)"

definition one_tenth :: pyfloat where
  "one_tenth = round_double (1 / 10)"

subsection \<open>Dates\<close>

text \<open>
  A date is its proleptic Gregorian ordinal (\<^verbatim>\<open>date.toordinal()\<close>: 0001-01-01 is day 1),
  so \<^verbatim>\<open>d + timedelta(days=1)\<close> is \<open>d + 1\<close> and dates compare as integers. Python's
  \<^verbatim>\<open>date.weekday()\<close> is \<open>(ordinal + 6) mod 7\<close>, Monday being 0. The source keys
  its schedule by \<^verbatim>\<open>date.strftime("%Y-%m-%d")\<close> and parses the key back with
  \<^verbatim>\<open>strptime\<close>; the rendering is injective on dates, so the model keys the schedule
  by the date and renders the text (\<open>strftime_ymd\<close>) where the source reads the text
  itself. \<open>ord2ymd\<close> follows CPython's \<^verbatim>\<open>_ord2ymd\<close>; the bounds of
  \<^verbatim>\<open>datetime\<close> (years 1 to 9999) are not part of the model.
\<close>

type_synonym date = int

definition weekday :: "date \<Rightarrow> nat" where
  "weekday d = nat ((d + 6) mod 7)"

text \<open>
  \<^verbatim>\<open>weekday_map\<close>: the names U+5468 U+4E00 (Monday), U+5468 U+4E8C, U+5468 U+4E09,
  U+5468 U+56DB, U+5468 U+4E94, U+5468 U+516D and U+5468 U+65E5 (Sunday).
\<close>

definition weekday_map :: "pystr list" where
  "weekday_map =
     [[21608, 19968], [21608, 20108], [21608, 19977], [21608, 22235],
      [21608, 20116], [21608, 20845], [21608, 26085]]"

definition get_weekday_chinese :: "date \<Rightarrow> pystr" where
  "get_weekday_chinese date_str = weekday_map ! weekday date_str"

definition days_before_month :: "int \<Rightarrow> int" where
  "days_before_month m = [0, 31, 59, 90, 120, 151, 181, 212, 243, 273, 304, 334] ! nat (m - 1)"

definition days_in_month :: "int \<Rightarrow> int" where
  "days_in_month m = [31, 28, 31, 30, 31, 30, 31, 31, 30, 31, 30, 31] ! nat (m - 1)"

definition ord2ymd :: "int \<Rightarrow> int \<times> int \<times> int" where
  "ord2ymd ordinal =
     (let n = ordinal - 1;
          n400 = n div 146097; r400 = n mod 146097;
          n100 = r400 div 36524; r100 = r400 mod 36524;
          n4 = r100 div 1461; r4 = r100 mod 1461;
          n1 = r4 div 365; r1 = r4 mod 365;
          year = n400 * 400 + 1 + n100 * 100 + n4 * 4 + n1
      in if n1 = 4 \<or> n100 = 4 then (year - 1, 12, 31)
         else
           let leapyear = (n1 = 3 \<and> (n4 \<noteq> 24 \<or> n100 = 3));
               month = (r1 + 50) div 32;
               preceding = days_before_month month + (if month > 2 \<and> leapyear then 1 else 0)
           in if preceding > r1
              then (year, month - 1,
                    r1 - (preceding - (days_in_month (month - 1)
                                       + (if month - 1 = 2 \<and> leapyear then 1 else 0))) + 1)
              else (year, month, r1 - preceding + 1))"

fun zero_padded :: "nat \<Rightarrow> nat \<Rightarrow> pystr" where
  "zero_padded 0 k = []"
| "zero_padded (Suc w) k = zero_padded w (k div 10) @ [48 + k mod 10]"

definition strftime_ymd :: "date \<Rightarrow> pystr" where
  "strftime_ymd d =
     (case ord2ymd d of
        (y, m, dd) \<Rightarrow> zero_padded 4 (nat y) @ [45] @ zero_padded 2 (nat m) @ [45] @ zero_padded 2 (nat dd))"

section \<open>The data model\<close>

text \<open>
  Employees, shifts and rules are JSON objects read with \<^verbatim>\<open>.get(key, default)\<close>. A
  field of the records below holds what \<^verbatim>\<open>.get\<close> returns with the default the source
  gives it; \<open>required_staff\<close> is optional because the source reads it with two
  different defaults (1 in \<^verbatim>\<open>get_required_staff\<close>, 2 in the first round), and
  \<open>emp_name\<close> because its default is the employee's id. The duration of a shift is
  a float (the shift form stores \<^verbatim>\<open>round(duration, 2)\<close>) or an \<^verbatim>\<open>int\<close> (the default 8, or
  an integer in the JSON file), which denotes the same number as its float up to
  \<open>2 ^ 53\<close>.
\<close>

record employee =
  emp_name :: "pystr option"
  position :: pystr
  skills :: "pystr list"
  weekly_hours :: int
  rest_day :: pystr
  preferred_shifts :: "pystr list"
  unavailable_days :: pystr

record shift_rec =
  start_time :: pystr
  end_time :: pystr
  required_staff :: "int option"
  required_skills :: "pystr list"
  duration_hours :: pyfloat

record rule_config =
  min_rest_hours :: int
  max_consecutive_days :: int
  min_weekly_hours :: int
  max_weekly_hours :: int
  fixed_early_early_shift_employees :: "pystr list"
  monday_no_early_early_shift :: bool

record day_entry =
  assignments :: "(pystr, pystr) pydict"
  shift_counts :: "(pystr, int) pydict"

type_synonym schedule = "(date, day_entry) pydict"

text \<open>
  \<^verbatim>\<open>st.session_state\<close>: the employees, the shifts and the rules (\<open>inputs\<close>), the
  stored schedule and the default period of the date pickers. The nested functions of
  \<^verbatim>\<open>generate_schedule\<close> and \<^verbatim>\<open>check_conflicts\<close> can read all of it, so each of them
  takes the session.
\<close>

record inputs =
  employees :: "(pystr, employee) pydict"
  shifts :: "(pystr, shift_rec) pydict"
  rules :: rule_config

record session = inputs +
  stored_schedule :: schedule
  schedule_period :: "date \<times> date"

text \<open>
  \<^verbatim>\<open>init_session_state\<close> sets the default period from the clock: it starts on the day
  of \<^verbatim>\<open>datetime.now()\<close> and ends 30 days later.
\<close>

definition init_schedule_period :: "date \<Rightarrow> date \<times> date" where
  "init_schedule_period now = (now, now + 30)"

definition employee_list :: "session \<Rightarrow> pystr list" where
  "employee_list cx = dict_keys (employees cx)"

definition shift_list :: "session \<Rightarrow> pystr list" where
  "shift_list cx = dict_keys (shifts cx)"

definition fixed_early_early_employees :: "session \<Rightarrow> pystr list" where
  "fixed_early_early_employees cx = fixed_early_early_shift_employees (rules cx)"

definition monday_no_early_early :: "session \<Rightarrow> bool" where
  "monday_no_early_early cx = monday_no_early_early_shift (rules cx)"

text \<open>
  The two shift ids the source names: U+4E8C U+671F U+6C34 U+5427 "-" U+65E9 U+65E9 U+73ED
  (the early-early shift of the bar) and U+4E8C U+671F U+6C34 U+5427 "-" U+65E9 U+73ED (its
  early shift). U+5468 U+4E00 is Monday.
\<close>

definition early_early_shift_id :: pystr where
  "early_early_shift_id = [20108, 26399, 27700, 21543, 45, 26089, 26089, 29677]"

definition early_shift_id :: pystr where
  "early_shift_id = [20108, 26399, 27700, 21543, 45, 26089, 29677]"

definition fixed_early_early_shift :: pystr where
  "fixed_early_early_shift = early_early_shift_id"

definition monday :: pystr where
  "monday = [21608, 19968]"

record flexible =
  allow_empty :: bool
  flex_required_staff :: "int option"

definition flexible_shifts :: "(pystr, flexible) pydict" where
  "flexible_shifts = [(early_shift_id, \<lparr>allow_empty = True, flex_required_staff = None\<rparr>)]"

section \<open>The conflict checker\<close>

text \<open>
  \<^verbatim>\<open>check_conflicts\<close> returns a list of messages; a message is modelled by its kind
  and the values the source formats into it. Its date argument is the text of a date
  (every caller passes a key of the schedule); it reads the employees and the shifts
  from \<^verbatim>\<open>st.session_state\<close>. The unavailable days of an employee
  are one string, and \<^verbatim>\<open>date in unavailable_days\<close> is a substring test.
\<close>

datatype conflict =
    EmployeeMissing pystr
  | ShiftMissing pystr
  | RestDayConflict pystr pystr
  | UnavailableConflict pystr date
  | SkillConflict pystr "pystr list"
  | AlreadyAssigned pystr date

definition display_name :: "employee \<Rightarrow> pystr \<Rightarrow> pystr" where
  "display_name emp emp_id = (case emp_name emp of None \<Rightarrow> emp_id | Some n \<Rightarrow> n)"

definition has_skill :: "employee \<Rightarrow> shift_rec \<Rightarrow> bool" where
  "has_skill emp shift = list_ex (\<lambda>skill. skill \<in> set (skills emp)) (required_skills shift)"

definition check_conflicts :: "session \<Rightarrow> pystr \<Rightarrow> pystr \<Rightarrow> date \<Rightarrow> schedule \<Rightarrow> conflict list" where
  "check_conflicts cx emp_id shift_id date sched =
     (case map_of (employees cx) emp_id of
        None \<Rightarrow> [EmployeeMissing emp_id]
      | Some emp \<Rightarrow>
         (case map_of (shifts cx) shift_id of
            None \<Rightarrow> [ShiftMissing shift_id]
          | Some shift \<Rightarrow>
              (if rest_day emp \<noteq> [] \<and> get_weekday_chinese date = rest_day emp
               then [RestDayConflict (display_name emp emp_id) (get_weekday_chinese date)] else [])
            @ (if unavailable_days emp \<noteq> [] \<and> str_contains (strftime_ymd date) (unavailable_days emp)
               then [UnavailableConflict (display_name emp emp_id) date] else [])
            @ (if required_skills shift \<noteq> [] \<and> \<not> has_skill emp shift
               then [SkillConflict (display_name emp emp_id) (required_skills shift)] else [])
            @ (case map_of sched date of
                 None \<Rightarrow> []
               | Some entry \<Rightarrow>
                   if emp_id \<in> set (dict_keys (assignments entry))
                   then [AlreadyAssigned (display_name emp emp_id) date] else [])))"

section \<open>Rotation tracking, scoring and staffing\<close>

text \<open>
  The shift types are five string constants: U+65E9 U+65E9 U+73ED (early-early),
  U+65E9 U+73ED (early), U+665A U+73ED (late), U+4E2D U+73ED (mid) and U+5176 U+4ED6
  (other). They are distinct and non-empty, so each is true as a condition, and they are
  modelled as a datatype. \<^verbatim>\<open>get_shift_type\<close> tests the shift id for U+65E9 U+65E9,
  U+65E9, U+665A and U+4E2D, in this order.
\<close>

datatype shift_type = EarlyEarly | Early | Late | Mid | Other

definition get_shift_type :: "pystr \<Rightarrow> shift_type" where
  "get_shift_type shift_id =
     (if str_contains [26089, 26089] shift_id then EarlyEarly
      else if str_contains [26089] shift_id then Early
      else if str_contains [26202] shift_id then Late
      else if str_contains [20013] shift_id then Mid
      else Other)"

definition get_opposite_shift_type :: "shift_type \<Rightarrow> shift_type" where
  "get_opposite_shift_type shift_type =
     (if shift_type = Early then Late
      else if shift_type = Late then Early
      else shift_type)"

record workload =
  days :: int
  hours :: pyfloat

record cycle_info =
  current_type :: "shift_type option"
  last_work_date :: "date option"
  rested :: bool

text \<open>
  \<^verbatim>\<open>employee_shift_cycle.get(emp_id, {})\<close>: for an employee without an entry every
  later \<^verbatim>\<open>.get\<close> on the empty dict gives \<^verbatim>\<open>None\<close>.
\<close>

definition cycle_of :: "(pystr, cycle_info) pydict \<Rightarrow> pystr \<Rightarrow> cycle_info" where
  "cycle_of employee_shift_cycle emp_id =
     dict_get_or employee_shift_cycle emp_id
       \<lparr>current_type = None, last_work_date = None, rested = False\<rparr>"

text \<open>
  The \<^verbatim>\<open>while\<close> loop of \<^verbatim>\<open>check_if_rested\<close>: it walks from the day after the last
  worked date to the current date and stops at the first day whose name is the rest day.
\<close>

function rest_day_passed :: "pystr \<Rightarrow> date \<Rightarrow> date \<Rightarrow> bool" where
  "rest_day_passed rest check_date current_date =
     (if check_date \<le> current_date
      then (if get_weekday_chinese check_date = rest then True
            else rest_day_passed rest (check_date + 1) current_date)
      else False)"
  by pat_completeness auto
termination
  by (relation "measure (\<lambda>(rest, check_date, current_date). nat (current_date + 1 - check_date))") auto

declare rest_day_passed.simps [simp del]

definition check_if_rested ::
  "session \<Rightarrow> (pystr, cycle_info) pydict \<Rightarrow> pystr \<Rightarrow> date \<Rightarrow> bool" where
  "check_if_rested cx employee_shift_cycle emp_id current_date =
     (case last_work_date (cycle_of employee_shift_cycle emp_id) of
        None \<Rightarrow> False
      | Some last_date \<Rightarrow>
          (let rest = (case map_of (employees cx) emp_id of None \<Rightarrow> [] | Some emp \<Rightarrow> rest_day emp)
           in if rest = [] then False
              else rest_day_passed rest (last_date + 1) current_date))"

text \<open>
  \<^verbatim>\<open>get_employee_score\<close>: the score starts as the float \<^verbatim>\<open>0.0\<close> and every
  \<^verbatim>\<open>score += t\<close> and \<^verbatim>\<open>score -= t\<close> is a float operation, in the order of the source.
  \<^verbatim>\<open>days * 10\<close> is a product of ints; \<^verbatim>\<open>hours * 0.1\<close> is a float product.
\<close>

definition get_employee_score ::
  "session \<Rightarrow> (pystr, cycle_info) pydict \<Rightarrow> pystr \<Rightarrow> pystr \<Rightarrow> date
     \<Rightarrow> (pystr, workload) pydict \<Rightarrow> py_error + pyfloat" where
  "get_employee_score cx employee_shift_cycle emp_id shift_id date_str current_workload =
     (case getitem (employees cx) emp_id of Inl e \<Rightarrow> Inl e | Inr emp \<Rightarrow>
     (case getitem (shifts cx) shift_id of Inl e \<Rightarrow> Inl e | Inr shift \<Rightarrow>
     (case getitem current_workload emp_id of Inl e \<Rightarrow> Inl e | Inr wl \<Rightarrow>
        (let score1 = float_add 0 (float_of_int (days wl * 10));
             score2 = (if required_skills shift \<noteq> []
                       then (if has_skill emp shift then float_sub score1 10 else float_add score1 50)
                       else score1);
             score3 = (if shift_id \<in> set (preferred_shifts emp) then float_sub score2 5 else score2);
             score4 = float_add score3 (float_mul (hours wl) one_tenth);
             new_type = get_shift_type shift_id
         in if emp_id \<in> set (fixed_early_early_employees cx) then Inr score4
            else
              (let cur = current_type (cycle_of employee_shift_cycle emp_id);
                   just_rested = check_if_rested cx employee_shift_cycle emp_id date_str
               in if just_rested \<and> (cur = Some Early \<or> cur = Some Late)
                  then (if Some new_type = map_option get_opposite_shift_type cur
                        then Inr (float_sub score4 5) else Inr score4)
                  else if cur \<noteq> None
                  then (if Some new_type = cur then Inr (float_sub score4 3) else Inr score4)
                  else Inr score4)))))"

text \<open>
  \<^verbatim>\<open>get_required_staff(shift_id, date_str, schedule)\<close>: every call of the source passes
  the date and the schedule, and the text of a date is not empty; the condition
  \<^verbatim>\<open>date_str and schedule\<close> is then that the schedule is not the empty dict.
  \<open>early_early_count\<close> is the local variable of that name:
  \<^verbatim>\<open>schedule.get(date_str, {}).get("shift_counts", {}).get(early_early_shift_id, 0)\<close>.
\<close>

definition early_early_count :: "schedule \<Rightarrow> date \<Rightarrow> int" where
  "early_early_count sched date_str =
     (case map_of sched date_str of
        None \<Rightarrow> 0
      | Some entry \<Rightarrow> dict_get_or (shift_counts entry) early_early_shift_id 0)"

definition get_required_staff :: "session \<Rightarrow> pystr \<Rightarrow> date \<Rightarrow> schedule \<Rightarrow> py_error + int" where
  "get_required_staff cx shift_id date_str sched =
     (if shift_id = early_shift_id \<and> sched \<noteq> []
      then (if early_early_count sched date_str = 0 then Inr 2 else Inr 1)
      else (case map_of flexible_shifts shift_id of
              Some fl \<Rightarrow>
                (case flex_required_staff fl of
                   Some n \<Rightarrow> Inr n
                 | None \<Rightarrow>
                     (case getitem (shifts cx) shift_id of
                        Inl e \<Rightarrow> Inl e
                      | Inr shift \<Rightarrow> Inr (case required_staff shift of None \<Rightarrow> 1 | Some n \<Rightarrow> n)))
            | None \<Rightarrow>
                (case getitem (shifts cx) shift_id of
                   Inl e \<Rightarrow> Inl e
                 | Inr shift \<Rightarrow> Inr (case required_staff shift of None \<Rightarrow> 1 | Some n \<Rightarrow> n))))"

definition is_allow_empty :: "pystr \<Rightarrow> bool" where
  "is_allow_empty shift_id =
     (case map_of flexible_shifts shift_id of None \<Rightarrow> False | Some fl \<Rightarrow> allow_empty fl)"

section \<open>The generation run\<close>

text \<open>
  The state the handler's nested functions share: the schedule under construction, the
  workload of every employee and the rotation record of every employee.
\<close>

record gen_state =
  schedule :: schedule
  employee_workload :: "(pystr, workload) pydict"
  employee_shift_cycle :: "(pystr, cycle_info) pydict"

text \<open>
  The two writes of every assignment,
  \<^verbatim>\<open>schedule[date_str]["assignments"][emp_id] = shift_id\<close> and
  \<^verbatim>\<open>schedule[date_str]["shift_counts"][shift_id] = new_count\<close>, and the two
  increments of the workload. The hours are summed as floats; while both operands are
  ints the source's sum is exact, and so is the float sum up to \<open>2 ^ 53\<close>.
\<close>

definition record_assignment ::
  "schedule \<Rightarrow> date \<Rightarrow> day_entry \<Rightarrow> pystr \<Rightarrow> pystr \<Rightarrow> int \<Rightarrow> schedule" where
  "record_assignment sched date_str entry emp_id shift_id new_count =
     dict_set sched date_str
       (entry\<lparr>assignments := dict_set (assignments entry) emp_id shift_id,
              shift_counts := dict_set (shift_counts entry) shift_id new_count\<rparr>)"

definition add_work :: "workload \<Rightarrow> pyfloat \<Rightarrow> workload" where
  "add_work wl shift_duration =
     wl\<lparr>days := days wl + 1, hours := float_add (hours wl) shift_duration\<rparr>"

text \<open>
  The rotation record after an assignment, as \<^verbatim>\<open>assign_employee_to_shift\<close> writes it,
  and as the fourth round writes it (which leaves \<^verbatim>\<open>rested\<close> as it is when the
  employee has not just rested).
\<close>

definition update_cycle ::
  "session \<Rightarrow> (pystr, cycle_info) pydict \<Rightarrow> pystr \<Rightarrow> pystr \<Rightarrow> date \<Rightarrow> (pystr, cycle_info) pydict" where
  "update_cycle cx cyc emp_id shift_id date_str =
     (let new_shift_type = get_shift_type shift_id;
          cycle_info = cycle_of cyc emp_id;
          just_rested = check_if_rested cx cyc emp_id date_str
      in if just_rested
         then dict_set cyc emp_id
                \<lparr>current_type = Some new_shift_type, last_work_date = Some date_str, rested = True\<rparr>
         else dict_set cyc emp_id
                (cycle_info\<lparr>current_type := (if current_type cycle_info = None then Some new_shift_type
                                               else current_type cycle_info),
                            last_work_date := Some date_str,
                            rested := False\<rparr>))"

definition update_cycle_idle ::
  "session \<Rightarrow> (pystr, cycle_info) pydict \<Rightarrow> pystr \<Rightarrow> pystr \<Rightarrow> date \<Rightarrow> (pystr, cycle_info) pydict" where
  "update_cycle_idle cx cyc emp_id shift_id date_str =
     (let new_shift_type = get_shift_type shift_id;
          cycle_info = cycle_of cyc emp_id;
          just_rested = check_if_rested cx cyc emp_id date_str
      in if just_rested
         then dict_set cyc emp_id
                \<lparr>current_type = Some new_shift_type, last_work_date = Some date_str, rested = True\<rparr>
         else dict_set cyc emp_id
                (cycle_info\<lparr>current_type := (if current_type cycle_info = None then Some new_shift_type
                                               else current_type cycle_info),
                            last_work_date := Some date_str\<rparr>))"

subsection \<open>\<^verbatim>\<open>assign_employee_to_shift\<close>\<close>

fun collect_candidates ::
  "session \<Rightarrow> gen_state \<Rightarrow> pystr \<Rightarrow> date \<Rightarrow> pystr list \<Rightarrow> py_error + (pyfloat \<times> pystr) list" where
  "collect_candidates cx st shift_id date_str [] = Inr []"
| "collect_candidates cx st shift_id date_str (emp_id # rest) =
     (if check_conflicts cx emp_id shift_id date_str (schedule st) = []
      then (case get_employee_score cx (employee_shift_cycle st) emp_id shift_id date_str
                   (employee_workload st) of
              Inl e \<Rightarrow> Inl e
            | Inr score \<Rightarrow>
                (case collect_candidates cx st shift_id date_str rest of
                   Inl e \<Rightarrow> Inl e
                 | Inr candidates \<Rightarrow> Inr ((score, emp_id) # candidates)))
      else collect_candidates cx st shift_id date_str rest)"

definition assign_employee_to_shift ::
  "session \<Rightarrow> date \<Rightarrow> pystr \<Rightarrow> gen_state \<Rightarrow> py_error + (bool \<times> gen_state)" where
  "assign_employee_to_shift cx date_str shift_id st =
     (case getitem (shifts cx) shift_id of Inl e \<Rightarrow> Inl e | Inr shift \<Rightarrow>
     (case get_required_staff cx shift_id date_str (schedule st) of Inl e \<Rightarrow> Inl e | Inr required \<Rightarrow>
     (case getitem (schedule st) date_str of Inl e \<Rightarrow> Inl e | Inr entry \<Rightarrow>
        (let current_count = dict_get_or (shift_counts entry) shift_id 0
         in if current_count \<ge> required then Inr (False, st)
            else
              (let available_employees =
                     filter (\<lambda>emp_id. emp_id \<notin> set (dict_keys (assignments entry))) (employee_list cx)
               in case collect_candidates cx st shift_id date_str available_employees of
                    Inl e \<Rightarrow> Inl e
                  | Inr candidates \<Rightarrow>
                      (case sort_key fst candidates of
                         [] \<Rightarrow> Inr (False, st)
                       | best # others \<Rightarrow>
                           (case getitem (employee_workload st) (snd best) of
                              Inl e \<Rightarrow> Inl e
                            | Inr wl \<Rightarrow>
                                Inr (True,
                                     \<lparr>schedule = record_assignment (schedule st) date_str entry
                                                   (snd best) shift_id (current_count + 1),
                                      employee_workload = dict_set (employee_workload st) (snd best)
                                                            (add_work wl (duration_hours shift)),
                                      employee_shift_cycle = update_cycle cx (employee_shift_cycle st)
                                                               (snd best) shift_id date_str\<rparr>))))))))"

subsection \<open>First round: the fixed early-early staff\<close>

fun assign_fixed_staff ::
  "session \<Rightarrow> date \<Rightarrow> shift_rec \<Rightarrow> int \<Rightarrow> pystr list \<Rightarrow> gen_state \<Rightarrow> py_error + gen_state" where
  "assign_fixed_staff cx date_str shift required [] st = Inr st"
| "assign_fixed_staff cx date_str shift required (emp_id # rest) st =
     (case getitem (schedule st) date_str of Inl e \<Rightarrow> Inl e | Inr entry \<Rightarrow>
        (if dict_get_or (shift_counts entry) fixed_early_early_shift 0 \<ge> required then Inr st
         else if emp_id \<notin> set (dict_keys (assignments entry))
                 \<and> check_conflicts cx emp_id fixed_early_early_shift date_str (schedule st) = []
         then (case getitem (employee_workload st) emp_id of
                 Inl e \<Rightarrow> Inl e
               | Inr wl \<Rightarrow>
                   assign_fixed_staff cx date_str shift required rest
                     \<lparr>schedule = record_assignment (schedule st) date_str entry emp_id
                                   fixed_early_early_shift
                                   (dict_get_or (shift_counts entry) fixed_early_early_shift 0 + 1),
                      employee_workload = dict_set (employee_workload st) emp_id
                                            (add_work wl (duration_hours shift)),
                      employee_shift_cycle = dict_set (employee_shift_cycle st) emp_id
                        \<lparr>current_type = Some (get_shift_type fixed_early_early_shift),
                         last_work_date = Some date_str, rested = False\<rparr>\<rparr>)
         else assign_fixed_staff cx date_str shift required rest st))"

definition phase1_date :: "session \<Rightarrow> date \<Rightarrow> gen_state \<Rightarrow> py_error + gen_state" where
  "phase1_date cx date_str st =
     (if get_weekday_chinese date_str = monday \<and> monday_no_early_early cx then Inr st
      else if fixed_early_early_shift \<in> set (shift_list cx)
      then (case getitem (shifts cx) fixed_early_early_shift of
              Inl e \<Rightarrow> Inl e
            | Inr shift \<Rightarrow>
                assign_fixed_staff cx date_str shift
                  (case required_staff shift of None \<Rightarrow> 2 | Some n \<Rightarrow> n)
                  (fixed_early_early_employees cx) st)
      else Inr st)"

definition phase1 :: "session \<Rightarrow> gen_state \<Rightarrow> py_error + gen_state" where
  "phase1 cx st = for_each (phase1_date cx) (dict_keys (schedule st)) st"

subsection \<open>Second round: fill every shift\<close>

definition shift_list_today :: "session \<Rightarrow> date \<Rightarrow> pystr list" where
  "shift_list_today cx date_str =
     (if get_weekday_chinese date_str = monday \<and> monday_no_early_early cx
      then filter (\<lambda>s. s \<noteq> fixed_early_early_shift) (shift_list cx)
      else shift_list cx)"

function fill_shift ::
  "session \<Rightarrow> date \<Rightarrow> pystr \<Rightarrow> int \<Rightarrow> int \<Rightarrow> gen_state \<Rightarrow> py_error + gen_state" where
  "fill_shift cx date_str shift_id required current_count st =
     (if current_count < required
      then (case assign_employee_to_shift cx date_str shift_id st of
              Inl e \<Rightarrow> Inl e
            | Inr r \<Rightarrow>
                (if fst r then fill_shift cx date_str shift_id required (current_count + 1) (snd r)
                 else Inr (snd r)))
      else Inr st)"
  by pat_completeness auto
termination
  by (relation "measure (\<lambda>(cx, date_str, shift_id, required, current_count, st).
                  nat (required - current_count))") auto

declare fill_shift.simps [simp del]

definition phase2_shift :: "session \<Rightarrow> date \<Rightarrow> pystr \<Rightarrow> gen_state \<Rightarrow> py_error + gen_state" where
  "phase2_shift cx date_str shift_id st =
     (if shift_id = fixed_early_early_shift then Inr st
      else
        (case getitem (shifts cx) shift_id of Inl e \<Rightarrow> Inl e | Inr shift \<Rightarrow>
        (case get_required_staff cx shift_id date_str (schedule st) of Inl e \<Rightarrow> Inl e | Inr required \<Rightarrow>
        (case getitem (schedule st) date_str of Inl e \<Rightarrow> Inl e | Inr entry \<Rightarrow>
           fill_shift cx date_str shift_id required
             (dict_get_or (shift_counts entry) shift_id 0) st))))"

definition phase2_date :: "session \<Rightarrow> date \<Rightarrow> gen_state \<Rightarrow> py_error + gen_state" where
  "phase2_date cx date_str st = for_each (phase2_shift cx date_str) (shift_list_today cx date_str) st"

definition phase2 :: "session \<Rightarrow> gen_state \<Rightarrow> py_error + gen_state" where
  "phase2 cx st = for_each (phase2_date cx) (dict_keys (schedule st)) st"

subsection \<open>Third round: vacancies, at most three passes\<close>

text \<open>The state of a pass is the counter \<^verbatim>\<open>vacancies_filled\<close> and the shared state.\<close>

definition phase3_shift ::
  "session \<Rightarrow> date \<Rightarrow> pystr \<Rightarrow> int \<times> gen_state \<Rightarrow> py_error + (int \<times> gen_state)" where
  "phase3_shift cx date_str shift_id vs =
     (case getitem (shifts cx) shift_id of Inl e \<Rightarrow> Inl e | Inr shift \<Rightarrow>
     (case get_required_staff cx shift_id date_str (schedule (snd vs)) of Inl e \<Rightarrow> Inl e | Inr required \<Rightarrow>
     (case getitem (schedule (snd vs)) date_str of Inl e \<Rightarrow> Inl e | Inr entry \<Rightarrow>
        (if dict_get_or (shift_counts entry) shift_id 0 < required
         then (case assign_employee_to_shift cx date_str shift_id (snd vs) of
                 Inl e \<Rightarrow> Inl e
               | Inr r \<Rightarrow>
                   (if fst r then Inr (fst vs + 1, snd r)
                    else if is_allow_empty shift_id then Inr (fst vs, snd r)
                    else Inr (fst vs, snd r)))
         else Inr vs))))"

definition phase3_date ::
  "session \<Rightarrow> date \<Rightarrow> int \<times> gen_state \<Rightarrow> py_error + (int \<times> gen_state)" where
  "phase3_date cx date_str vs = for_each (phase3_shift cx date_str) (shift_list_today cx date_str) vs"

fun phase3_passes :: "nat \<Rightarrow> session \<Rightarrow> gen_state \<Rightarrow> py_error + gen_state" where
  "phase3_passes 0 cx st = Inr st"
| "phase3_passes (Suc n) cx st =
     (case for_each (phase3_date cx) (dict_keys (schedule st)) (0, st) of
        Inl e \<Rightarrow> Inl e
      | Inr vs \<Rightarrow> (if fst vs = 0 then Inr (snd vs) else phase3_passes n cx (snd vs)))"

definition max_iterations :: nat where
  "max_iterations = 3"

definition phase3 :: "session \<Rightarrow> gen_state \<Rightarrow> py_error + gen_state" where
  "phase3 cx st = phase3_passes max_iterations cx st"

subsection \<open>Fourth round: employees without a shift that day\<close>

fun find_shortages ::
  "session \<Rightarrow> date \<Rightarrow> schedule \<Rightarrow> pystr list \<Rightarrow> py_error + (pystr \<times> int) list" where
  "find_shortages cx date_str sched [] = Inr []"
| "find_shortages cx date_str sched (shift_id # rest) =
     (case getitem (shifts cx) shift_id of Inl e \<Rightarrow> Inl e | Inr shift \<Rightarrow>
     (case get_required_staff cx shift_id date_str sched of Inl e \<Rightarrow> Inl e | Inr required \<Rightarrow>
     (case getitem sched date_str of Inl e \<Rightarrow> Inl e | Inr entry \<Rightarrow>
     (case find_shortages cx date_str sched rest of Inl e \<Rightarrow> Inl e | Inr others \<Rightarrow>
        (if dict_get_or (shift_counts entry) shift_id 0 < required
         then Inr ((shift_id, required - dict_get_or (shift_counts entry) shift_id 0) # others)
         else Inr others)))))"

definition order_shortages ::
  "session \<Rightarrow> (pystr, cycle_info) pydict \<Rightarrow> pystr \<Rightarrow> date \<Rightarrow> (pystr \<times> int) list
     \<Rightarrow> (pystr \<times> int) list" where
  "order_shortages cx cyc emp_id date_str shift_shortages =
     (let cur = current_type (cycle_of cyc emp_id);
          just_rested = check_if_rested cx cyc emp_id date_str
      in case cur of
           None \<Rightarrow> shift_shortages
         | Some t \<Rightarrow>
             if t = Early \<or> t = Late
             then (if just_rested
                   then sort_key (\<lambda>x. (if get_shift_type (fst x) = get_opposite_shift_type t
                                        then 0 else 1 :: int, - snd x)) shift_shortages
                   else sort_key (\<lambda>x. (if get_shift_type (fst x) = t then 0 else 1 :: int, - snd x))
                          shift_shortages)
             else shift_shortages)"

fun try_shifts ::
  "session \<Rightarrow> date \<Rightarrow> pystr \<Rightarrow> (pystr \<times> int) list \<Rightarrow> gen_state \<Rightarrow> py_error + gen_state" where
  "try_shifts cx date_str emp_id [] st = Inr st"
| "try_shifts cx date_str emp_id (x # rest) st =
     (if check_conflicts cx emp_id (fst x) date_str (schedule st) = []
      then (case getitem (schedule st) date_str of Inl e \<Rightarrow> Inl e | Inr entry \<Rightarrow>
           (case getitem (shifts cx) (fst x) of Inl e \<Rightarrow> Inl e | Inr shift \<Rightarrow>
           (case getitem (employee_workload st) emp_id of Inl e \<Rightarrow> Inl e | Inr wl \<Rightarrow>
              Inr \<lparr>schedule = record_assignment (schedule st) date_str entry emp_id (fst x)
                                (dict_get_or (shift_counts entry) (fst x) 0 + 1),
                   employee_workload = dict_set (employee_workload st) emp_id
                                         (add_work wl (duration_hours shift)),
                   employee_shift_cycle = update_cycle_idle cx (employee_shift_cycle st)
                                            emp_id (fst x) date_str\<rparr>)))
      else try_shifts cx date_str emp_id rest st)"

definition phase4_employee :: "session \<Rightarrow> date \<Rightarrow> pystr \<Rightarrow> gen_state \<Rightarrow> py_error + gen_state" where
  "phase4_employee cx date_str emp_id st =
     (case find_shortages cx date_str (schedule st) (shift_list_today cx date_str) of
        Inl e \<Rightarrow> Inl e
      | Inr shift_shortages \<Rightarrow>
          try_shifts cx date_str emp_id
            (order_shortages cx (employee_shift_cycle st) emp_id date_str shift_shortages) st)"

definition workload_key :: "(pystr, workload) pydict \<Rightarrow> pystr \<Rightarrow> int \<times> pyfloat" where
  "workload_key wls emp_id =
     (case map_of wls emp_id of None \<Rightarrow> (0, 0) | Some wl \<Rightarrow> (days wl, hours wl))"

definition phase4_date :: "session \<Rightarrow> date \<Rightarrow> gen_state \<Rightarrow> py_error + gen_state" where
  "phase4_date cx date_str st =
     (case getitem (schedule st) date_str of Inl e \<Rightarrow> Inl e | Inr entry \<Rightarrow>
        (let unassigned_employees =
               filter (\<lambda>emp_id. emp_id \<notin> set (dict_keys (assignments entry))) (employee_list cx)
         in if list_all (\<lambda>emp_id. map_of (employee_workload st) emp_id \<noteq> None) unassigned_employees
            then for_each (phase4_employee cx date_str)
                   (sort_key (workload_key (employee_workload st)) unassigned_employees) st
            else Inl KeyError))"

definition phase4 :: "session \<Rightarrow> gen_state \<Rightarrow> py_error + gen_state" where
  "phase4 cx st = for_each (phase4_date cx) (dict_keys (schedule st)) st"

subsection \<open>The handler\<close>

definition date_range :: "date \<Rightarrow> date \<Rightarrow> date list" where
  "date_range start_date end_date =
     map (\<lambda>x. start_date + int x) [0..<nat (end_date - start_date + 1)]"

definition initial_state :: "session \<Rightarrow> date \<Rightarrow> date \<Rightarrow> gen_state" where
  "initial_state cx start_date end_date =
     \<lparr>schedule =
        fold (\<lambda>d sched. dict_set sched d
                 \<lparr>assignments = [],
                  shift_counts = fold (\<lambda>shift_id c. dict_set c shift_id 0) (dict_keys (shifts cx)) []\<rparr>)
          (date_range start_date end_date) [],
      employee_workload =
        fold (\<lambda>emp_id w. dict_set w emp_id \<lparr>days = 0, hours = 0\<rparr>) (employee_list cx) [],
      employee_shift_cycle =
        fold (\<lambda>emp_id c. dict_set c emp_id
                 \<lparr>current_type = None, last_work_date = None, rested = False\<rparr>)
          (employee_list cx) []\<rparr>"

definition run_generation :: "session \<Rightarrow> date \<Rightarrow> date \<Rightarrow> py_error + schedule" where
  "run_generation cx start_date end_date =
     (case phase1 cx (initial_state cx start_date end_date) of Inl e \<Rightarrow> Inl e | Inr st1 \<Rightarrow>
     (case phase2 cx st1 of Inl e \<Rightarrow> Inl e | Inr st2 \<Rightarrow>
     (case phase3 cx st2 of Inl e \<Rightarrow> Inl e | Inr st3 \<Rightarrow>
     (case phase4 cx st3 of Inl e \<Rightarrow> Inl e | Inr st4 \<Rightarrow> Inr (schedule st4)))))"

text \<open>
  \<^verbatim>\<open>generate_schedule\<close> with the button pressed. The page returns before the date
  pickers when there are no employees or no shifts, and before the button when the
  start date is not before the end date; otherwise the run replaces the stored
  schedule. An exception of the run would leave the session as it was.
\<close>

datatype precondition = NoEmployeesOrShifts | EndNotAfterStart

datatype outcome = PreconditionError precondition | Raised py_error | Generated

definition generate_schedule :: "session \<Rightarrow> date \<Rightarrow> date \<Rightarrow> outcome \<times> session" where
  "generate_schedule ss start_date end_date =
     (if employees ss = [] \<or> shifts ss = [] then (PreconditionError NoEmployeesOrShifts, ss)
      else if start_date \<ge> end_date then (PreconditionError EndNotAfterStart, ss)
      else (case run_generation ss start_date end_date of
              Inl e \<Rightarrow> (Raised e, ss)
            | Inr sched \<Rightarrow> (Generated, ss\<lparr>stored_schedule := sched\<rparr>)))"

section \<open>Notions of the proofs and example data\<close>

text \<open>
  What follows is not code of the program: the step relation and the invariants the
  proofs use, the wording of the specification where a theorem compares it with the
  source, and small concrete inputs on which the functions are evaluated.
\<close>

text \<open>
  A marker occurs in a shift id when the id is some text, the marker, and some text: what
  Python's \<^verbatim>\<open>marker in shift_id\<close> decides (\<open>str_contains\<close> computes it).
\<close>

definition occurs_in :: "'a list \<Rightarrow> 'a list \<Rightarrow> bool" where
  "occurs_in marker text = (\<exists>before after. text = before @ marker @ after)"

text \<open>
  The late shift U+665A U+73ED; employee "A" (the id \<open>[65]\<close>), who rests on Tuesdays
  (U+5468 U+4E8C) and has no other restriction; shifts that need \<open>n\<close> people for eight
  hours and ask for no skill. The days 738886, 738887 and 738888 are Monday 2024-01-01,
  Tuesday 2024-01-02 and Wednesday 2024-01-03.
\<close>

definition late_shift_id :: pystr where
  "late_shift_id = [26202, 29677]"

definition ex_employee :: employee where
  "ex_employee = \<lparr>emp_name = None, position = [], skills = [], weekly_hours = 40,
     rest_day = [21608, 20108], preferred_shifts = [], unavailable_days = []\<rparr>"

definition ex_shift :: "int \<Rightarrow> shift_rec" where
  "ex_shift n = \<lparr>start_time = [], end_time = [], required_staff = Some n,
     required_skills = [], duration_hours = 8\<rparr>"

definition ex_rules :: rule_config where
  "ex_rules = \<lparr>min_rest_hours = 8, max_consecutive_days = 5, min_weekly_hours = 30,
     max_weekly_hours = 50, fixed_early_early_shift_employees = [],
     monday_no_early_early_shift = False\<rparr>"

definition ex_session :: session where
  "ex_session = \<lparr>employees = [([65], ex_employee)],
     shifts = [(early_shift_id, ex_shift 3), (late_shift_id, ex_shift 3)], rules = ex_rules,
     stored_schedule = [], schedule_period = (738886, 738916)\<rparr>"

definition ex_schedule :: schedule where
  "ex_schedule =
     [(738886, \<lparr>assignments = [], shift_counts = [(early_early_shift_id, 0)]\<rparr>),
      (738887, \<lparr>assignments = [([66], early_early_shift_id)], shift_counts = [(early_early_shift_id, 1)]\<rparr>)]"

text \<open>
  The test of the last block of \<^verbatim>\<open>check_conflicts\<close>: the date has an entry in the
  schedule and the employee is a key of its assignments.
\<close>

definition already_assigned :: "schedule \<Rightarrow> date \<Rightarrow> pystr \<Rightarrow> bool" where
  "already_assigned sched d emp_id =
     (case map_of sched d of None \<Rightarrow> False
      | Some entry \<Rightarrow> emp_id \<in> set (dict_keys (assignments entry)))"

text \<open>
  The rotation term as the specification words it: one chain of three alternatives, for
  comparison with the last block of \<open>get_employee_score\<close>. \<open>float_sum\<close> is a sum as
  the source accumulates it: from \<^verbatim>\<open>0.0\<close>, one float addition for each term, from left to
  right.
\<close>

definition float_sum :: "pyfloat list \<Rightarrow> pyfloat" where
  "float_sum terms = foldl float_add 0 terms"

definition spec_rotation_term :: "bool \<Rightarrow> shift_type option \<Rightarrow> shift_type \<Rightarrow> rat" where
  "spec_rotation_term just_rested cur new_type =
     (if just_rested \<and> (cur = Some Early \<or> cur = Some Late)
         \<and> Some new_type = map_option get_opposite_shift_type cur then - 5
      else if cur \<noteq> None \<and> Some new_type = cur then - 3
      else 0)"

definition ex_cycle :: "shift_type \<Rightarrow> (pystr, cycle_info) pydict" where
  "ex_cycle t = [([65], \<lparr>current_type = Some t, last_work_date = Some 738886, rested = False\<rparr>)]"

definition ex_workload :: "(pystr, workload) pydict" where
  "ex_workload = [([65], \<lparr>days = 1, hours = 8\<rparr>)]"

text \<open>
  The current type after an assignment as the specification words it: it becomes the
  shift's type when the employee has just rested and the current type is a rotating one
  (set and not "other"), and otherwise only when it was unset.
\<close>

definition spec_current_type_after :: "bool \<Rightarrow> shift_type option \<Rightarrow> shift_type \<Rightarrow> shift_type option" where
  "spec_current_type_after just_rested cur new_type =
     (if just_rested \<and> cur \<noteq> None \<and> cur \<noteq> Some Other then Some new_type
      else if cur = None then Some new_type
      else cur)"

definition ex_state :: "shift_type \<Rightarrow> gen_state" where
  "ex_state t =
     \<lparr>schedule = [(738888, \<lparr>assignments = [], shift_counts = [(early_shift_id, 0), (late_shift_id, 0)]\<rparr>)],
      employee_workload = ex_workload,
      employee_shift_cycle = ex_cycle t\<rparr>"

definition ex_state_after :: gen_state where
  "ex_state_after =
     \<lparr>schedule = [(738888, \<lparr>assignments = [([65], late_shift_id)],
                              shift_counts = [(early_shift_id, 0), (late_shift_id, 1)]\<rparr>)],
      employee_workload = [([65], \<lparr>days = 2, hours = 16\<rparr>)],
      employee_shift_cycle =
        [([65], \<lparr>current_type = Some Late, last_work_date = Some 738888, rested = True\<rparr>)]\<rparr>"

text \<open>
  The rotation update as the amended claim C3 words it, on the employee's rotation
  record before and after an assignment of a shift of type \<open>new_type\<close> on date \<open>d\<close>;
  and the shift an employee has on a date of a schedule, if any.
\<close>

definition rotation_updated ::
  "bool \<Rightarrow> cycle_info \<Rightarrow> shift_type \<Rightarrow> date \<Rightarrow> cycle_info \<Rightarrow> bool" where
  "rotation_updated just_rested before new_type d after =
     (current_type after =
        (if just_rested then Some new_type
         else (case current_type before of None \<Rightarrow> Some new_type | Some t \<Rightarrow> Some t))
      \<and> last_work_date after = Some d)"

definition assigned_on :: "schedule \<Rightarrow> date \<Rightarrow> pystr \<Rightarrow> pystr option" where
  "assigned_on sched d emp_id =
     (case map_of sched d of None \<Rightarrow> None | Some entry \<Rightarrow> map_of (assignments entry) emp_id)"

text \<open>
  Two sessions with the same employees, shifts and rules; they may differ in the stored
  schedule and in the default period.
\<close>

definition same_inputs :: "session \<Rightarrow> session \<Rightarrow> bool" where
  "same_inputs ss1 ss2 =
     (employees ss1 = employees ss2 \<and> shifts ss1 = shifts ss2 \<and> rules ss1 = rules ss2)"

text \<open>
  The schedules that a schedule can grow into by the one step all four rounds share: an
  employee who passes \<^verbatim>\<open>check_conflicts\<close> for a shift and a date of the schedule is
  entered in that date's assignments, and the shift's count of that date goes up by one.
\<close>

inductive placements :: "session \<Rightarrow> schedule \<Rightarrow> schedule \<Rightarrow> bool" for cx :: session where
  placements_refl: "placements cx sched sched"
| placements_step:
    "placements cx sched sched1 \<Longrightarrow> map_of sched1 d = Some entry
     \<Longrightarrow> check_conflicts cx emp_id shift_id d sched1 = []
     \<Longrightarrow> placements cx sched
           (record_assignment sched1 d entry emp_id shift_id
              (dict_get_or (shift_counts entry) shift_id 0 + 1))"

text \<open>
  The two invariants of a day's entry: every employee is entered at most once and every
  shift's count is the number of assignments to it; and every employee entered is known,
  does not rest on the weekday of the date and is not unavailable on the date.
\<close>

definition entry_consistent :: "day_entry \<Rightarrow> bool" where
  "entry_consistent entry =
     (distinct (dict_keys (assignments entry))
      \<and> (\<forall>shift_id. dict_get_or (shift_counts entry) shift_id 0
             = int (length (filter (\<lambda>a. snd a = shift_id) (assignments entry)))))"

definition entry_available :: "session \<Rightarrow> date \<Rightarrow> day_entry \<Rightarrow> bool" where
  "entry_available cx d entry =
     list_all (\<lambda>emp_id.
        case map_of (employees cx) emp_id of
          None \<Rightarrow> False
        | Some emp \<Rightarrow> get_weekday_chinese d \<noteq> rest_day emp
                      \<and> \<not> str_contains (strftime_ymd d) (unavailable_days emp))
       (dict_keys (assignments entry))"

text \<open>
  A run small enough to follow by hand: employee "A" rests on Tuesdays, employee "B" is
  unavailable on 2024-01-01 (a Monday, day 738886), and the one shift, a late shift,
  needs one person on each of the two days 2024-01-01 and 2024-01-02. The second round
  gives Monday to A and Tuesday to B; the other rounds change nothing.
\<close>

definition demo_employee_b :: employee where
  "demo_employee_b = \<lparr>emp_name = None, position = [], skills = [], weekly_hours = 40,
     rest_day = [], preferred_shifts = [],
     unavailable_days = [50, 48, 50, 52, 45, 48, 49, 45, 48, 49]\<rparr>"

definition demo_schedule :: schedule where
  "demo_schedule =
     [(738886, \<lparr>assignments = [([65], late_shift_id)], shift_counts = [(late_shift_id, 1)]\<rparr>),
      (738887, \<lparr>assignments = [([66], late_shift_id)], shift_counts = [(late_shift_id, 1)]\<rparr>)]"

definition demo_st0 :: gen_state where
  "demo_st0 =
     \<lparr>schedule = [(738886, \<lparr>assignments = [], shift_counts = [(late_shift_id, 0)]\<rparr>),
                  (738887, \<lparr>assignments = [], shift_counts = [(late_shift_id, 0)]\<rparr>)],
      employee_workload = [([65], \<lparr>days = 0, hours = 0\<rparr>), ([66], \<lparr>days = 0, hours = 0\<rparr>)],
      employee_shift_cycle =
        [([65], \<lparr>current_type = None, last_work_date = None, rested = False\<rparr>),
         ([66], \<lparr>current_type = None, last_work_date = None, rested = False\<rparr>)]\<rparr>"

definition demo_st1 :: gen_state where
  "demo_st1 =
     \<lparr>schedule = [(738886, \<lparr>assignments = [([65], late_shift_id)], shift_counts = [(late_shift_id, 1)]\<rparr>),
                  (738887, \<lparr>assignments = [], shift_counts = [(late_shift_id, 0)]\<rparr>)],
      employee_workload = [([65], \<lparr>days = 1, hours = 8\<rparr>), ([66], \<lparr>days = 0, hours = 0\<rparr>)],
      employee_shift_cycle =
        [([65], \<lparr>current_type = Some Late, last_work_date = Some 738886, rested = False\<rparr>),
         ([66], \<lparr>current_type = None, last_work_date = None, rested = False\<rparr>)]\<rparr>"

definition demo_st2 :: gen_state where
  "demo_st2 =
     \<lparr>schedule = demo_schedule,
      employee_workload = [([65], \<lparr>days = 1, hours = 8\<rparr>), ([66], \<lparr>days = 1, hours = 8\<rparr>)],
      employee_shift_cycle =
        [([65], \<lparr>current_type = Some Late, last_work_date = Some 738886, rested = False\<rparr>),
         ([66], \<lparr>current_type = Some Late, last_work_date = Some 738887, rested = False\<rparr>)]\<rparr>"

text \<open>
  Sessions around the example: the same employees, shifts and rules with any stored
  schedule and default period, and a session without employees.
\<close>

definition demo_session :: "schedule \<Rightarrow> date \<times> date \<Rightarrow> session" where
  "demo_session old period =
     \<lparr>employees = [([65], ex_employee), ([66], demo_employee_b)],
      shifts = [(late_shift_id, ex_shift 1)], rules = ex_rules,
      stored_schedule = old, schedule_period = period\<rparr>"

definition empty_session :: session where
  "empty_session =
     \<lparr>employees = [], shifts = [(late_shift_id, ex_shift 1)], rules = ex_rules,
      stored_schedule = demo_schedule, schedule_period = (738886, 738887)\<rparr>"

text \<open>
  Two employees whose scores for the late shift on Wednesday 2024-01-03 have the same
  exact sum, 10 + 0.8 - 5: "A" has worked an early shift on Monday and rested on
  Tuesday, so the source subtracts the 5 of the rotation last; "B" prefers the late
  shift, so the source subtracts the 5 before it adds the hours.
\<close>

definition tie_employee :: employee where
  "tie_employee = \<lparr>emp_name = None, position = [], skills = [], weekly_hours = 40,
     rest_day = [], preferred_shifts = [late_shift_id], unavailable_days = []\<rparr>"

definition tie_session :: session where
  "tie_session = \<lparr>employees = [([65], ex_employee), ([66], tie_employee)],
     shifts = [(late_shift_id, ex_shift 1)], rules = ex_rules,
     stored_schedule = [], schedule_period = (738886, 738916)\<rparr>"

definition tie_state :: gen_state where
  "tie_state =
     \<lparr>schedule = [(738888, \<lparr>assignments = [], shift_counts = [(late_shift_id, 0)]\<rparr>)],
      employee_workload = [([65], \<lparr>days = 1, hours = 8\<rparr>), ([66], \<lparr>days = 1, hours = 8\<rparr>)],
      employee_shift_cycle =
        [([65], \<lparr>current_type = Some Early, last_work_date = Some 738886, rested = False\<rparr>),
         ([66], \<lparr>current_type = None, last_work_date = None, rested = False\<rparr>)]\<rparr>"

text \<open>
  What keeps every lookup of the run defined: the schedule has exactly the dates of the
  run as its keys, in order, and every employee has a workload entry.
\<close>

definition ready :: "session \<Rightarrow> date list \<Rightarrow> gen_state \<Rightarrow> bool" where
  "ready cx ks st =
     (dict_keys (schedule st) = ks
      \<and> list_all (\<lambda>emp_id. map_of (employee_workload st) emp_id \<noteq> None) (employee_list cx))"

section \<open>Strings, dictionaries and dates\<close>

lemma floor_rat_numeral_div:
  "\<lfloor>numeral a / numeral b :: rat\<rfloor> = numeral a div numeral b"
  using floor_divide_of_int_eq [of "numeral a" "numeral b", where ?'a = rat] by simp

lemma ceiling_rat_numeral_div:
  "\<lceil>numeral a / numeral b :: rat\<rceil> = - (- numeral a div numeral b)"
  using floor_divide_of_int_eq [of "- numeral a" "numeral b", where ?'a = rat]
  by (simp add: ceiling_def)

lemma floor_rat_neg_numeral_div:
  "\<lfloor>- (numeral a / numeral b) :: rat\<rfloor> = - numeral a div numeral b"
  using floor_divide_of_int_eq [of "- numeral a" "numeral b", where ?'a = rat] by simp

lemma floor_rat_one_div:
  "\<lfloor>1 / numeral b :: rat\<rfloor> = 1 div numeral b"
  using floor_divide_of_int_eq [of 1 "numeral b", where ?'a = rat] by simp

lemma ceiling_rat_one_div:
  "\<lceil>1 / numeral b :: rat\<rceil> = - (- 1 div numeral b)"
  using floor_divide_of_int_eq [of "- 1" "numeral b", where ?'a = rat]
  by (simp add: ceiling_def)

lemma bit_length_numeral: "bit_length (numeral k) = Suc (bit_length (numeral k div 2))"
  by (subst bit_length.simps) simp

lemma bit_length_0: "bit_length 0 = 0"
  by (subst bit_length.simps) simp

lemma bit_length_1: "bit_length (Suc 0) = 1"
  by (subst bit_length.simps) (simp add: bit_length_0)

lemmas float_eval =
  round_double_def float_exponent_def pow2_def round_half_even_def Let_def
  floor_rat_numeral_div ceiling_rat_numeral_div floor_rat_neg_numeral_div floor_rat_one_div
  ceiling_rat_one_div bit_length_numeral bit_length_0 bit_length_1

text \<open>
  The literal \<^verbatim>\<open>0.1\<close> is 3602879701896397 / 2 ^ 55; the steps of
  \<^verbatim>\<open>((0.0 + 10) + 8 * 0.1) - 5\<close>, which Python prints as 5.800000000000001.
\<close>

lemma one_tenth_value: "one_tenth = 3602879701896397 / 36028797018963968"
  by (simp add: one_tenth_def float_eval)

lemma ex_score_steps:
  "float_add 0 (float_of_int 10) = 10"
  "float_mul 8 one_tenth = 3602879701896397 / 4503599627370496"
  "float_add 10 (3602879701896397 / 4503599627370496) = 3039929748475085 / 281474976710656"
  "float_sub (3039929748475085 / 281474976710656) 5 = 1632554864921805 / 281474976710656"
  by (simp_all add: float_add_def float_sub_def float_mul_def float_of_int_def one_tenth_value
      float_eval)

lemma float_add_small:
  "float_add 0 8 = 8" "float_add 8 8 = 16"
  by (simp_all add: float_add_def float_eval)

text \<open>
  The rounding is to a nearest number with a mantissa of at most 53 bits:
  \<open>float_exponent\<close> is the binary exponent, the result is a multiple of the unit in the
  last place and is within half a unit of the argument.
\<close>

lemma bit_length_bounds:
  "0 < n \<Longrightarrow> 2 ^ (bit_length n - 1) \<le> n \<and> n < 2 ^ bit_length n"
proof (induction n rule: bit_length.induct)
  case (1 n)
  show ?case
  proof (cases "n div 2 = 0")
    case True
    then have "n = 1" using "1.prems" by (simp add: div_eq_0_iff) 
    then show ?thesis
      by (simp add: bit_length_1)
  next
    case False
    then have pos: "0 < n div 2" by simp
    have ih: "2 ^ (bit_length (n div 2) - 1) \<le> n div 2 \<and> n div 2 < 2 ^ bit_length (n div 2)"
      using "1.IH" "1.prems" pos by simp
    have bl: "bit_length n = Suc (bit_length (n div 2))"
      using "1.prems" by (subst bit_length.simps) simp
    have blpos: "0 < bit_length (n div 2)"
      using pos by (subst bit_length.simps) simp
    have a: "2 ^ bit_length (n div 2) \<le> n"
    proof -
      have "2 * 2 ^ (bit_length (n div 2) - 1) \<le> 2 * (n div 2)" using ih by simp
      moreover have "2 * 2 ^ (bit_length (n div 2) - 1) = (2::nat) ^ bit_length (n div 2)"
        using blpos by (cases "bit_length (n div 2)") simp_all
      moreover have "2 * (n div 2) \<le> n" by simp
      ultimately show ?thesis by linarith
    qed
    have b: "n < 2 * 2 ^ bit_length (n div 2)"
    proof -
      have "n div 2 + 1 \<le> 2 ^ bit_length (n div 2)" using ih by simp
      then have "2 * (n div 2) + 2 \<le> 2 * 2 ^ bit_length (n div 2)" by simp
      moreover have "n < 2 * (n div 2) + 2" by presburger
      ultimately show ?thesis by linarith
    qed
    show ?thesis using a b bl by simp
  qed
qed

lemma pow2_pos: "0 < pow2 e"
  by (simp add: pow2_def)

lemma pow2_Suc: "pow2 (e + 1) = 2 * pow2 e"
proof (cases "0 \<le> e")
  case True
  then show ?thesis by (simp add: pow2_def nat_add_distrib)
next
  case False
  then have "nat (- e) = Suc (nat (- (e + 1)))" by simp
  then show ?thesis using False by (simp add: pow2_def)
qed

lemma float_exponent_bounds:
  assumes "x \<noteq> 0"
  shows "pow2 (float_exponent x) \<le> \<bar>x\<bar> \<and> \<bar>x\<bar> < pow2 (float_exponent x + 1)"
proof (cases "1 \<le> \<bar>x\<bar>")
  case True
  define n where "n = nat \<lfloor>\<bar>x\<bar>\<rfloor>"
  have n1: "0 < n" using True by (simp add: n_def)
  have "0 \<le> \<lfloor>\<bar>x\<bar>\<rfloor>" by simp
  then have nn: "(of_nat n :: rat) = of_int \<lfloor>\<bar>x\<bar>\<rfloor>"
    unfolding n_def by (metis of_int_of_nat_eq int_nat_eq)
  have fl: "of_nat n \<le> \<bar>x\<bar>" "\<bar>x\<bar> < of_nat n + 1"
    unfolding nn by linarith+
  have e: "float_exponent x = int (bit_length n) - 1"
    using True by (simp add: float_exponent_def n_def)
  have blpos: "0 < bit_length n" using n1 by (subst bit_length.simps) simp
  from bit_length_bounds [OF n1] have b: "2 ^ (bit_length n - 1) \<le> n" "n < 2 ^ bit_length n"
    by simp_all
  have p1: "pow2 (int (bit_length n) - 1) = 2 ^ (bit_length n - 1)"
    using blpos by (simp add: pow2_def nat_diff_distrib)
  have p2: "pow2 (int (bit_length n) - 1 + 1) = 2 ^ bit_length n"
    by (simp add: pow2_def)
  have a1: "(2::rat) ^ (bit_length n - 1) \<le> of_nat n"
    using b(1) by (metis of_nat_le_iff of_nat_numeral of_nat_power)
  have a2: "of_nat n + 1 \<le> (2::rat) ^ bit_length n"
  proof -
    have "n + 1 \<le> 2 ^ bit_length n" using b(2) by simp
    then have "(of_nat (n + 1) :: rat) \<le> of_nat (2 ^ bit_length n)"
      by (simp only: of_nat_le_iff)
    then show ?thesis by simp
  qed
  have lo: "(2::rat) ^ (bit_length n - 1) \<le> \<bar>x\<bar>"
    using a1 fl(1) by (rule order_trans)
  have hi: "\<bar>x\<bar> < (2::rat) ^ bit_length n"
    using fl(2) a2 by (rule less_le_trans)
  show ?thesis
    unfolding e p1 p2 using lo hi by (intro conjI)
next
  case False
  define y where "y = 1 / \<bar>x\<bar>"
  have xpos: "0 < \<bar>x\<bar>" using assms by simp
  have y1: "1 < y" using False xpos by (simp add: y_def)
  define c where "c = \<lceil>y\<rceil>"
  have c2: "2 \<le> c" using y1 by (simp add: c_def)
  define n where "n = nat (c - 1)"
  have n1: "0 < n" using c2 by (simp add: n_def)
  have cn: "of_int c = (of_nat n + 1 :: rat)" using c2 by (simp add: n_def)
  have ce: "of_int c - 1 < y" "y \<le> of_int c"
    by (simp_all add: c_def) linarith+
  have e: "float_exponent x = - int (bit_length n)"
    using False by (simp add: float_exponent_def n_def c_def y_def)
  have blpos: "0 < bit_length n" using n1 by (subst bit_length.simps) simp
  from bit_length_bounds [OF n1] have b: "2 ^ (bit_length n - 1) \<le> n" "n < 2 ^ bit_length n"
    by simp_all
  have p1: "pow2 (- int (bit_length n)) = 1 / 2 ^ bit_length n"
    using blpos by (simp add: pow2_def)
  have p2: "pow2 (- int (bit_length n) + 1) = 1 / 2 ^ (bit_length n - 1)"
  proof (cases "bit_length n = 1")
    case True
    then show ?thesis by (simp add: pow2_def)
  next
    case False
    then have "nat (int (bit_length n) - 1) = bit_length n - 1" "\<not> 0 \<le> - int (bit_length n) + 1"
      using blpos by simp_all
    then show ?thesis by (simp add: pow2_def)
  qed
  have a1: "(2::rat) ^ (bit_length n - 1) \<le> of_nat n"
    using b(1) by (metis of_nat_le_iff of_nat_numeral of_nat_power)
  have a2: "of_nat n + 1 \<le> (2::rat) ^ bit_length n"
  proof -
    have "n + 1 \<le> 2 ^ bit_length n" using b(2) by simp
    then have "(of_nat (n + 1) :: rat) \<le> of_nat (2 ^ bit_length n)"
      by (simp only: of_nat_le_iff)
    then show ?thesis by simp
  qed
  have up: "y \<le> 2 ^ bit_length n"
    using ce(2) a2 unfolding cn by (rule order_trans)
  have "of_nat n < y" using ce(1) unfolding cn by simp
  with a1 have lo: "2 ^ (bit_length n - 1) < y"
    by (rule le_less_trans)
  have ypos: "0 < y" using y1 by simp
  have xy: "\<bar>x\<bar> = 1 / y" using xpos by (simp add: y_def)
  have r1: "1 / 2 ^ bit_length n \<le> \<bar>x\<bar>"
    unfolding xy using up ypos by (simp add: frac_le)
  have r2: "\<bar>x\<bar> < 1 / 2 ^ (bit_length n - 1)"
    unfolding xy using lo by (simp add: frac_less2)
  show ?thesis
    unfolding e p1 p2 using r1 r2 by (intro conjI)
qed

lemma round_half_even_near: "\<bar>of_int (round_half_even q) - q\<bar> \<le> 1 / 2"
proof -
  have "of_int \<lfloor>q\<rfloor> \<le> q" "q < of_int \<lfloor>q\<rfloor> + 1" by linarith+
  then show ?thesis
    unfolding round_half_even_def Let_def
    by (auto simp: abs_if) linarith+
qed

lemma round_half_even_int [simp]: "round_half_even (of_int k) = k"
  by (simp add: round_half_even_def)

text \<open>The result is a multiple of the unit in the last place, within half a unit of x.\<close>

lemma round_double_nearest:
  assumes "x \<noteq> 0"
  shows "\<exists>m. round_double x = of_int m * pow2 (max (float_exponent x) (- 1022) - 52)
     \<and> \<bar>round_double x - x\<bar> \<le> pow2 (max (float_exponent x) (- 1022) - 52) / 2"
proof -
  let ?u = "pow2 (max (float_exponent x) (- 1022) - 52)"
  let ?m = "round_half_even (x / ?u)"
  have u: "0 < ?u" by (rule pow2_pos)
  have r: "round_double x = of_int ?m * ?u"
    using assms by (simp add: round_double_def Let_def)
  have "\<bar>of_int ?m - x / ?u\<bar> \<le> 1 / 2" by (rule round_half_even_near)
  then have "\<bar>of_int ?m - x / ?u\<bar> * ?u \<le> 1 / 2 * ?u"
    using u by (simp only: mult_le_cancel_right_pos)
  moreover have "\<bar>of_int ?m - x / ?u\<bar> * ?u = \<bar>of_int ?m * ?u - x\<bar>"
  proof -
    have "\<bar>of_int ?m - x / ?u\<bar> * ?u = \<bar>(of_int ?m - x / ?u) * ?u\<bar>"
      using u by (simp add: abs_mult)
    also have "(of_int ?m - x / ?u) * ?u = of_int ?m * ?u - x"
      using u by (simp add: field_simps)
    finally show ?thesis .
  qed
  ultimately have "\<bar>of_int ?m * ?u - x\<bar> \<le> ?u / 2" by simp
  then show ?thesis using r by auto
qed


lemma pow2_powi: "pow2 e = 2 powi e"
  by (simp add: pow2_def power_int_def power_one_over inverse_eq_divide)

lemma pow2_add: "pow2 (a + b) = pow2 a * pow2 b"
  by (simp add: pow2_powi power_int_add)

lemma pow2_mono: "a \<le> b \<Longrightarrow> pow2 a \<le> pow2 b"
  by (simp add: pow2_powi power_int_increasing)

text \<open>The mantissa has at most 53 bits.\<close>

lemma round_double_mantissa:
  "\<bar>round_half_even (x / pow2 (max (float_exponent x) (- 1022) - 52))\<bar> \<le> 2 ^ 53"
proof (cases "x = 0")
  case True
  then show ?thesis using round_half_even_int [of 0] by simp
next
  case False
  let ?e = "max (float_exponent x) (- 1022)"
  let ?u = "pow2 (?e - 52)"
  define q where "q = x / ?u"
  have u: "0 < ?u" by (rule pow2_pos)
  have "\<bar>x\<bar> < pow2 (float_exponent x + 1)"
    using float_exponent_bounds [OF False] by simp
  also have "\<dots> \<le> pow2 (?e + 1)" by (rule pow2_mono) simp
  also have "pow2 (?e + 1) = pow2 53 * ?u"
    using pow2_add [of 53 "?e - 52"] by (simp add: algebra_simps)
  finally have "\<bar>x\<bar> < pow2 53 * ?u" .
  then have "\<bar>x\<bar> / ?u < pow2 53"
    using u by (simp add: pos_divide_less_eq)
  moreover have "\<bar>q\<bar> = \<bar>x\<bar> / ?u"
    unfolding q_def using u by (simp only: abs_divide abs_of_pos)
  moreover have "pow2 53 = of_int (2 ^ 53)" by (simp add: pow2_def)
  ultimately have "\<bar>q\<bar> < of_int (2 ^ 53)" by (simp only:)
  then have q: "q < of_int (2 ^ 53)" "of_int (- (2 ^ 53)) < q"
    by (simp_all only: abs_less_iff of_int_minus) linarith
  define f where "f = \<lfloor>q\<rfloor>"
  have f1: "f < 2 ^ 53"
    unfolding f_def using q(1) by (simp only: floor_less_iff)
  have f2: "- (2 ^ 53) \<le> f"
    unfolding f_def using q(2) by (simp only: le_floor_iff less_imp_le)
  have "round_half_even q = f \<or> round_half_even q = f + 1"
    by (simp add: round_half_even_def Let_def f_def)
  then have "\<bar>round_half_even q\<bar> \<le> 2 ^ 53" using f1 f2 by auto
  then show ?thesis by (simp only: q_def)
qed

lemma startswith_iff: "startswith p s \<longleftrightarrow> (\<exists>t. s = p @ t)"
  by (induction p s rule: startswith.induct) auto

lemma str_contains_iff: "str_contains needle hay \<longleftrightarrow> (\<exists>p s. hay = p @ needle @ s)"
proof (induction hay)
  case Nil
  then show ?case by auto
next
  case (Cons c cs)
  show ?case
  proof
    assume "str_contains needle (c # cs)"
    then consider "startswith needle (c # cs)" | "str_contains needle cs" by auto
    then show "\<exists>p s. c # cs = p @ needle @ s"
    proof cases
      case 1
      then obtain t where "c # cs = needle @ t" by (auto simp: startswith_iff)
      then have "c # cs = [] @ needle @ t" by simp
      then show ?thesis by blast
    next
      case 2
      then obtain p s where "cs = p @ needle @ s" using Cons.IH by blast
      then have "c # cs = (c # p) @ needle @ s" by simp
      then show ?thesis by blast
    qed
  next
    assume "\<exists>p s. c # cs = p @ needle @ s"
    then obtain p s where ps: "c # cs = p @ needle @ s" by blast
    show "str_contains needle (c # cs)"
    proof (cases p)
      case Nil
      then have "startswith needle (c # cs)" using ps by (auto simp: startswith_iff)
      then show ?thesis by simp
    next
      case (Cons a p')
      then have "cs = p' @ needle @ s" using ps by simp
      then have "str_contains needle cs" using Cons.IH by blast
      then show ?thesis by simp
    qed
  qed
qed

lemma occurs_in_str_contains: "occurs_in marker text = str_contains marker text"
  unfolding occurs_in_def by (rule str_contains_iff [symmetric])

lemma weekday_less_7: "weekday d < 7"
  by (simp add: weekday_def nat_less_iff)

lemma rest_day_passed_iff:
  "rest_day_passed rest c d \<longleftrightarrow> (\<exists>k. c \<le> k \<and> k \<le> d \<and> get_weekday_chinese k = rest)"
proof (induction rest c d rule: rest_day_passed.induct)
  case (1 rest c d)
  show ?case
  proof (cases "c \<le> d")
    case False
    then show ?thesis by (subst rest_day_passed.simps) auto
  next
    case le: True
    show ?thesis
    proof (cases "get_weekday_chinese c = rest")
      case True
      then show ?thesis using le by (subst rest_day_passed.simps) auto
    next
      case False
      have "rest_day_passed rest c d = rest_day_passed rest (c + 1) d"
        using le False by (subst rest_day_passed.simps) simp
      also have "\<dots> \<longleftrightarrow> (\<exists>k. c + 1 \<le> k \<and> k \<le> d \<and> get_weekday_chinese k = rest)"
        using "1.IH" le False by simp
      also have "\<dots> \<longleftrightarrow> (\<exists>k. c \<le> k \<and> k \<le> d \<and> get_weekday_chinese k = rest)"
      proof
        assume "\<exists>k. c + 1 \<le> k \<and> k \<le> d \<and> get_weekday_chinese k = rest"
        then show "\<exists>k. c \<le> k \<and> k \<le> d \<and> get_weekday_chinese k = rest"
          by (metis add_le_imp_le_right le_add1 order_trans zle_add1_eq_le zless_imp_add1_zle linorder_not_less order_less_imp_le)
      next
        assume "\<exists>k. c \<le> k \<and> k \<le> d \<and> get_weekday_chinese k = rest"
        then obtain k where k: "c \<le> k" "k \<le> d" "get_weekday_chinese k = rest" by blast
        with False have "k \<noteq> c" by auto
        with k have "c + 1 \<le> k" by simp
        with k show "\<exists>k. c + 1 \<le> k \<and> k \<le> d \<and> get_weekday_chinese k = rest" by blast
      qed
      finally show ?thesis .
    qed
  qed
qed

section \<open>Verified properties\<close>

text \<open>
  C10: the shift type is a function of the shift id, decided by which markers occur in
  the id, in a fixed order (the early-early marker U+65E9 U+65E9 first, then early
  U+65E9, late U+665A, mid U+4E2D, else other); so an id with both the early-early and
  the late marker is early-early, and an id with the early and the late marker but no
  early-early marker is early.
\<close>

theorem get_shift_type_priority:
  "get_shift_type shift_id =
     (if occurs_in [26089, 26089] shift_id then EarlyEarly
      else if occurs_in [26089] shift_id then Early
      else if occurs_in [26202] shift_id then Late
      else if occurs_in [20013] shift_id then Mid
      else Other)
   \<and> (occurs_in [26089, 26089] shift_id \<and> occurs_in [26202] shift_id
        \<longrightarrow> get_shift_type shift_id = EarlyEarly)
   \<and> (occurs_in [26089] shift_id \<and> occurs_in [26202] shift_id
        \<and> \<not> occurs_in [26089, 26089] shift_id \<longrightarrow> get_shift_type shift_id = Early)"
  by (simp add: get_shift_type_def occurs_in_str_contains)

theorem get_shift_type_priority_witness:
  "occurs_in [26089, 26089] [26202, 26089, 26089 :: nat] \<and> occurs_in [26202] [26202, 26089, 26089 :: nat]
   \<and> get_shift_type [26202, 26089, 26089] = EarlyEarly
   \<and> occurs_in [26089] [26202, 26089 :: nat] \<and> occurs_in [26202] [26202, 26089 :: nat]
   \<and> \<not> occurs_in [26089, 26089] [26202, 26089 :: nat] \<and> get_shift_type [26202, 26089] = Early"
  using get_shift_type_priority [of "[26202, 26089, 26089]"] get_shift_type_priority [of "[26202, 26089]"]
  by (simp add: occurs_in_str_contains)

text \<open>
  C1 (amended): the staffing resolver returns the base required staff of a shift other
  than the dependent one (1 when the shift gives none). For the dependent shift and a
  schedule that is not the empty dict it returns 2 when the count of the trigger shift on
  that date of the schedule is 0 (also when the date or the count is missing), and 1
  when it is at least 1. For the dependent shift and the empty dict it returns the base
  required staff of the dependent shift, as for any other shift.
\<close>

theorem get_required_staff_dynamic:
  "(shift_id \<noteq> early_shift_id \<and> map_of (shifts cx) shift_id = Some sh
      \<longrightarrow> get_required_staff cx shift_id d sched
            = Inr (case required_staff sh of None \<Rightarrow> 1 | Some n \<Rightarrow> n))
   \<and> (sched \<noteq> [] \<and> early_early_count sched d = 0
      \<longrightarrow> get_required_staff cx early_shift_id d sched = Inr 2)
   \<and> (sched \<noteq> [] \<and> early_early_count sched d \<ge> 1
      \<longrightarrow> get_required_staff cx early_shift_id d sched = Inr 1)
   \<and> (map_of (shifts cx) early_shift_id = Some early
      \<longrightarrow> get_required_staff cx early_shift_id d []
            = Inr (case required_staff early of None \<Rightarrow> 1 | Some n \<Rightarrow> n))"
proof -
  have flex: "shift_id \<noteq> early_shift_id \<Longrightarrow> map_of flexible_shifts shift_id = None"
    by (simp add: flexible_shifts_def)
  have dep: "map_of flexible_shifts early_shift_id
      = Some \<lparr>allow_empty = True, flex_required_staff = None\<rparr>"
    by (simp add: flexible_shifts_def)
  show ?thesis
    using flex dep by (auto simp: get_required_staff_def getitem_def)
qed

text \<open>
  The claim C1 as stated fails on the empty schedule: the count of the trigger shift is
  0 there, and the source returns the base required staff of the dependent shift (3 in
  the example) where the claim says 2, because the dynamic rule is guarded by
  \<^verbatim>\<open>date_str and schedule\<close> and an empty dict is false.
\<close>

theorem get_required_staff_dynamic_counterexample:
  "early_early_count [] 738886 = 0
   \<and> map_of (shifts ex_session) early_shift_id = Some (ex_shift 3)
   \<and> get_required_staff ex_session early_shift_id 738886 [] = Inr 3"
  by (simp add: early_early_count_def get_required_staff_def flexible_shifts_def getitem_def
      ex_session_def ex_shift_def)

theorem get_required_staff_dynamic_witness:
  "ex_schedule \<noteq> []
   \<and> early_early_count ex_schedule 738886 = 0 \<and> early_early_count ex_schedule 738887 = 1
   \<and> get_required_staff ex_session late_shift_id 738886 ex_schedule = Inr 3
   \<and> get_required_staff ex_session early_shift_id 738886 ex_schedule = Inr 2
   \<and> get_required_staff ex_session early_shift_id 738887 ex_schedule = Inr 1
   \<and> get_required_staff ex_session early_shift_id 738887 [] = Inr 3"
proof -
  have counts: "early_early_count ex_schedule 738886 = 0" "early_early_count ex_schedule 738887 = 1"
    by (simp_all add: early_early_count_def ex_schedule_def dict_get_or_def)
  have nonempty: "ex_schedule \<noteq> []"
    by (simp add: ex_schedule_def)
  have other: "late_shift_id \<noteq> early_shift_id \<and> map_of (shifts ex_session) late_shift_id = Some (ex_shift 3)"
    by (simp add: ex_session_def late_shift_id_def early_shift_id_def)
  have dep: "map_of (shifts ex_session) early_shift_id = Some (ex_shift 3)"
    by (simp add: ex_session_def)
  show ?thesis
    using get_required_staff_dynamic [of late_shift_id ex_session "ex_shift 3" 738886 ex_schedule "ex_shift 3"]
      get_required_staff_dynamic [of late_shift_id ex_session "ex_shift 3" 738887 ex_schedule "ex_shift 3"]
      counts nonempty other dep
    by (simp add: ex_shift_def)
qed

text \<open>
  C4: \<^verbatim>\<open>check_if_rested\<close> is true exactly when the employee has a last worked date,
  has a fixed rest weekday, and some day after the last worked date and up to the current
  date falls on that weekday.
\<close>

theorem check_if_rested_iff:
  "check_if_rested cx cyc emp_id current_date \<longleftrightarrow>
     (\<exists>last_date emp.
        last_work_date (cycle_of cyc emp_id) = Some last_date
        \<and> map_of (employees cx) emp_id = Some emp \<and> rest_day emp \<noteq> []
        \<and> (\<exists>k. last_date < k \<and> k \<le> current_date \<and> get_weekday_chinese k = rest_day emp))"
proof (cases "last_work_date (cycle_of cyc emp_id)")
  case None
  then show ?thesis by (simp add: check_if_rested_def)
next
  case (Some l)
  note last = Some
  have shift: "(\<exists>k. l + 1 \<le> k \<and> k \<le> current_date \<and> get_weekday_chinese k = r)
      = (\<exists>k. l < k \<and> k \<le> current_date \<and> get_weekday_chinese k = r)" for r
    by (simp add: add1_zle_eq)
  show ?thesis
  proof (cases "map_of (employees cx) emp_id")
    case None
    then show ?thesis using last by (simp add: check_if_rested_def)
  next
    case (Some emp)
    then show ?thesis using last
      by (simp add: check_if_rested_def Let_def rest_day_passed_iff shift)
  qed
qed

theorem check_if_rested_iff_witness:
  "check_if_rested ex_session
     [([65], \<lparr>current_type = Some Early, last_work_date = Some 738886, rested = False\<rparr>)] [65] 738888
   \<and> \<not> check_if_rested ex_session
     [([65], \<lparr>current_type = Some Early, last_work_date = Some 738887, rested = False\<rparr>)] [65] 738888"
proof -
  have tue: "get_weekday_chinese 738887 = [21608, 20108]"
    by (simp add: get_weekday_chinese_def weekday_def weekday_map_def)
  have wed: "get_weekday_chinese 738888 \<noteq> [21608, 20108]"
    by (simp add: get_weekday_chinese_def weekday_def weekday_map_def)
  have emp: "map_of (employees ex_session) [65] = Some ex_employee"
    by (simp add: ex_session_def)
  have rest: "rest_day ex_employee = [21608, 20108]"
    by (simp add: ex_employee_def)
  have "(738886::int) < 738887 \<and> (738887::int) \<le> 738888
      \<and> get_weekday_chinese 738887 = rest_day ex_employee"
    using tue rest by simp
  then have ex: "\<exists>k. (738886::int) < k \<and> k \<le> 738888 \<and> get_weekday_chinese k = rest_day ex_employee"
    by blast
  have a: "check_if_rested ex_session
     [([65], \<lparr>current_type = Some Early, last_work_date = Some 738886, rested = False\<rparr>)] [65] 738888"
    unfolding check_if_rested_iff
    using ex emp rest by (simp add: cycle_of_def dict_get_or_def)
  have none: "\<not> (\<exists>k. (738887::int) < k \<and> k \<le> 738888 \<and> get_weekday_chinese k = rest_day ex_employee)"
  proof
    assume "\<exists>k. (738887::int) < k \<and> k \<le> 738888 \<and> get_weekday_chinese k = rest_day ex_employee"
    then obtain k :: int where k: "738887 < k" "k \<le> 738888" "get_weekday_chinese k = rest_day ex_employee"
      by blast
    from k(1,2) have "k = 738888" by arith
    with k(3) wed rest show False by simp
  qed
  have b: "\<not> check_if_rested ex_session
     [([65], \<lparr>current_type = Some Early, last_work_date = Some 738887, rested = False\<rparr>)] [65] 738888"
    unfolding check_if_rested_iff
    using none emp by (simp add: cycle_of_def dict_get_or_def)
  show ?thesis using a b by simp
qed

lemma get_weekday_chinese_nonempty: "get_weekday_chinese d \<noteq> []"
proof -
  have "weekday d < 7" by (rule weekday_less_7)
  then have "weekday d = 0 \<or> weekday d = 1 \<or> weekday d = 2 \<or> weekday d = 3
      \<or> weekday d = 4 \<or> weekday d = 5 \<or> weekday d = 6"
    by arith
  then show ?thesis
    by (auto simp: get_weekday_chinese_def weekday_map_def)
qed

lemma strftime_ymd_nonempty: "strftime_ymd d \<noteq> []"
  by (simp add: strftime_ymd_def split: prod.splits)

lemma not_contained_in_empty: "x \<noteq> [] \<Longrightarrow> \<not> str_contains x []"
  by simp

lemma check_conflicts_known:
  assumes "map_of (employees cx) emp_id = Some emp" and "map_of (shifts cx) shift_id = Some shift"
  shows "check_conflicts cx emp_id shift_id d sched =
       (if get_weekday_chinese d = rest_day emp
        then [RestDayConflict (display_name emp emp_id) (get_weekday_chinese d)] else [])
     @ (if str_contains (strftime_ymd d) (unavailable_days emp)
        then [UnavailableConflict (display_name emp emp_id) d] else [])
     @ (if required_skills shift \<noteq> [] \<and> \<not> has_skill emp shift
        then [SkillConflict (display_name emp emp_id) (required_skills shift)] else [])
     @ (if already_assigned sched d emp_id
        then [AlreadyAssigned (display_name emp emp_id) d] else [])"
proof -
  have r: "(rest_day emp \<noteq> [] \<and> get_weekday_chinese d = rest_day emp)
      = (get_weekday_chinese d = rest_day emp)"
    using get_weekday_chinese_nonempty [of d] by auto
  have u: "(unavailable_days emp \<noteq> [] \<and> str_contains (strftime_ymd d) (unavailable_days emp))
      = str_contains (strftime_ymd d) (unavailable_days emp)"
    using not_contained_in_empty [OF strftime_ymd_nonempty, of d] by auto
  have a: "(case map_of sched d of None \<Rightarrow> []
            | Some entry \<Rightarrow> if emp_id \<in> set (dict_keys (assignments entry))
                then [AlreadyAssigned (display_name emp emp_id) d] else [])
      = (if already_assigned sched d emp_id then [AlreadyAssigned (display_name emp emp_id) d] else [])"
    by (simp add: already_assigned_def split: option.splits)
  show ?thesis
    unfolding check_conflicts_def using assms by (simp only: option.case r u a)
qed

text \<open>
  C5 (amended): an unknown employee id gives exactly the unknown-employee violation, and
  a known employee with an unknown shift id exactly the unknown-shift violation, whatever
  else holds; with both known the list is, in this order, the rest-weekday, the
  unavailable-date, the missing-skill and the already-assigned violation, each present
  exactly when it applies. The list is empty exactly when both ids are known and none of
  the four applies. The function is pure: it returns the list and changes nothing.
\<close>

theorem check_conflicts_violations:
  "(map_of (employees cx) emp_id = None
      \<longrightarrow> check_conflicts cx emp_id shift_id d sched = [EmployeeMissing emp_id])
   \<and> (map_of (employees cx) emp_id = Some emp \<and> map_of (shifts cx) shift_id = None
      \<longrightarrow> check_conflicts cx emp_id shift_id d sched = [ShiftMissing shift_id])
   \<and> (map_of (employees cx) emp_id = Some emp \<and> map_of (shifts cx) shift_id = Some shift
      \<longrightarrow> check_conflicts cx emp_id shift_id d sched =
             (if get_weekday_chinese d = rest_day emp
              then [RestDayConflict (display_name emp emp_id) (get_weekday_chinese d)] else [])
           @ (if occurs_in (strftime_ymd d) (unavailable_days emp)
              then [UnavailableConflict (display_name emp emp_id) d] else [])
           @ (if required_skills shift \<noteq> [] \<and> \<not> has_skill emp shift
              then [SkillConflict (display_name emp emp_id) (required_skills shift)] else [])
           @ (if already_assigned sched d emp_id
              then [AlreadyAssigned (display_name emp emp_id) d] else []))
   \<and> (check_conflicts cx emp_id shift_id d sched = [] \<longleftrightarrow>
        (\<exists>emp shift. map_of (employees cx) emp_id = Some emp \<and> map_of (shifts cx) shift_id = Some shift
           \<and> get_weekday_chinese d \<noteq> rest_day emp
           \<and> \<not> occurs_in (strftime_ymd d) (unavailable_days emp)
           \<and> (required_skills shift = [] \<or> has_skill emp shift)
           \<and> \<not> already_assigned sched d emp_id))"
proof (intro conjI impI)
  assume "map_of (employees cx) emp_id = None"
  then show "check_conflicts cx emp_id shift_id d sched = [EmployeeMissing emp_id]"
    by (simp add: check_conflicts_def)
next
  assume "map_of (employees cx) emp_id = Some emp \<and> map_of (shifts cx) shift_id = None"
  then show "check_conflicts cx emp_id shift_id d sched = [ShiftMissing shift_id]"
    by (simp add: check_conflicts_def)
next
  assume "map_of (employees cx) emp_id = Some emp \<and> map_of (shifts cx) shift_id = Some shift"
  then show "check_conflicts cx emp_id shift_id d sched =
             (if get_weekday_chinese d = rest_day emp
              then [RestDayConflict (display_name emp emp_id) (get_weekday_chinese d)] else [])
           @ (if occurs_in (strftime_ymd d) (unavailable_days emp)
              then [UnavailableConflict (display_name emp emp_id) d] else [])
           @ (if required_skills shift \<noteq> [] \<and> \<not> has_skill emp shift
              then [SkillConflict (display_name emp emp_id) (required_skills shift)] else [])
           @ (if already_assigned sched d emp_id
              then [AlreadyAssigned (display_name emp emp_id) d] else [])"
    using check_conflicts_known by (simp add: occurs_in_str_contains)
next
  show "check_conflicts cx emp_id shift_id d sched = [] \<longleftrightarrow>
        (\<exists>emp shift. map_of (employees cx) emp_id = Some emp \<and> map_of (shifts cx) shift_id = Some shift
           \<and> get_weekday_chinese d \<noteq> rest_day emp
           \<and> \<not> occurs_in (strftime_ymd d) (unavailable_days emp)
           \<and> (required_skills shift = [] \<or> has_skill emp shift)
           \<and> \<not> already_assigned sched d emp_id)"
  proof (cases "map_of (employees cx) emp_id")
    case None
    then show ?thesis by (simp add: check_conflicts_def)
  next
    case (Some e)
    note emp = Some
    show ?thesis
    proof (cases "map_of (shifts cx) shift_id")
      case None
      then show ?thesis using emp by (simp add: check_conflicts_def)
    next
      case (Some s)
      show ?thesis
        using emp Some by (simp add: check_conflicts_known [OF emp Some] occurs_in_str_contains)
    qed
  qed
qed

lemma monday_738886: "get_weekday_chinese 738886 = [21608, 19968]"
  by (simp add: get_weekday_chinese_def weekday_def weekday_map_def)

lemma tuesday_738887: "get_weekday_chinese 738887 = [21608, 20108]"
  by (simp add: get_weekday_chinese_def weekday_def weekday_map_def)

lemma wednesday_738888: "get_weekday_chinese 738888 = [21608, 19977]"
  by (simp add: get_weekday_chinese_def weekday_def weekday_map_def)

lemma ex_rested: "check_if_rested ex_session (ex_cycle t) [65] 738888"
proof -
  have "(738886::int) + 1 \<le> 738887 \<and> (738887::int) \<le> 738888
      \<and> get_weekday_chinese 738887 = rest_day ex_employee"
    using tuesday_738887 by (simp add: ex_employee_def)
  then have "\<exists>k. (738886::int) + 1 \<le> k \<and> k \<le> 738888
      \<and> get_weekday_chinese k = rest_day ex_employee"
    by blast
  then have "rest_day_passed (rest_day ex_employee) (738886 + 1) 738888"
    by (simp only: rest_day_passed_iff)
  then show ?thesis
    by (simp add: check_if_rested_def cycle_of_def dict_get_or_def ex_cycle_def ex_session_def
        ex_employee_def)
qed

text \<open>
  The claim C5 as stated fails on the early return: for a known employee whose fixed rest
  weekday is Tuesday, an unknown shift id and a Tuesday, the list is the unknown-shift
  violation alone.
\<close>

theorem check_conflicts_violations_counterexample:
  "map_of (employees ex_session) [65] = Some ex_employee
   \<and> get_weekday_chinese 738887 = rest_day ex_employee
   \<and> check_conflicts ex_session [65] [88] 738887 [] = [ShiftMissing [88]]
   \<and> RestDayConflict [65] (get_weekday_chinese 738887)
         \<notin> set (check_conflicts ex_session [65] [88] 738887 [])"
  using tuesday_738887
  by (simp add: check_conflicts_def ex_session_def ex_employee_def early_shift_id_def late_shift_id_def)

theorem check_conflicts_violations_witness:
  "check_conflicts ex_session [66] late_shift_id 738886 [] = [EmployeeMissing [66]]
   \<and> check_conflicts ex_session [65] [88] 738886 [] = [ShiftMissing [88]]
   \<and> check_conflicts ex_session [65] late_shift_id 738887 [] = [RestDayConflict [65] [21608, 20108]]
   \<and> check_conflicts ex_session [65] late_shift_id 738886 [] = []"
proof -
  have e65: "map_of (employees ex_session) [65] = Some ex_employee"
    by (simp add: ex_session_def)
  have e66: "map_of (employees ex_session) [66] = None"
    by (simp add: ex_session_def)
  have s88: "map_of (shifts ex_session) [88] = None"
    by (simp add: ex_session_def early_shift_id_def late_shift_id_def)
  have late: "map_of (shifts ex_session) late_shift_id = Some (ex_shift 3)"
    by (simp add: ex_session_def early_shift_id_def late_shift_id_def)
  have free: "\<not> already_assigned [] d [65]" for d
    by (simp add: already_assigned_def)
  have avail: "\<not> occurs_in (strftime_ymd d) (unavailable_days ex_employee)" for d
    using strftime_ymd_nonempty [of d] by (simp add: ex_employee_def occurs_in_str_contains)
  show ?thesis
    using check_conflicts_violations [of ex_session "[66]" late_shift_id 738886 "[]"]
      check_conflicts_violations [of ex_session "[65]" "[88]" 738886 "[]" ex_employee]
      check_conflicts_violations [of ex_session "[65]" late_shift_id 738887 "[]" ex_employee "ex_shift 3"]
      check_conflicts_violations [of ex_session "[65]" late_shift_id 738886 "[]" ex_employee "ex_shift 3"]
      e65 e66 s88 late free avail tuesday_738887 monday_738886
    by (simp add: ex_employee_def ex_shift_def display_name_def)
qed

text \<open>
  C2 (amended): the score is the sum, accumulated in double precision from 0.0 in this
  order, of: 10 times the days worked; for a shift with required skills, -10 when the
  employee's skills overlap them and +50 when not; -5 for a preferred shift; the float
  product of 0.1 and the hours worked; and the rotation term. There is no rotation term
  for a fixed early-early employee. Otherwise, when the employee has just rested and the
  current type is early or late, the term is -5 if the shift's type is the opposite type
  and there is none if not; when that does not hold, the term is -3 if the current type
  is set and equal to the shift's type, and there is none if not. A term that is absent
  adds nothing.
\<close>

theorem get_employee_score_terms:
  assumes "map_of (employees cx) emp_id = Some emp"
    and "map_of (shifts cx) shift_id = Some shift"
    and "map_of current_workload emp_id = Some wl"
  shows "get_employee_score cx cyc emp_id shift_id d current_workload =
     Inr (float_sum
           ([float_of_int (10 * days wl)]
            @ (if required_skills shift = [] then [] else if has_skill emp shift then [- 10] else [50])
            @ (if shift_id \<in> set (preferred_shifts emp) then [- 5] else [])
            @ [float_mul one_tenth (hours wl)]
            @ (if emp_id \<in> set (fixed_early_early_employees cx) then []
               else if check_if_rested cx cyc emp_id d
                       \<and> (current_type (cycle_of cyc emp_id) = Some Early
                            \<or> current_type (cycle_of cyc emp_id) = Some Late)
               then (if Some (get_shift_type shift_id)
                          = map_option get_opposite_shift_type (current_type (cycle_of cyc emp_id))
                     then [- 5] else [])
               else if current_type (cycle_of cyc emp_id) = Some (get_shift_type shift_id) then [- 3]
               else [])))"
proof -
  have sub: "float_sub a b = float_add a (- b)" for a b
    by (simp add: float_sub_def float_add_def)
  have mul: "float_mul a b = float_mul b a" for a b
    by (simp add: float_mul_def mult.commute)
  have days: "days wl * 10 = 10 * days wl"
    by simp
  show ?thesis
    using assms
    by (auto simp: get_employee_score_def getitem_def Let_def float_sum_def sub days
        mul [of "hours wl" one_tenth])
qed

text \<open>
  The claim C2 as stated fails for an employee who has just rested and whose current type
  is early, scored for an early shift: the specification's chain gives the rotation term
  -3, the source gives none (the -3 is in the \<^verbatim>\<open>elif\<close> of the just-rested test) and
  returns 10.8. And the score is a sum of floats: for the late shift the source returns
  5.800000000000001, the double above 29/5.
\<close>

theorem get_employee_score_terms_counterexample:
  "check_if_rested ex_session (ex_cycle Early) [65] 738888
   \<and> current_type (cycle_of (ex_cycle Early) [65]) = Some Early
   \<and> get_shift_type early_shift_id = Early
   \<and> spec_rotation_term True (Some Early) Early = - 3
   \<and> get_employee_score ex_session (ex_cycle Early) [65] early_shift_id 738888 ex_workload
       = Inr (3039929748475085 / 281474976710656)
   \<and> get_employee_score ex_session (ex_cycle Early) [65] late_shift_id 738888 ex_workload
       = Inr (1632554864921805 / 281474976710656)
   \<and> (1632554864921805 / 281474976710656 :: rat) \<noteq> 10 * 1 + (1 / 10) * 8 + (- 5)"
proof -
  have t: "get_shift_type early_shift_id = Early"
    by (simp add: get_shift_type_def early_shift_id_def)
  have l: "get_shift_type late_shift_id = Late"
    by (simp add: get_shift_type_def late_shift_id_def)
  have c: "current_type (cycle_of (ex_cycle Early) [65]) = Some Early"
    by (simp add: cycle_of_def dict_get_or_def ex_cycle_def)
  have s: "spec_rotation_term True (Some Early) Early = - 3"
    by (simp add: spec_rotation_term_def get_opposite_shift_type_def)
  have ids: "late_shift_id \<noteq> early_shift_id"
    by (simp add: early_shift_id_def late_shift_id_def)
  have early: "get_employee_score ex_session (ex_cycle Early) [65] early_shift_id 738888 ex_workload
       = Inr (3039929748475085 / 281474976710656)"
    using ex_rested [of Early] t c
    by (simp add: get_employee_score_def getitem_def Let_def ex_session_def ex_workload_def
        ex_employee_def ex_shift_def ex_rules_def fixed_early_early_employees_def
        get_opposite_shift_type_def ex_score_steps)
  have late: "get_employee_score ex_session (ex_cycle Early) [65] late_shift_id 738888 ex_workload
       = Inr (1632554864921805 / 281474976710656)"
    using ex_rested [of Early] l c ids
    by (simp add: get_employee_score_def getitem_def Let_def ex_session_def ex_workload_def
        ex_employee_def ex_shift_def ex_rules_def fixed_early_early_employees_def
        get_opposite_shift_type_def ex_score_steps)
  show ?thesis using ex_rested [of Early] t c s early late by simp
qed

theorem get_employee_score_terms_witness:
  "get_employee_score ex_session (ex_cycle Early) [65] late_shift_id 738888 ex_workload
     = Inr (float_sum [float_of_int (10 * 1), float_mul one_tenth 8, - 5])
   \<and> float_sum [float_of_int (10 * 1), float_mul one_tenth 8, - 5]
       = 1632554864921805 / 281474976710656"
proof -
  have e65: "map_of (employees ex_session) [65] = Some ex_employee"
    by (simp add: ex_session_def)
  have late: "map_of (shifts ex_session) late_shift_id = Some (ex_shift 3)"
    by (simp add: ex_session_def early_shift_id_def late_shift_id_def)
  have w: "map_of ex_workload [65] = Some \<lparr>days = 1, hours = 8\<rparr>"
    by (simp add: ex_workload_def)
  have t: "get_shift_type late_shift_id = Late"
    by (simp add: get_shift_type_def late_shift_id_def)
  have c: "current_type (cycle_of (ex_cycle Early) [65]) = Some Early"
    by (simp add: cycle_of_def dict_get_or_def ex_cycle_def)
  have f: "[65] \<notin> set (fixed_early_early_employees ex_session)"
    by (simp add: fixed_early_early_employees_def ex_session_def ex_rules_def)
  have "float_sum [float_of_int (10 * 1), float_mul one_tenth 8, - 5]
       = float_sub (float_add (float_add 0 (float_of_int 10)) (float_mul 8 one_tenth)) 5"
    by (simp add: float_sum_def float_sub_def float_add_def float_mul_def mult.commute)
  then have v: "float_sum [float_of_int (10 * 1), float_mul one_tenth 8, - 5]
       = 1632554864921805 / 281474976710656"
    by (simp only: ex_score_steps)
  show ?thesis
    using get_employee_score_terms [OF e65 late w, of "ex_cycle Early" 738888] t c f ex_rested [of Early] v
    by (simp add: ex_shift_def ex_employee_def get_opposite_shift_type_def)
qed

lemma map_of_dict_set: "map_of (dict_set d k v) = (map_of d)(k \<mapsto> v)"
  by (induction d k v rule: dict_set.induct) (auto simp: fun_eq_iff)

lemma dict_keys_dict_set: "set (dict_keys (dict_set d k v)) = insert k (set (dict_keys d))"
  by (induction d k v rule: dict_set.induct) (auto simp: dict_keys_def)

lemma getitem_Inr: "getitem d k = Inr v \<longleftrightarrow> map_of d k = Some v"
  by (simp add: getitem_def split: option.splits)

lemma collect_candidates_sound:
  "collect_candidates cx st shift_id d es = Inr cs \<Longrightarrow> c \<in> set cs
     \<Longrightarrow> snd c \<in> set es \<and> check_conflicts cx (snd c) shift_id d (schedule st) = []"
proof (induction es arbitrary: cs)
  case Nil
  then show ?case by simp
next
  case (Cons e es)
  show ?case
  proof (cases "check_conflicts cx e shift_id d (schedule st) = []")
    case False
    then have "collect_candidates cx st shift_id d es = Inr cs"
      using Cons.prems(1) by simp
    then show ?thesis using Cons.IH Cons.prems(2) by auto
  next
    case True
    then obtain score cs' where
      cs': "collect_candidates cx st shift_id d es = Inr cs'" and cs: "cs = (score, e) # cs'"
      using Cons.prems(1) by (auto split: sum.splits)
    show ?thesis
    proof (cases "c = (score, e)")
      case True
      then show ?thesis using \<open>check_conflicts cx e shift_id d (schedule st) = []\<close> by simp
    next
      case False
      then have "c \<in> set cs'" using Cons.prems(2) cs by simp
      then show ?thesis using Cons.IH [OF cs'] by auto
    qed
  qed
qed

lemma assign_employee_to_shift_cases:
  assumes "assign_employee_to_shift cx d shift_id st = Inr (ok, st')"
  shows "(\<not> ok \<and> st' = st)
    \<or> (ok \<and> (\<exists>emp_id entry shift wl.
          map_of (schedule st) d = Some entry \<and> map_of (shifts cx) shift_id = Some shift
          \<and> map_of (employee_workload st) emp_id = Some wl
          \<and> emp_id \<in> set (employee_list cx) \<and> emp_id \<notin> set (dict_keys (assignments entry))
          \<and> check_conflicts cx emp_id shift_id d (schedule st) = []
          \<and> st' = \<lparr>schedule = record_assignment (schedule st) d entry emp_id shift_id
                                 (dict_get_or (shift_counts entry) shift_id 0 + 1),
                    employee_workload = dict_set (employee_workload st) emp_id
                                          (add_work wl (duration_hours shift)),
                    employee_shift_cycle = update_cycle cx (employee_shift_cycle st)
                                             emp_id shift_id d\<rparr>))"
proof -
  from assms obtain shift where shift: "getitem (shifts cx) shift_id = Inr shift"
    by (auto simp: assign_employee_to_shift_def split: sum.splits)
  from assms shift obtain required where
    req: "get_required_staff cx shift_id d (schedule st) = Inr required"
    by (auto simp: assign_employee_to_shift_def split: sum.splits)
  from assms shift req obtain entry where entry: "getitem (schedule st) d = Inr entry"
    by (auto simp: assign_employee_to_shift_def split: sum.splits)
  let ?count = "dict_get_or (shift_counts entry) shift_id 0"
  let ?avail = "filter (\<lambda>emp_id. emp_id \<notin> set (dict_keys (assignments entry))) (employee_list cx)"
  show ?thesis
  proof (cases "?count \<ge> required")
    case True
    then show ?thesis
      using assms shift req entry by (simp add: assign_employee_to_shift_def Let_def)
  next
    case False
    then obtain cands where cands: "collect_candidates cx st shift_id d ?avail = Inr cands"
      using assms shift req entry
      by (auto simp: assign_employee_to_shift_def Let_def split: sum.splits)
    show ?thesis
    proof (cases "sort_key fst cands")
      case Nil
      then show ?thesis
        using assms shift req entry False cands by (simp add: assign_employee_to_shift_def Let_def)
    next
      case (Cons best others)
      then have "best \<in> set (sort_key fst cands)" by simp
      then have "best \<in> set cands" by simp
      then have b: "snd best \<in> set ?avail"
        "check_conflicts cx (snd best) shift_id d (schedule st) = []"
        using collect_candidates_sound [OF cands] by auto
      from assms shift req entry False cands Cons obtain wl where
        wl: "getitem (employee_workload st) (snd best) = Inr wl"
        by (auto simp: assign_employee_to_shift_def Let_def split: sum.splits)
      have "ok" and "st' = \<lparr>schedule = record_assignment (schedule st) d entry (snd best) shift_id
                                 (?count + 1),
                    employee_workload = dict_set (employee_workload st) (snd best)
                                          (add_work wl (duration_hours shift)),
                    employee_shift_cycle = update_cycle cx (employee_shift_cycle st)
                                             (snd best) shift_id d\<rparr>"
        using assms shift req entry False cands Cons wl
        by (simp_all add: assign_employee_to_shift_def Let_def)
      then show ?thesis
        using b shift entry wl by (auto simp: getitem_Inr)
    qed
  qed
qed

lemma get_employee_score_known:
  assumes "map_of (employees cx) emp_id = Some emp"
    and "map_of (shifts cx) shift_id = Some shift"
    and "map_of current_workload emp_id = Some wl"
  shows "\<exists>score. get_employee_score cx cyc emp_id shift_id d current_workload = Inr score"
  using assms by (simp add: get_employee_score_def getitem_def Let_def)

lemma ex_assign: "assign_employee_to_shift ex_session 738888 late_shift_id (ex_state t) = Inr (True, ex_state_after)"
proof -
  have ids: "late_shift_id \<noteq> early_shift_id"
    by (simp add: early_shift_id_def late_shift_id_def)
  have e65: "map_of (employees ex_session) [65] = Some ex_employee"
    by (simp add: ex_session_def)
  have late: "map_of (shifts ex_session) late_shift_id = Some (ex_shift 3)"
    using ids by (simp add: ex_session_def)
  have w: "map_of (employee_workload (ex_state t)) [65] = Some \<lparr>days = 1, hours = 8\<rparr>"
    by (simp add: ex_state_def ex_workload_def)
  have cc: "check_conflicts ex_session [65] late_shift_id 738888 (schedule (ex_state t)) = []"
    using wednesday_738888 e65 late
    by (simp add: check_conflicts_def ex_employee_def ex_shift_def ex_state_def dict_keys_def)
  obtain score where
    sc: "get_employee_score ex_session (employee_shift_cycle (ex_state t)) [65] late_shift_id 738888
           (employee_workload (ex_state t)) = Inr score"
    using get_employee_score_known [OF e65 late w] by blast
  have cands: "collect_candidates ex_session (ex_state t) late_shift_id 738888 [[65]] = Inr [(score, [65])]"
    using cc sc by simp
  have req: "get_required_staff ex_session late_shift_id 738888 (schedule (ex_state t)) = Inr 3"
    using ids late by (simp add: get_required_staff_def flexible_shifts_def getitem_def ex_shift_def)
  have entry: "getitem (schedule (ex_state t)) 738888
      = Inr \<lparr>assignments = [], shift_counts = [(early_shift_id, 0), (late_shift_id, 0)]\<rparr>"
    by (simp add: getitem_def ex_state_def)
  have cyc: "update_cycle ex_session (ex_cycle t) [65] late_shift_id 738888
      = [([65], \<lparr>current_type = Some Late, last_work_date = Some 738888, rested = True\<rparr>)]"
    using ex_rested [of t] by (simp add: update_cycle_def Let_def ex_cycle_def get_shift_type_def late_shift_id_def)
  show ?thesis
    unfolding assign_employee_to_shift_def
    using late req entry cands w cyc ids
    by (simp add: getitem_def Let_def dict_get_or_def employee_list_def dict_keys_def ex_session_def
        record_assignment_def add_work_def float_add_small ex_shift_def ex_state_def ex_state_after_def ex_workload_def)
qed

subsection \<open>Every round only places conflict-free employees\<close>

lemma placements_trans:
  "placements cx b c \<Longrightarrow> placements cx a b \<Longrightarrow> placements cx a c"
  by (induction rule: placements.induct) (auto intro: placements.intros)

lemma placements_one:
  "map_of sched d = Some entry \<Longrightarrow> check_conflicts cx emp_id shift_id d sched = []
   \<Longrightarrow> placements cx sched
         (record_assignment sched d entry emp_id shift_id
            (dict_get_or (shift_counts entry) shift_id 0 + 1))"
  by (rule placements_step [OF placements_refl])

lemma for_each_placements:
  assumes "\<And>x s s'. body x s = Inr s' \<Longrightarrow> placements cx (proj s) (proj s')"
  shows "for_each body xs s = Inr s' \<Longrightarrow> placements cx (proj s) (proj s')"
proof (induction xs arbitrary: s)
  case Nil
  then show ?case by (simp add: placements_refl)
next
  case (Cons x xs)
  then obtain s1 where s1: "body x s = Inr s1" and rest: "for_each body xs s1 = Inr s'"
    by (auto split: sum.splits)
  show ?case
    using placements_trans [OF Cons.IH [OF rest] assms [OF s1]] .
qed

lemma assign_employee_to_shift_placements:
  assumes "assign_employee_to_shift cx d shift_id st = Inr r"
  shows "placements cx (schedule st) (schedule (snd r))"
proof -
  have "assign_employee_to_shift cx d shift_id st = Inr (fst r, snd r)"
    using assms by simp
  from assign_employee_to_shift_cases [OF this] show ?thesis
  proof (elim disjE conjE exE)
    assume "snd r = st"
    then show ?thesis by (simp add: placements_refl)
  next
    fix emp_id entry and shift :: shift_rec and wl
    assume "map_of (schedule st) d = Some entry"
      and "check_conflicts cx emp_id shift_id d (schedule st) = []"
      and "snd r = \<lparr>schedule = record_assignment (schedule st) d entry emp_id shift_id
                                 (dict_get_or (shift_counts entry) shift_id 0 + 1),
                    employee_workload = dict_set (employee_workload st) emp_id
                                          (add_work wl (duration_hours shift)),
                    employee_shift_cycle = update_cycle cx (employee_shift_cycle st)
                                             emp_id shift_id d\<rparr>"
    then show ?thesis by (simp add: placements_one)
  qed
qed

lemma fill_shift_placements:
  "fill_shift cx d shift_id required current_count st = Inr st'
   \<Longrightarrow> placements cx (schedule st) (schedule st')"
proof (induction cx d shift_id required current_count st rule: fill_shift.induct)
  case (1 cx d shift_id required current_count st)
  show ?case
  proof (cases "current_count < required")
    case False
    then show ?thesis using "1.prems" by (subst (asm) fill_shift.simps) (simp add: placements_refl)
  next
    case True
    then obtain r where r: "assign_employee_to_shift cx d shift_id st = Inr r"
      using "1.prems" by (subst (asm) fill_shift.simps) (auto split: sum.splits)
    note a = assign_employee_to_shift_placements [OF r]
    show ?thesis
    proof (cases "fst r")
      case False
      then have "st' = snd r"
        using "1.prems" True r by (subst (asm) fill_shift.simps) simp
      then show ?thesis using a by simp
    next
      case ok: True
      then have "fill_shift cx d shift_id required (current_count + 1) (snd r) = Inr st'"
        using "1.prems" True r by (subst (asm) fill_shift.simps) simp
      then have "placements cx (schedule (snd r)) (schedule st')"
        using "1.IH" [OF True r ok] by simp
      then show ?thesis using a placements_trans by blast
    qed
  qed
qed

lemma assign_fixed_staff_placements:
  "assign_fixed_staff cx d shift required emps st = Inr st'
   \<Longrightarrow> placements cx (schedule st) (schedule st')"
proof (induction emps arbitrary: st)
  case Nil
  then show ?case by (simp add: placements_refl)
next
  case (Cons emp_id rest)
  from Cons.prems obtain entry where entry: "getitem (schedule st) d = Inr entry"
    by (auto split: sum.splits)
  let ?count = "dict_get_or (shift_counts entry) fixed_early_early_shift 0"
  show ?case
  proof (cases "?count \<ge> required")
    case True
    then show ?thesis using Cons.prems entry by (simp add: placements_refl)
  next
    case False
    show ?thesis
    proof (cases "emp_id \<notin> set (dict_keys (assignments entry))
                 \<and> check_conflicts cx emp_id fixed_early_early_shift d (schedule st) = []")
      case no: False
      then have "assign_fixed_staff cx d shift required rest st = Inr st'"
        using Cons.prems entry False by auto
      then show ?thesis by (rule Cons.IH)
    next
      case yes: True
      then obtain wl where wl: "getitem (employee_workload st) emp_id = Inr wl"
        using Cons.prems entry False by (auto split: sum.splits)
      define st1 where "st1 = \<lparr>schedule = record_assignment (schedule st) d entry emp_id
                                   fixed_early_early_shift (?count + 1),
                      employee_workload = dict_set (employee_workload st) emp_id
                                            (add_work wl (duration_hours shift)),
                      employee_shift_cycle = dict_set (employee_shift_cycle st) emp_id
                        \<lparr>current_type = Some (get_shift_type fixed_early_early_shift),
                         last_work_date = Some d, rested = False\<rparr>\<rparr>"
      have "assign_fixed_staff cx d shift required rest st1 = Inr st'"
        using Cons.prems entry False yes wl by (simp add: st1_def)
      then have "placements cx (schedule st1) (schedule st')" by (rule Cons.IH)
      moreover have "placements cx (schedule st) (schedule st1)"
        using entry yes by (simp add: st1_def placements_one getitem_Inr)
      ultimately show ?thesis using placements_trans by blast
    qed
  qed
qed

lemma phase1_placements:
  "phase1 cx st = Inr st' \<Longrightarrow> placements cx (schedule st) (schedule st')"
  unfolding phase1_def
  by (rule for_each_placements [where proj = schedule])
     (auto simp: phase1_date_def placements_refl assign_fixed_staff_placements
           split: if_splits sum.splits)

lemma phase2_shift_placements:
  "phase2_shift cx d shift_id st = Inr st' \<Longrightarrow> placements cx (schedule st) (schedule st')"
  by (auto simp: phase2_shift_def placements_refl fill_shift_placements
           split: if_splits sum.splits)

lemma phase2_placements:
  "phase2 cx st = Inr st' \<Longrightarrow> placements cx (schedule st) (schedule st')"
  unfolding phase2_def phase2_date_def
  by (rule for_each_placements [where proj = schedule],
      rule for_each_placements [where proj = schedule],
      rule phase2_shift_placements)

lemma phase3_shift_placements:
  "phase3_shift cx d shift_id vs = Inr vs'
   \<Longrightarrow> placements cx (schedule (snd vs)) (schedule (snd vs'))"
  using assign_employee_to_shift_placements
  by (fastforce simp: phase3_shift_def placements_refl split: if_splits sum.splits)

lemma phase3_pass_placements:
  "for_each (phase3_date cx) ds vs = Inr vs'
   \<Longrightarrow> placements cx (schedule (snd vs)) (schedule (snd vs'))"
  unfolding phase3_date_def
  by (rule for_each_placements [where proj = "\<lambda>vs. schedule (snd vs)"],
      rule for_each_placements [where proj = "\<lambda>vs. schedule (snd vs)"],
      rule phase3_shift_placements)

lemma phase3_passes_placements:
  "phase3_passes n cx st = Inr st' \<Longrightarrow> placements cx (schedule st) (schedule st')"
proof (induction n arbitrary: st)
  case 0
  then show ?case by (simp add: placements_refl)
next
  case (Suc n)
  then obtain vs where vs: "for_each (phase3_date cx) (dict_keys (schedule st)) (0, st) = Inr vs"
    by (auto split: sum.splits)
  from phase3_pass_placements [OF vs] have a: "placements cx (schedule st) (schedule (snd vs))"
    by simp
  show ?case
  proof (cases "fst vs = 0")
    case True
    then show ?thesis using Suc.prems vs a by simp
  next
    case False
    then have "phase3_passes n cx (snd vs) = Inr st'" using Suc.prems vs by simp
    then show ?thesis using Suc.IH a placements_trans by blast
  qed
qed

lemma try_shifts_placements:
  "try_shifts cx d emp_id xs st = Inr st' \<Longrightarrow> placements cx (schedule st) (schedule st')"
proof (induction xs arbitrary: st)
  case Nil
  then show ?case by (simp add: placements_refl)
next
  case (Cons x xs)
  show ?case
  proof (cases "check_conflicts cx emp_id (fst x) d (schedule st) = []")
    case False
    then show ?thesis using Cons by simp
  next
    case True
    then show ?thesis
      using Cons.prems by (auto simp: placements_one getitem_Inr split: sum.splits)
  qed
qed

lemma phase4_placements:
  "phase4 cx st = Inr st' \<Longrightarrow> placements cx (schedule st) (schedule st')"
  unfolding phase4_def
proof (rule for_each_placements [where proj = schedule])
  fix d s s'
  assume "phase4_date cx d s = Inr s'"
  then obtain emps where "for_each (phase4_employee cx d) emps s = Inr s'"
    by (auto simp: phase4_date_def Let_def split: sum.splits if_splits)
  then show "placements cx (schedule s) (schedule s')"
    by (rule for_each_placements [where proj = schedule, rotated])
       (auto simp: phase4_employee_def try_shifts_placements split: sum.splits)
qed (assumption)

lemma run_generation_placements:
  assumes "run_generation cx start_date end_date = Inr sched"
  shows "placements cx (schedule (initial_state cx start_date end_date)) sched"
proof -
  from assms obtain st1 st2 st3 st4 where
    p: "phase1 cx (initial_state cx start_date end_date) = Inr st1" "phase2 cx st1 = Inr st2"
      "phase3 cx st2 = Inr st3" "phase4 cx st3 = Inr st4" "sched = schedule st4"
    by (auto simp: run_generation_def split: sum.splits)
  have "placements cx (schedule st2) (schedule st3)"
    using p(3) by (simp add: phase3_def phase3_passes_placements)
  then show ?thesis
    using phase1_placements [OF p(1)] phase2_placements [OF p(2)] phase4_placements [OF p(4)] p(5)
      placements_trans by blast
qed

subsection \<open>Invariants of the schedule\<close>

lemma fold_dict_set_const:
  "map_of (fold (\<lambda>k d. dict_set d k v) ks d0) x = (if x \<in> set ks then Some v else map_of d0 x)"
  by (induction ks arbitrary: d0) (auto simp: map_of_dict_set)

lemma dict_set_append: "k \<notin> set (dict_keys d) \<Longrightarrow> dict_set d k v = d @ [(k, v)]"
  by (induction d k v rule: dict_set.induct) (auto simp: dict_keys_def)

lemma check_conflicts_Nil:
  assumes "check_conflicts cx emp_id shift_id d sched = []"
  shows "\<exists>emp shift. map_of (employees cx) emp_id = Some emp \<and> map_of (shifts cx) shift_id = Some shift
           \<and> get_weekday_chinese d \<noteq> rest_day emp
           \<and> \<not> str_contains (strftime_ymd d) (unavailable_days emp)
           \<and> (required_skills shift = [] \<or> has_skill emp shift)
           \<and> \<not> already_assigned sched d emp_id"
proof (cases "map_of (employees cx) emp_id")
  case None
  then show ?thesis using assms by (simp add: check_conflicts_def)
next
  case (Some e)
  note emp = Some
  show ?thesis
  proof (cases "map_of (shifts cx) shift_id")
    case None
    then show ?thesis using assms emp by (simp add: check_conflicts_def)
  next
    case (Some s)
    show ?thesis
      using assms emp Some by (simp add: check_conflicts_known [OF emp Some] split: if_splits)
  qed
qed

lemma map_of_record_assignment:
  "map_of (record_assignment sched d entry emp_id shift_id n) =
     (map_of sched)(d \<mapsto> entry\<lparr>assignments := dict_set (assignments entry) emp_id shift_id,
                                shift_counts := dict_set (shift_counts entry) shift_id n\<rparr>)"
  by (simp add: record_assignment_def map_of_dict_set)

lemma entry_consistent_placement:
  assumes "entry_consistent entry" and "emp_id \<notin> set (dict_keys (assignments entry))"
  shows "entry_consistent
           (entry\<lparr>assignments := dict_set (assignments entry) emp_id shift_id,
                  shift_counts := dict_set (shift_counts entry) shift_id
                                    (dict_get_or (shift_counts entry) shift_id 0 + 1)\<rparr>)"
proof -
  have a: "dict_set (assignments entry) emp_id shift_id = assignments entry @ [(emp_id, shift_id)]"
    using assms(2) by (rule dict_set_append)
  have d: "distinct (dict_keys (assignments entry @ [(emp_id, shift_id)]))"
    using assms by (simp add: entry_consistent_def dict_keys_def)
  have c: "dict_get_or (dict_set (shift_counts entry) shift_id
                          (dict_get_or (shift_counts entry) shift_id 0 + 1)) s 0
      = int (length (filter (\<lambda>a. snd a = s) (assignments entry @ [(emp_id, shift_id)])))" for s
    using assms(1) by (simp add: entry_consistent_def dict_get_or_def map_of_dict_set)
  show ?thesis
    using a d c by (simp add: entry_consistent_def)
qed

lemma entry_available_placement:
  assumes "entry_available cx d entry"
    and "map_of (employees cx) emp_id = Some emp"
    and "get_weekday_chinese d \<noteq> rest_day emp"
    and "\<not> str_contains (strftime_ymd d) (unavailable_days emp)"
  shows "entry_available cx d
           (entry\<lparr>assignments := dict_set (assignments entry) emp_id shift_id,
                  shift_counts := counts\<rparr>)"
  using assms by (auto simp: entry_available_def list_all_iff dict_keys_dict_set)

lemma placements_consistent:
  "placements cx a b \<Longrightarrow> (\<And>d entry. map_of a d = Some entry \<Longrightarrow> entry_consistent entry)
   \<Longrightarrow> map_of b d = Some entry \<Longrightarrow> entry_consistent entry"
proof (induction arbitrary: d entry rule: placements.induct)
  case (placements_refl sched)
  then show ?case by simp
next
  case (placements_step sched sched1 d1 entry1 emp_id shift_id)
  have old: "entry_consistent e" if "map_of sched1 d' = Some e" for d' e
    using placements_step.IH placements_step.prems(1) that by blast
  show ?case
  proof (cases "d = d1")
    case False
    then have "map_of sched1 d = Some entry"
      using placements_step.prems(2) by (simp add: map_of_record_assignment)
    then show ?thesis by (rule old)
  next
    case True
    have free: "emp_id \<notin> set (dict_keys (assignments entry1))"
      using check_conflicts_Nil [OF placements_step.hyps(3)] placements_step.hyps(2)
      by (auto simp: already_assigned_def)
    have "entry = entry1\<lparr>assignments := dict_set (assignments entry1) emp_id shift_id,
                  shift_counts := dict_set (shift_counts entry1) shift_id
                                    (dict_get_or (shift_counts entry1) shift_id 0 + 1)\<rparr>"
      using placements_step.prems(2) True by (simp add: map_of_record_assignment)
    then show ?thesis
      using entry_consistent_placement [OF old [OF placements_step.hyps(2)] free] by simp
  qed
qed

lemma placements_available:
  "placements cx a b \<Longrightarrow> (\<And>d entry. map_of a d = Some entry \<Longrightarrow> entry_available cx d entry)
   \<Longrightarrow> map_of b d = Some entry \<Longrightarrow> entry_available cx d entry"
proof (induction arbitrary: d entry rule: placements.induct)
  case (placements_refl sched)
  then show ?case by simp
next
  case (placements_step sched sched1 d1 entry1 emp_id shift_id)
  have old: "entry_available cx d' e" if "map_of sched1 d' = Some e" for d' e
    using placements_step.IH placements_step.prems(1) that by blast
  show ?case
  proof (cases "d = d1")
    case False
    then have "map_of sched1 d = Some entry"
      using placements_step.prems(2) by (simp add: map_of_record_assignment)
    then show ?thesis by (rule old)
  next
    case True
    from check_conflicts_Nil [OF placements_step.hyps(3)] obtain emp where
      emp: "map_of (employees cx) emp_id = Some emp" "get_weekday_chinese d1 \<noteq> rest_day emp"
        "\<not> str_contains (strftime_ymd d1) (unavailable_days emp)"
      by blast
    have "entry = entry1\<lparr>assignments := dict_set (assignments entry1) emp_id shift_id,
                  shift_counts := dict_set (shift_counts entry1) shift_id
                                    (dict_get_or (shift_counts entry1) shift_id 0 + 1)\<rparr>"
      using placements_step.prems(2) True by (simp add: map_of_record_assignment)
    then show ?thesis
      using entry_available_placement [OF old [OF placements_step.hyps(2)] emp] True by simp
  qed
qed

lemma initial_schedule_entries:
  assumes "map_of (schedule (initial_state cx start_date end_date)) d = Some entry"
  shows "entry = \<lparr>assignments = [],
                  shift_counts = fold (\<lambda>shift_id c. dict_set c shift_id 0) (dict_keys (shifts cx)) []\<rparr>"
  using assms by (simp add: initial_state_def fold_dict_set_const split: if_splits)

lemma initial_entry_consistent:
  "map_of (schedule (initial_state cx start_date end_date)) d = Some entry \<Longrightarrow> entry_consistent entry"
  by (drule initial_schedule_entries)
     (simp add: entry_consistent_def dict_keys_def dict_get_or_def fold_dict_set_const)

lemma initial_entry_available:
  "map_of (schedule (initial_state cx start_date end_date)) d = Some entry \<Longrightarrow> entry_available cx d entry"
  by (drule initial_schedule_entries) (simp add: entry_available_def dict_keys_def)

lemma generate_schedule_Generated:
  assumes "generate_schedule ss start_date end_date = (Generated, ss')"
  shows "employees ss \<noteq> [] \<and> shifts ss \<noteq> [] \<and> start_date < end_date
    \<and> (\<exists>sched. run_generation ss start_date end_date = Inr sched
           \<and> ss' = ss\<lparr>stored_schedule := sched\<rparr>)"
  using assms by (auto simp: generate_schedule_def split: if_splits sum.splits)

text \<open>
  C7: in every schedule that the generation produces, on every date no employee is
  entered twice and the count of every shift is the number of assignments of that date
  to the shift. The schedule is reached from the empty initial schedule by placements
  alone, each of which adds one assignment of an employee not yet entered that day and
  raises the count of its shift by one.
\<close>

theorem generated_shift_counts_consistent:
  assumes "generate_schedule ss start_date end_date = (Generated, ss')"
    and "map_of (stored_schedule ss') d = Some entry"
  shows "distinct (dict_keys (assignments entry))
       \<and> dict_get_or (shift_counts entry) shift_id 0
           = int (length (filter (\<lambda>a. snd a = shift_id) (assignments entry)))
       \<and> placements ss
             (schedule (initial_state ss start_date end_date))
             (stored_schedule ss')"
proof -
  from generate_schedule_Generated [OF assms(1)] obtain sched where
    run: "run_generation ss start_date end_date = Inr sched"
    and ss': "ss' = ss\<lparr>stored_schedule := sched\<rparr>"
    by blast
  note steps = run_generation_placements [OF run]
  have "map_of sched d = Some entry" using assms(2) ss' by simp
  then have "entry_consistent entry"
    using placements_consistent [OF steps] initial_entry_consistent by blast
  then show ?thesis using steps ss' by (simp add: entry_consistent_def)
qed

text \<open>
  C8: in every schedule that the generation produces, an employee has no assignment on a
  date whose weekday is the employee's fixed rest weekday, nor on a date whose text
  occurs in the employee's unavailable days. The schedule is reached from the empty
  initial schedule by placements alone, each of an employee for whom
  \<^verbatim>\<open>check_conflicts\<close> returned the empty list.
\<close>

theorem generated_respects_availability:
  assumes "generate_schedule ss start_date end_date = (Generated, ss')"
    and "map_of (stored_schedule ss') d = Some entry"
    and "map_of (employees ss) emp_id = Some emp"
    and "get_weekday_chinese d = rest_day emp \<or> occurs_in (strftime_ymd d) (unavailable_days emp)"
  shows "emp_id \<notin> set (dict_keys (assignments entry))
       \<and> placements ss
             (schedule (initial_state ss start_date end_date))
             (stored_schedule ss')"
proof -
  from generate_schedule_Generated [OF assms(1)] obtain sched where
    run: "run_generation ss start_date end_date = Inr sched"
    and ss': "ss' = ss\<lparr>stored_schedule := sched\<rparr>"
    by blast
  note steps = run_generation_placements [OF run]
  have "map_of sched d = Some entry" using assms(2) ss' by simp
  then have "entry_available ss d entry"
    using placements_available [OF steps] initial_entry_available by blast
  then have "emp_id \<notin> set (dict_keys (assignments entry))"
    using assms(3,4) by (auto simp: entry_available_def list_all_iff occurs_in_str_contains)
  then show ?thesis using steps ss' by simp
qed

subsection \<open>The run never raises\<close>

text \<open>
  Every \<^verbatim>\<open>d[k]\<close> of the four rounds finds its key, so the run returns a schedule for
  every input, and the schedule has one entry for each date of the range.
\<close>

lemma map_of_dict_keys: "map_of d k \<noteq> None \<longleftrightarrow> k \<in> set (dict_keys d)"
  by (simp add: dict_keys_def map_of_eq_None_iff)

lemma getitem_dict_keys: "k \<in> set (dict_keys d) \<Longrightarrow> \<exists>v. getitem d k = Inr v"
  using map_of_dict_keys [of d k] by (auto simp: getitem_def split: option.splits)

lemma dict_keys_dict_set_same: "k \<in> set (dict_keys d) \<Longrightarrow> dict_keys (dict_set d k v) = dict_keys d"
  by (induction d k v rule: dict_set.induct) (auto simp: dict_keys_def)

lemma ready_getitem:
  "ready cx ks st \<Longrightarrow> d \<in> set ks \<Longrightarrow> \<exists>entry. getitem (schedule st) d = Inr entry"
  using getitem_dict_keys [of d "schedule st"] by (simp add: ready_def)

lemma ready_placement:
  assumes "ready cx ks st" and "getitem (schedule st) d = Inr entry"
  shows "ready cx ks
           \<lparr>schedule = record_assignment (schedule st) d entry emp_id shift_id n,
            employee_workload = dict_set (employee_workload st) emp_id wl,
            employee_shift_cycle = cyc\<rparr>"
proof -
  have "d \<in> set (dict_keys (schedule st))"
    using assms(2) map_of_dict_keys [of "schedule st" d] by (auto simp: getitem_Inr)
  then show ?thesis
    using assms(1)
    by (auto simp: ready_def record_assignment_def dict_keys_dict_set_same list_all_iff map_of_dict_set)
qed

lemma get_required_staff_total:
  "shift_id \<in> set (shift_list cx) \<Longrightarrow> \<exists>n. get_required_staff cx shift_id d sched = Inr n"
  using getitem_dict_keys [of shift_id "shifts cx"]
  by (auto simp: get_required_staff_def shift_list_def Let_def split: option.splits)

lemma collect_candidates_total:
  assumes "ready cx ks st" and "shift_id \<in> set (shift_list cx)"
  shows "set es \<subseteq> set (employee_list cx)
    \<Longrightarrow> \<exists>cs. collect_candidates cx st shift_id d es = Inr cs"
proof (induction es)
  case Nil
  then show ?case by simp
next
  case (Cons e es)
  then obtain cs where cs: "collect_candidates cx st shift_id d es = Inr cs" by auto
  have "e \<in> set (employee_list cx)" using Cons.prems by simp
  then obtain emp wl where
    "map_of (employees cx) e = Some emp" "map_of (employee_workload st) e = Some wl"
    using assms(1) map_of_dict_keys [of "employees cx" e]
    by (auto simp: ready_def list_all_iff employee_list_def)
  moreover obtain shift where "map_of (shifts cx) shift_id = Some shift"
    using assms(2) map_of_dict_keys [of "shifts cx" shift_id] by (auto simp: shift_list_def)
  ultimately obtain score where
    "get_employee_score cx (employee_shift_cycle st) e shift_id d (employee_workload st) = Inr score"
    using get_employee_score_known by blast
  then show ?case using cs by simp
qed

lemma assign_employee_to_shift_total:
  assumes "ready cx ks st" and "d \<in> set ks" and "shift_id \<in> set (shift_list cx)"
  shows "\<exists>r. assign_employee_to_shift cx d shift_id st = Inr r \<and> ready cx ks (snd r)"
proof -
  obtain shift where shift: "getitem (shifts cx) shift_id = Inr shift"
    using assms(3) getitem_dict_keys by (fastforce simp: shift_list_def)
  obtain required where req: "get_required_staff cx shift_id d (schedule st) = Inr required"
    using get_required_staff_total [OF assms(3)] by blast
  obtain entry where entry: "getitem (schedule st) d = Inr entry"
    using ready_getitem [OF assms(1,2)] by blast
  let ?avail = "filter (\<lambda>emp_id. emp_id \<notin> set (dict_keys (assignments entry))) (employee_list cx)"
  obtain cands where cands: "collect_candidates cx st shift_id d ?avail = Inr cands"
    using collect_candidates_total [OF assms(1,3), of ?avail d] by auto
  show ?thesis
  proof (cases "dict_get_or (shift_counts entry) shift_id 0 \<ge> required")
    case True
    then show ?thesis
      using shift req entry assms(1) by (simp add: assign_employee_to_shift_def Let_def)
  next
    case False
    show ?thesis
    proof (cases "sort_key fst cands")
      case Nil
      then show ?thesis
        using shift req entry cands False assms(1)
        by (simp add: assign_employee_to_shift_def Let_def)
    next
      case (Cons best others)
      then have "best \<in> set (sort_key fst cands)" by simp
      then have "best \<in> set cands" by simp
      then have "snd best \<in> set ?avail"
        using collect_candidates_sound [OF cands] by blast
      then have "snd best \<in> set (employee_list cx)" by simp
      then obtain wl where wl: "getitem (employee_workload st) (snd best) = Inr wl"
        using assms(1) by (auto simp: ready_def list_all_iff getitem_def)
      show ?thesis
        using shift req entry cands False Cons wl ready_placement [OF assms(1) entry]
        by (simp add: assign_employee_to_shift_def Let_def)
    qed
  qed
qed

lemma fill_shift_total:
  "ready cx ks st \<Longrightarrow> d \<in> set ks \<Longrightarrow> shift_id \<in> set (shift_list cx)
    \<Longrightarrow> \<exists>st'. fill_shift cx d shift_id required current_count st = Inr st' \<and> ready cx ks st'"
proof (induction cx d shift_id required current_count st rule: fill_shift.induct)
  case (1 cx d shift_id required current_count st)
  show ?case
  proof (cases "current_count < required")
    case False
    then show ?thesis using "1.prems" by (subst fill_shift.simps) simp
  next
    case True
    obtain r where r: "assign_employee_to_shift cx d shift_id st = Inr r" "ready cx ks (snd r)"
      using assign_employee_to_shift_total [OF "1.prems"] by blast
    show ?thesis
    proof (cases "fst r")
      case False
      then show ?thesis using True r by (subst fill_shift.simps) simp
    next
      case ok: True
      from "1.IH" [OF True r(1) ok r(2) "1.prems"(2,3)]
      show ?thesis using True r ok by (subst fill_shift.simps) simp
    qed
  qed
qed

lemma for_each_total:
  assumes "\<And>x s. x \<in> set xs \<Longrightarrow> I s \<Longrightarrow> \<exists>s'. body x s = Inr s' \<and> I s'"
  shows "I s \<Longrightarrow> \<exists>s'. for_each body xs s = Inr s' \<and> I s'"
  using assms
proof (induction xs arbitrary: s)
  case Nil
  then show ?case by simp
next
  case (Cons x xs)
  obtain s1 where s1: "body x s = Inr s1" "I s1"
    using Cons.prems(2) [of x s] Cons.prems(1) by auto
  have "\<exists>s'. for_each body xs s1 = Inr s' \<and> I s'"
    using Cons.IH [OF s1(2)] Cons.prems(2) by simp
  then show ?case using s1 by simp
qed

lemma assign_fixed_staff_total:
  "ready cx ks st \<Longrightarrow> d \<in> set ks
    \<Longrightarrow> \<exists>st'. assign_fixed_staff cx d shift required emps st = Inr st' \<and> ready cx ks st'"
proof (induction emps arbitrary: st)
  case Nil
  then show ?case by simp
next
  case (Cons emp_id rest)
  obtain entry where entry: "getitem (schedule st) d = Inr entry"
    using ready_getitem [OF Cons.prems] by blast
  let ?count = "dict_get_or (shift_counts entry) fixed_early_early_shift 0"
  show ?case
  proof (cases "?count \<ge> required")
    case True
    then show ?thesis using entry Cons.prems by simp
  next
    case False
    show ?thesis
    proof (cases "emp_id \<notin> set (dict_keys (assignments entry))
                 \<and> check_conflicts cx emp_id fixed_early_early_shift d (schedule st) = []")
      case no: False
      then show ?thesis using entry False Cons.IH [OF Cons.prems] by auto
    next
      case yes: True
      then have "map_of (employees cx) emp_id \<noteq> None"
        using check_conflicts_Nil by fastforce
      then have "emp_id \<in> set (employee_list cx)"
        using map_of_dict_keys [of "employees cx" emp_id] by (simp add: employee_list_def)
      then obtain wl where wl: "getitem (employee_workload st) emp_id = Inr wl"
        using Cons.prems(1) by (auto simp: ready_def list_all_iff getitem_def)
      show ?thesis
        using entry False yes wl Cons.IH [OF ready_placement [OF Cons.prems(1) entry] Cons.prems(2)]
        by simp
    qed
  qed
qed

lemma phase1_total:
  assumes "ready cx (dict_keys (schedule st)) st"
  shows "\<exists>st'. phase1 cx st = Inr st' \<and> ready cx (dict_keys (schedule st)) st'"
  unfolding phase1_def
proof (rule for_each_total [where I = "ready cx (dict_keys (schedule st))", OF _ assms])
  fix d s
  assume d: "d \<in> set (dict_keys (schedule st))" and s: "ready cx (dict_keys (schedule st)) s"
  show "\<exists>s'. phase1_date cx d s = Inr s' \<and> ready cx (dict_keys (schedule st)) s'"
  proof (cases "fixed_early_early_shift \<in> set (shift_list cx)")
    case False
    then show ?thesis using s by (simp add: phase1_date_def)
  next
    case True
    then obtain shift where "getitem (shifts cx) fixed_early_early_shift = Inr shift"
      using getitem_dict_keys by (fastforce simp: shift_list_def)
    then show ?thesis
      using s True assign_fixed_staff_total [OF s d] by (simp add: phase1_date_def)
  qed
qed

lemma shift_list_today_subset: "set (shift_list_today cx d) \<subseteq> set (shift_list cx)"
  by (auto simp: shift_list_today_def)

lemma phase2_total:
  assumes "ready cx (dict_keys (schedule st)) st"
  shows "\<exists>st'. phase2 cx st = Inr st' \<and> ready cx (dict_keys (schedule st)) st'"
  unfolding phase2_def
proof (rule for_each_total [where I = "ready cx (dict_keys (schedule st))", OF _ assms])
  fix d s
  assume d: "d \<in> set (dict_keys (schedule st))" and s: "ready cx (dict_keys (schedule st)) s"
  show "\<exists>s'. phase2_date cx d s = Inr s' \<and> ready cx (dict_keys (schedule st)) s'"
    unfolding phase2_date_def
  proof (rule for_each_total [where I = "ready cx (dict_keys (schedule st))", OF _ s])
    fix shift_id s1
    assume sh: "shift_id \<in> set (shift_list_today cx d)"
      and s1: "ready cx (dict_keys (schedule st)) s1"
    have known: "shift_id \<in> set (shift_list cx)"
      using sh shift_list_today_subset by blast
    obtain shift where shift: "getitem (shifts cx) shift_id = Inr shift"
      using known getitem_dict_keys by (fastforce simp: shift_list_def)
    obtain required where req: "get_required_staff cx shift_id d (schedule s1) = Inr required"
      using get_required_staff_total [OF known] by blast
    obtain entry where entry: "getitem (schedule s1) d = Inr entry"
      using ready_getitem [OF s1 d] by blast
    show "\<exists>s'. phase2_shift cx d shift_id s1 = Inr s' \<and> ready cx (dict_keys (schedule st)) s'"
      using shift req entry s1 fill_shift_total [OF s1 d known]
      by (simp add: phase2_shift_def)
  qed
qed

lemma phase3_passes_total:
  "ready cx ks st \<Longrightarrow> \<exists>st'. phase3_passes n cx st = Inr st' \<and> ready cx ks st'"
proof (induction n arbitrary: st)
  case 0
  then show ?case by simp
next
  case (Suc n)
  have keys: "dict_keys (schedule st) = ks"
    using Suc.prems by (simp add: ready_def)
  have start: "ready cx ks (snd (0 :: int, st))"
    using Suc.prems by simp
  have "\<exists>vs'. for_each (phase3_date cx) ks (0, st) = Inr vs' \<and> ready cx ks (snd vs')"
  proof (rule for_each_total [where I = "\<lambda>vs. ready cx ks (snd vs)", OF _ start])
    fix d and vs :: "int \<times> gen_state"
    assume d: "d \<in> set ks" and vs: "ready cx ks (snd vs)"
    show "\<exists>vs'. phase3_date cx d vs = Inr vs' \<and> ready cx ks (snd vs')"
      unfolding phase3_date_def
    proof (rule for_each_total [where I = "\<lambda>vs. ready cx ks (snd vs)", OF _ vs])
      fix shift_id and v1 :: "int \<times> gen_state"
      assume sh: "shift_id \<in> set (shift_list_today cx d)" and v1: "ready cx ks (snd v1)"
      have known: "shift_id \<in> set (shift_list cx)"
        using sh shift_list_today_subset by blast
      obtain shift where shift: "getitem (shifts cx) shift_id = Inr shift"
        using known getitem_dict_keys by (fastforce simp: shift_list_def)
      obtain required where req: "get_required_staff cx shift_id d (schedule (snd v1)) = Inr required"
        using get_required_staff_total [OF known] by blast
      obtain entry where entry: "getitem (schedule (snd v1)) d = Inr entry"
        using ready_getitem [OF v1 d] by blast
      obtain r where r: "assign_employee_to_shift cx d shift_id (snd v1) = Inr r" "ready cx ks (snd r)"
        using assign_employee_to_shift_total [OF v1 d known] by blast
      show "\<exists>vs'. phase3_shift cx d shift_id v1 = Inr vs' \<and> ready cx ks (snd vs')"
        using shift req entry r v1 by (cases v1) (auto simp: phase3_shift_def)
    qed
  qed
  then obtain vs' where vs': "for_each (phase3_date cx) ks (0, st) = Inr vs'" "ready cx ks (snd vs')"
    by blast
  show ?case
    using vs' keys Suc.IH [OF vs'(2)] by simp
qed

lemma find_shortages_total:
  "ready cx ks st \<Longrightarrow> d \<in> set ks \<Longrightarrow> set shift_ids \<subseteq> set (shift_list cx)
    \<Longrightarrow> \<exists>xs. find_shortages cx d (schedule st) shift_ids = Inr xs"
proof (induction shift_ids)
  case Nil
  then show ?case by simp
next
  case (Cons shift_id rest)
  have known: "shift_id \<in> set (shift_list cx)"
    using Cons.prems(3) by simp
  obtain shift where shift: "getitem (shifts cx) shift_id = Inr shift"
    using known getitem_dict_keys by (fastforce simp: shift_list_def)
  obtain required where req: "get_required_staff cx shift_id d (schedule st) = Inr required"
    using get_required_staff_total [OF known] by blast
  obtain entry where entry: "getitem (schedule st) d = Inr entry"
    using ready_getitem [OF Cons.prems(1,2)] by blast
  obtain xs where "find_shortages cx d (schedule st) rest = Inr xs"
    using Cons by auto
  then show ?case using shift req entry by simp
qed

lemma try_shifts_total:
  "ready cx ks st \<Longrightarrow> d \<in> set ks
    \<Longrightarrow> \<exists>st'. try_shifts cx d emp_id xs st = Inr st' \<and> ready cx ks st'"
proof (induction xs)
  case Nil
  then show ?case by simp
next
  case (Cons x xs)
  show ?case
  proof (cases "check_conflicts cx emp_id (fst x) d (schedule st) = []")
    case False
    then show ?thesis using Cons by simp
  next
    case True
    obtain entry where entry: "getitem (schedule st) d = Inr entry"
      using ready_getitem [OF Cons.prems] by blast
    from check_conflicts_Nil [OF True] obtain emp and shift :: shift_rec where
      known: "map_of (employees cx) emp_id = Some emp" "map_of (shifts cx) (fst x) = Some shift"
      by blast
    have "emp_id \<in> set (employee_list cx)"
      using known(1) map_of_dict_keys [of "employees cx" emp_id] by (simp add: employee_list_def)
    then obtain wl where wl: "getitem (employee_workload st) emp_id = Inr wl"
      using Cons.prems(1) by (auto simp: ready_def list_all_iff getitem_def)
    show ?thesis
      using True entry known(2) wl ready_placement [OF Cons.prems(1) entry]
      by (simp add: getitem_def)
  qed
qed

lemma phase4_total:
  assumes "ready cx (dict_keys (schedule st)) st"
  shows "\<exists>st'. phase4 cx st = Inr st' \<and> ready cx (dict_keys (schedule st)) st'"
  unfolding phase4_def
proof (rule for_each_total [where I = "ready cx (dict_keys (schedule st))", OF _ assms])
  fix d s
  assume d: "d \<in> set (dict_keys (schedule st))" and s: "ready cx (dict_keys (schedule st)) s"
  obtain entry where entry: "getitem (schedule s) d = Inr entry"
    using ready_getitem [OF s d] by blast
  let ?emps = "filter (\<lambda>emp_id. emp_id \<notin> set (dict_keys (assignments entry))) (employee_list cx)"
  have known: "list_all (\<lambda>emp_id. map_of (employee_workload s) emp_id \<noteq> None) ?emps"
    using s by (auto simp: ready_def list_all_iff)
  have "\<exists>s'. for_each (phase4_employee cx d) (sort_key (workload_key (employee_workload s)) ?emps) s
           = Inr s' \<and> ready cx (dict_keys (schedule st)) s'"
  proof (rule for_each_total [where I = "ready cx (dict_keys (schedule st))", OF _ s])
    fix emp_id s1
    assume s1: "ready cx (dict_keys (schedule st)) s1"
    obtain xs where "find_shortages cx d (schedule s1) (shift_list_today cx d) = Inr xs"
      using find_shortages_total [OF s1 d shift_list_today_subset] by blast
    then show "\<exists>s'. phase4_employee cx d emp_id s1 = Inr s' \<and> ready cx (dict_keys (schedule st)) s'"
      using try_shifts_total [OF s1 d] by (simp add: phase4_employee_def)
  qed
  then show "\<exists>s'. phase4_date cx d s = Inr s' \<and> ready cx (dict_keys (schedule st)) s'"
    using entry known by (simp add: phase4_date_def Let_def)
qed

lemma dict_keys_fold_dict_set:
  "distinct (dict_keys d0 @ ks)
    \<Longrightarrow> dict_keys (fold (\<lambda>k d. dict_set d k (f k)) ks d0) = dict_keys d0 @ ks"
proof (induction ks arbitrary: d0)
  case Nil
  then show ?case by simp
next
  case (Cons k ks)
  have new: "k \<notin> set (dict_keys d0)" using Cons.prems by auto
  have step: "dict_keys (dict_set d0 k (f k)) = dict_keys d0 @ [k]"
    using dict_set_append [OF new] by (simp add: dict_keys_def)
  have "distinct (dict_keys (dict_set d0 k (f k)) @ ks)"
    using Cons.prems step by auto
  from Cons.IH [OF this] show ?case using step by simp
qed

lemma distinct_date_range: "distinct (date_range start_date end_date)"
  by (simp add: date_range_def distinct_map inj_on_def)

lemma initial_state_ready:
  "ready cx (date_range start_date end_date) (initial_state cx start_date end_date)"
proof -
  have "dict_keys (schedule (initial_state cx start_date end_date)) = date_range start_date end_date"
    using dict_keys_fold_dict_set [of "[]" "date_range start_date end_date"] distinct_date_range
    by (simp add: initial_state_def dict_keys_def)
  moreover have "list_all (\<lambda>emp_id. map_of (employee_workload (initial_state cx start_date end_date))
                            emp_id \<noteq> None) (employee_list cx)"
    by (simp add: initial_state_def list_all_iff fold_dict_set_const)
  ultimately show ?thesis by (simp add: ready_def)
qed

lemma run_generation_total:
  "\<exists>sched. run_generation cx start_date end_date = Inr sched
     \<and> dict_keys sched = date_range start_date end_date"
proof -
  let ?ks = "date_range start_date end_date"
  note r0 = initial_state_ready [of cx start_date end_date]
  have k0: "dict_keys (schedule (initial_state cx start_date end_date)) = ?ks"
    using r0 by (simp add: ready_def)
  obtain st1 where st1: "phase1 cx (initial_state cx start_date end_date) = Inr st1" "ready cx ?ks st1"
    using phase1_total [of cx "initial_state cx start_date end_date"] r0 k0 by auto
  have k1: "dict_keys (schedule st1) = ?ks" using st1(2) by (simp add: ready_def)
  obtain st2 where st2: "phase2 cx st1 = Inr st2" "ready cx ?ks st2"
    using phase2_total [of cx st1] st1(2) k1 by auto
  obtain st3 where st3: "phase3 cx st2 = Inr st3" "ready cx ?ks st3"
    using phase3_passes_total [OF st2(2)] by (auto simp: phase3_def)
  have k3: "dict_keys (schedule st3) = ?ks" using st3(2) by (simp add: ready_def)
  obtain st4 where st4: "phase4 cx st3 = Inr st4" "ready cx ?ks st4"
    using phase4_total [of cx st3] st3(2) k3 by auto
  show ?thesis
    using st1 st2 st3 st4 by (simp add: run_generation_def ready_def)
qed

lemma generate_schedule_never_raises:
  "fst (generate_schedule ss start_date end_date) \<noteq> Raised e"
  using run_generation_total [of ss start_date end_date]
  by (auto simp: generate_schedule_def)

lemma date_range_nonempty: "start_date \<le> end_date \<Longrightarrow> date_range start_date end_date \<noteq> []"
  by (simp add: date_range_def)

lemma generated_schedule_dates:
  assumes "generate_schedule ss start_date end_date = (Generated, ss')"
  shows "dict_keys (stored_schedule ss') = date_range start_date end_date"
  using generate_schedule_Generated [OF assms]
    run_generation_total [of ss start_date end_date]
  by auto

subsection \<open>The example run\<close>

lemma zero_padded_2: "zero_padded 2 k = [48 + k div 10 mod 10, 48 + k mod 10]"
proof -
  have "(2::nat) = Suc (Suc 0)" by simp
  then show ?thesis by (simp only: zero_padded.simps append_Nil append_Cons)
qed

lemma zero_padded_4:
  "zero_padded 4 k =
     [48 + k div 10 div 10 div 10 mod 10, 48 + k div 10 div 10 mod 10, 48 + k div 10 mod 10, 48 + k mod 10]"
proof -
  have "(4::nat) = Suc (Suc (Suc (Suc 0)))" by simp
  then show ?thesis by (simp only: zero_padded.simps append_Nil append_Cons)
qed

lemma strftime_738886: "strftime_ymd 738886 = [50, 48, 50, 52, 45, 48, 49, 45, 48, 49]"
  by (simp add: strftime_ymd_def ord2ymd_def Let_def days_before_month_def days_in_month_def
      zero_padded_2 zero_padded_4)

lemma strftime_738887: "strftime_ymd 738887 = [50, 48, 50, 52, 45, 48, 49, 45, 48, 50]"
  by (simp add: strftime_ymd_def ord2ymd_def Let_def days_before_month_def days_in_month_def
      zero_padded_2 zero_padded_4)

lemma date_range_demo: "date_range 738886 738887 = [738886, 738887]"
proof -
  have "[0..<nat (738887 - 738886 + 1)] = [0, Suc 0]"
    by (simp add: numeral_2_eq_2)
  then show ?thesis by (simp add: date_range_def)
qed

lemma demo_initial:
  "initial_state (demo_session old period) 738886 738887 = demo_st0"
  by (simp add: initial_state_def date_range_demo demo_session_def dict_keys_def employee_list_def
      demo_st0_def)

lemma demo_lookups:
  "map_of (employees (demo_session old period)) [65] = Some ex_employee"
  "map_of (employees (demo_session old period)) [66] = Some demo_employee_b"
  "map_of (shifts (demo_session old period)) late_shift_id = Some (ex_shift 1)"
  "employee_list (demo_session old period) = [[65], [66]]"
  "shift_list (demo_session old period) = [late_shift_id]"
  "late_shift_id \<noteq> early_shift_id"
  "late_shift_id \<noteq> fixed_early_early_shift"
  "monday_no_early_early (demo_session old period) = False"
  by (simp_all add: demo_session_def employee_list_def shift_list_def dict_keys_def late_shift_id_def
      early_shift_id_def fixed_early_early_shift_def early_early_shift_id_def
      monday_no_early_early_def ex_rules_def)

lemma demo_required:
  "sched \<noteq> [] \<Longrightarrow> get_required_staff (demo_session old period) late_shift_id d sched = Inr 1"
  using demo_lookups(3,6)
  by (simp add: get_required_staff_def flexible_shifts_def getitem_def ex_shift_def)

lemma demo_conflicts:
  "\<not> already_assigned sched 738886 [65] \<Longrightarrow> check_conflicts (demo_session old period) [65] late_shift_id 738886 sched = []"
  "check_conflicts (demo_session old period) [66] late_shift_id 738886 sched \<noteq> []"
  "check_conflicts (demo_session old period) [65] late_shift_id 738887 sched \<noteq> []"
  "\<not> already_assigned sched 738887 [66] \<Longrightarrow> check_conflicts (demo_session old period) [66] late_shift_id 738887 sched = []"
  using monday_738886 tuesday_738887 strftime_738886 strftime_738887
  by (simp_all add: check_conflicts_known [OF demo_lookups(1) demo_lookups(3)]
      check_conflicts_known [OF demo_lookups(2) demo_lookups(3)]
      ex_employee_def demo_employee_b_def ex_shift_def)

lemma demo_score:
  "map_of wls emp_id \<noteq> None \<Longrightarrow> emp_id = [65] \<or> emp_id = [66]
   \<Longrightarrow> \<exists>score. get_employee_score (demo_session old period) cyc emp_id late_shift_id d wls = Inr score"
  using get_employee_score_known [OF demo_lookups(1) [of old period] demo_lookups(3) [of old period]]
    get_employee_score_known [OF demo_lookups(2) [of old period] demo_lookups(3) [of old period]]
  by auto

lemma demo_assign_monday:
  "assign_employee_to_shift (demo_session old period) 738886 late_shift_id demo_st0 = Inr (True, demo_st1)"
proof -
  obtain score where
    sc: "get_employee_score (demo_session old period) (employee_shift_cycle demo_st0) [65] late_shift_id 738886
           (employee_workload demo_st0) = Inr score"
    using demo_score [where wls = "employee_workload demo_st0" and emp_id = "[65]"
        and old = old and period = period] by (auto simp: demo_st0_def)
  have cands: "collect_candidates (demo_session old period) demo_st0 late_shift_id 738886 [[65], [66]]
      = Inr [(score, [65])]"
    using sc demo_conflicts(2) by (simp add: demo_conflicts(1) already_assigned_def demo_st0_def dict_keys_def)
  have cyc: "update_cycle (demo_session old period) (employee_shift_cycle demo_st0) [65] late_shift_id 738886
      = employee_shift_cycle demo_st1"
    by (simp add: update_cycle_def Let_def check_if_rested_def cycle_of_def dict_get_or_def
        demo_st0_def demo_st1_def get_shift_type_def late_shift_id_def)
  show ?thesis
    unfolding assign_employee_to_shift_def
    using cands cyc demo_lookups
    by (simp add: getitem_def Let_def dict_get_or_def dict_keys_def demo_required
        record_assignment_def add_work_def float_add_small ex_shift_def demo_st0_def demo_st1_def)
qed

lemma demo_assign_tuesday:
  "assign_employee_to_shift (demo_session old period) 738887 late_shift_id demo_st1 = Inr (True, demo_st2)"
proof -
  obtain score where
    sc: "get_employee_score (demo_session old period) (employee_shift_cycle demo_st1) [66] late_shift_id 738887
           (employee_workload demo_st1) = Inr score"
    using demo_score [where wls = "employee_workload demo_st1" and emp_id = "[66]"
        and old = old and period = period] by (auto simp: demo_st1_def)
  have cands: "collect_candidates (demo_session old period) demo_st1 late_shift_id 738887 [[65], [66]]
      = Inr [(score, [66])]"
    using sc demo_conflicts(3) by (simp add: demo_conflicts(4) already_assigned_def demo_st1_def dict_keys_def)
  have cyc: "update_cycle (demo_session old period) (employee_shift_cycle demo_st1) [66] late_shift_id 738887
      = employee_shift_cycle demo_st2"
    by (simp add: update_cycle_def Let_def check_if_rested_def cycle_of_def dict_get_or_def
        demo_st1_def demo_st2_def get_shift_type_def late_shift_id_def)
  show ?thesis
    unfolding assign_employee_to_shift_def
    using cands cyc demo_lookups
    by (simp add: getitem_def Let_def dict_get_or_def dict_keys_def demo_required
        record_assignment_def add_work_def float_add_small ex_shift_def demo_st1_def demo_st2_def demo_schedule_def)
qed

lemma demo_keys:
  "dict_keys (schedule demo_st0) = [738886, 738887]"
  "dict_keys (schedule demo_st1) = [738886, 738887]"
  "dict_keys (schedule demo_st2) = [738886, 738887]"
  by (simp_all add: dict_keys_def demo_st0_def demo_st1_def demo_st2_def demo_schedule_def)

lemma demo_today: "shift_list_today (demo_session old period) d = [late_shift_id]"
  by (simp add: shift_list_today_def demo_lookups)

lemma demo_phase1: "phase1 (demo_session old period) demo_st0 = Inr demo_st0"
proof -
  have "fixed_early_early_shift \<noteq> late_shift_id"
    by (simp add: late_shift_id_def fixed_early_early_shift_def early_early_shift_id_def)
  then show ?thesis
    by (simp add: phase1_def demo_keys phase1_date_def demo_lookups)
qed

lemma demo_fill_monday: "fill_shift (demo_session old period) 738886 late_shift_id 1 0 demo_st0 = Inr demo_st1"
  by (subst fill_shift.simps, simp add: demo_assign_monday, subst fill_shift.simps, simp)

lemma demo_fill_tuesday: "fill_shift (demo_session old period) 738887 late_shift_id 1 0 demo_st1 = Inr demo_st2"
  by (subst fill_shift.simps, simp add: demo_assign_tuesday, subst fill_shift.simps, simp)

lemma demo_phase2: "phase2 (demo_session old period) demo_st0 = Inr demo_st2"
proof -
  have mon: "phase2_shift (demo_session old period) 738886 late_shift_id demo_st0 = Inr demo_st1"
    using demo_fill_monday demo_lookups
    by (simp add: phase2_shift_def getitem_def demo_required dict_get_or_def demo_st0_def)
  have tue: "phase2_shift (demo_session old period) 738887 late_shift_id demo_st1 = Inr demo_st2"
    using demo_fill_tuesday demo_lookups
    by (simp add: phase2_shift_def getitem_def demo_required dict_get_or_def demo_st1_def)
  show ?thesis
    by (simp add: phase2_def demo_keys phase2_date_def demo_today mon tue)
qed

lemma demo_phase3: "phase3 (demo_session old period) demo_st2 = Inr demo_st2"
proof -
  have full: "phase3_shift (demo_session old period) d late_shift_id (0, demo_st2) = Inr (0, demo_st2)"
    if "d = 738886 \<or> d = 738887" for d
    using that demo_lookups
    by (auto simp: phase3_shift_def getitem_def demo_required dict_get_or_def demo_st2_def
        demo_schedule_def)
  have "for_each (phase3_date (demo_session old period)) (dict_keys (schedule demo_st2)) (0, demo_st2)
      = Inr (0, demo_st2)"
    by (simp add: demo_keys phase3_date_def demo_today full)
  then show ?thesis
    by (simp add: phase3_def max_iterations_def numeral_3_eq_3)
qed

lemma demo_phase4: "phase4 (demo_session old period) demo_st2 = Inr demo_st2"
proof -
  have none: "find_shortages (demo_session old period) d (schedule demo_st2) [late_shift_id] = Inr []"
    if "d = 738886 \<or> d = 738887" for d
    using that demo_lookups
    by (auto simp: getitem_def demo_required dict_get_or_def demo_st2_def demo_schedule_def)
  have emp: "phase4_employee (demo_session old period) d emp_id demo_st2 = Inr demo_st2"
    if "d = 738886 \<or> d = 738887" for d emp_id
    using none [OF that]
    by (simp add: phase4_employee_def demo_today order_shortages_def Let_def split: option.splits)
  have all: "for_each (phase4_employee (demo_session old period) d) emps demo_st2 = Inr demo_st2"
    if "d = 738886 \<or> d = 738887" for d emps
    by (induction emps) (simp_all add: emp [OF that])
  have known: "list_all (\<lambda>emp_id. map_of (employee_workload demo_st2) emp_id \<noteq> None)
      (filter P (employee_list (demo_session old period)))" for P
    by (simp add: list_all_iff demo_lookups demo_st2_def)
  have day: "phase4_date (demo_session old period) d demo_st2 = Inr demo_st2"
    if "d = 738886 \<or> d = 738887" for d
  proof -
    have "\<exists>entry. getitem (schedule demo_st2) d = Inr entry"
      using that by (elim disjE) (simp_all add: getitem_def demo_st2_def demo_schedule_def)
    then obtain entry where "getitem (schedule demo_st2) d = Inr entry"
      by blast
    then show ?thesis
      using known all [OF that] by (simp add: phase4_date_def Let_def)
  qed
  show ?thesis
    by (simp add: phase4_def demo_keys day)
qed

lemma demo_run: "run_generation (demo_session old period) 738886 738887 = Inr demo_schedule"
  by (simp add: run_generation_def demo_initial demo_phase1 demo_phase2 demo_phase3 demo_phase4)
     (simp add: demo_st2_def)

lemma demo_generate:
  "generate_schedule (demo_session old period) 738886 738887
     = (Generated, demo_session demo_schedule period)"
  by (simp add: generate_schedule_def demo_run)
     (simp add: demo_session_def)

text \<open>
  C6: with no employees, no shifts, or a start date that is not before the end date,
  the handler stops with a precondition error and the session, with its stored schedule,
  is what it was; with employees, shifts and a start date before the end date the
  generation is run, it returns a schedule, and that schedule replaces the stored one.
  A precondition error is the outcome in the first case only.
\<close>

theorem generate_schedule_precondition:
  "(employees ss = [] \<or> shifts ss = [] \<or> \<not> start_date < end_date
      \<longrightarrow> (\<exists>p. generate_schedule ss start_date end_date = (PreconditionError p, ss)))
   \<and> (employees ss \<noteq> [] \<and> shifts ss \<noteq> [] \<and> start_date < end_date
      \<longrightarrow> (\<exists>sched. run_generation ss start_date end_date = Inr sched
             \<and> generate_schedule ss start_date end_date
                 = (Generated, ss\<lparr>stored_schedule := sched\<rparr>)))
   \<and> ((\<exists>p. fst (generate_schedule ss start_date end_date) = PreconditionError p)
        \<longleftrightarrow> (employees ss = [] \<or> shifts ss = [] \<or> \<not> start_date < end_date))"
  using run_generation_total [of ss start_date end_date]
  by (auto simp: generate_schedule_def)

theorem generate_schedule_precondition_witness:
  "generate_schedule empty_session 738886 738887 = (PreconditionError NoEmployeesOrShifts, empty_session)
   \<and> generate_schedule (demo_session demo_schedule (0, 0)) 738887 738886
       = (PreconditionError EndNotAfterStart, demo_session demo_schedule (0, 0))
   \<and> generate_schedule (demo_session [] (0, 0)) 738886 738887
       = (Generated, (demo_session [] (0, 0))\<lparr>stored_schedule := demo_schedule\<rparr>)"
proof -
  have a: "employees empty_session = []"
    by (simp add: empty_session_def)
  have b: "employees (demo_session old p) \<noteq> [] \<and> shifts (demo_session old p) \<noteq> []" for old p
    by (simp add: demo_session_def)
  have c: "generate_schedule empty_session 738886 738887
      = (PreconditionError NoEmployeesOrShifts, empty_session)"
    using generate_schedule_precondition [of empty_session 738886 738887] a
    by (auto simp: generate_schedule_def)
  have d: "generate_schedule (demo_session demo_schedule (0, 0)) 738887 738886
       = (PreconditionError EndNotAfterStart, demo_session demo_schedule (0, 0))"
    using generate_schedule_precondition [of "demo_session demo_schedule (0, 0)" 738887 738886] b
    by (auto simp: generate_schedule_def)
  have e: "generate_schedule (demo_session [] (0, 0)) 738886 738887
       = (Generated, (demo_session [] (0, 0))\<lparr>stored_schedule := demo_schedule\<rparr>)"
    using generate_schedule_precondition [of "demo_session [] (0, 0)" 738886 738887] b
    by (simp add: demo_run)
  show ?thesis using c d e by simp
qed

theorem generated_shift_counts_consistent_witness:
  "generate_schedule (demo_session [] (0, 0)) 738886 738887
     = (Generated, demo_session demo_schedule (0, 0))
   \<and> map_of (stored_schedule (demo_session demo_schedule (0, 0))) 738886
       = Some \<lparr>assignments = [([65], late_shift_id)], shift_counts = [(late_shift_id, 1)]\<rparr>
   \<and> distinct (dict_keys [([65 :: nat], late_shift_id)])
   \<and> dict_get_or [(late_shift_id, 1)] late_shift_id 0
       = int (length (filter (\<lambda>a. snd a = late_shift_id) [([65 :: nat], late_shift_id)]))
   \<and> dict_get_or [(late_shift_id, 1)] early_shift_id 0
       = int (length (filter (\<lambda>a. snd a = early_shift_id) [([65 :: nat], late_shift_id)]))
   \<and> placements (demo_session [] (0, 0)) (schedule demo_st0) demo_schedule"
proof -
  have e: "map_of (stored_schedule (demo_session demo_schedule (0, 0))) 738886
       = Some \<lparr>assignments = [([65], late_shift_id)], shift_counts = [(late_shift_id, 1)]\<rparr>"
    by (simp add: demo_session_def demo_schedule_def)
  show ?thesis
    using demo_generate [of "[]" "(0, 0)"] e
      generated_shift_counts_consistent [OF demo_generate [of "[]" "(0, 0)"] e,
        where shift_id = late_shift_id]
      generated_shift_counts_consistent [OF demo_generate [of "[]" "(0, 0)"] e,
        where shift_id = early_shift_id]
    by (simp add: demo_initial) (simp add: demo_session_def)
qed

theorem generated_respects_availability_witness:
  "generate_schedule (demo_session [] (0, 0)) 738886 738887
     = (Generated, demo_session demo_schedule (0, 0))
   \<and> map_of (employees (demo_session [] (0, 0))) [65] = Some ex_employee
   \<and> get_weekday_chinese 738887 = rest_day ex_employee
   \<and> map_of (stored_schedule (demo_session demo_schedule (0, 0))) 738887
       = Some \<lparr>assignments = [([66], late_shift_id)], shift_counts = [(late_shift_id, 1)]\<rparr>
   \<and> [65 :: nat] \<notin> set (dict_keys [([66 :: nat], late_shift_id)])
   \<and> map_of (employees (demo_session [] (0, 0))) [66] = Some demo_employee_b
   \<and> occurs_in (strftime_ymd 738886) (unavailable_days demo_employee_b)
   \<and> map_of (stored_schedule (demo_session demo_schedule (0, 0))) 738886
       = Some \<lparr>assignments = [([65], late_shift_id)], shift_counts = [(late_shift_id, 1)]\<rparr>
   \<and> [66 :: nat] \<notin> set (dict_keys [([65 :: nat], late_shift_id)])
   \<and> placements (demo_session [] (0, 0)) (schedule demo_st0) demo_schedule"
proof -
  have mon: "map_of (stored_schedule (demo_session demo_schedule (0, 0))) 738886
       = Some \<lparr>assignments = [([65], late_shift_id)], shift_counts = [(late_shift_id, 1)]\<rparr>"
    by (simp add: demo_session_def demo_schedule_def)
  have tue: "map_of (stored_schedule (demo_session demo_schedule (0, 0))) 738887
       = Some \<lparr>assignments = [([66], late_shift_id)], shift_counts = [(late_shift_id, 1)]\<rparr>"
    by (simp add: demo_session_def demo_schedule_def)
  have a: "map_of (employees (demo_session [] (0, 0))) [65] = Some ex_employee"
    by (simp add: demo_session_def)
  have b: "map_of (employees (demo_session [] (0, 0))) [66] = Some demo_employee_b"
    by (simp add: demo_session_def)
  have rest: "get_weekday_chinese 738887 = rest_day ex_employee"
    using tuesday_738887 by (simp add: ex_employee_def)
  have away: "occurs_in (strftime_ymd 738886) (unavailable_days demo_employee_b)"
    by (simp add: strftime_738886 demo_employee_b_def occurs_in_str_contains)
  have r: "get_weekday_chinese 738887 = rest_day ex_employee
      \<or> occurs_in (strftime_ymd 738887) (unavailable_days ex_employee)"
    using rest by simp
  have u: "get_weekday_chinese 738886 = rest_day demo_employee_b
      \<or> occurs_in (strftime_ymd 738886) (unavailable_days demo_employee_b)"
    using away by simp
  show ?thesis
    using demo_generate [of "[]" "(0, 0)"] mon tue a b rest away
      generated_respects_availability [OF demo_generate [of "[]" "(0, 0)"] tue a r]
      generated_respects_availability [OF demo_generate [of "[]" "(0, 0)"] mon b u]
    by (simp add: demo_initial) (simp add: demo_session_def)
qed

subsection \<open>Rounding decides between two employees\<close>

text \<open>
  For "A" the source computes \<^verbatim>\<open>((0.0 + 10) + 8 * 0.1) - 5\<close>, which is
  5.800000000000001, and for "B" \<^verbatim>\<open>((0.0 + 10) - 5) + 8 * 0.1\<close>, which is 5.8; the
  exact sums are equal. The sort puts "B" first, and \<^verbatim>\<open>assign_employee_to_shift\<close>
  assigns the shift to "B", the second employee of the list.
\<close>

lemma tie_lookups:
  "map_of (employees tie_session) [65] = Some ex_employee"
  "map_of (employees tie_session) [66] = Some tie_employee"
  "map_of (shifts tie_session) late_shift_id = Some (ex_shift 1)"
  "late_shift_id \<noteq> early_shift_id"
  "get_shift_type late_shift_id = Late"
  by (simp_all add: tie_session_def late_shift_id_def early_shift_id_def get_shift_type_def)

lemma tie_rested:
  "check_if_rested tie_session (employee_shift_cycle tie_state) [65] 738888"
proof -
  have "(738886::int) + 1 \<le> 738887 \<and> (738887::int) \<le> 738888
      \<and> get_weekday_chinese 738887 = rest_day ex_employee"
    using tuesday_738887 by (simp add: ex_employee_def)
  then have "\<exists>k. (738886::int) + 1 \<le> k \<and> k \<le> 738888
      \<and> get_weekday_chinese k = rest_day ex_employee"
    by blast
  then have "rest_day_passed (rest_day ex_employee) (738886 + 1) 738888"
    by (simp only: rest_day_passed_iff)
  then show ?thesis
    by (simp add: check_if_rested_def cycle_of_def dict_get_or_def tie_state_def tie_session_def
        ex_employee_def)
qed

lemma tie_score_steps:
  "float_sub 10 5 = 5"
  "float_add 5 (3602879701896397 / 4503599627370496) = 6530219459687219 / 1125899906842624"
  by (simp_all add: float_add_def float_sub_def float_eval)

lemma tie_scores:
  "get_employee_score tie_session (employee_shift_cycle tie_state) [65] late_shift_id 738888
       (employee_workload tie_state) = Inr (1632554864921805 / 281474976710656)"
  "get_employee_score tie_session (employee_shift_cycle tie_state) [66] late_shift_id 738888
       (employee_workload tie_state) = Inr (6530219459687219 / 1125899906842624)"
  "(6530219459687219 / 1125899906842624 :: rat) < 1632554864921805 / 281474976710656"
  "(10 + (1 / 10) * 8 - 5 :: rat) = 10 - 5 + (1 / 10) * 8"
proof -
  have f: "fixed_early_early_employees tie_session = []"
    by (simp add: fixed_early_early_employees_def tie_session_def ex_rules_def)
  have c: "cycle_of (employee_shift_cycle tie_state) [65]
        = \<lparr>current_type = Some Early, last_work_date = Some 738886, rested = False\<rparr>"
    "cycle_of (employee_shift_cycle tie_state) [66]
        = \<lparr>current_type = None, last_work_date = None, rested = False\<rparr>"
    by (simp_all add: cycle_of_def dict_get_or_def tie_state_def)
  have w: "map_of (employee_workload tie_state) [65] = Some \<lparr>days = 1, hours = 8\<rparr>"
    "map_of (employee_workload tie_state) [66] = Some \<lparr>days = 1, hours = 8\<rparr>"
    by (simp_all add: tie_state_def)
  have nr: "\<not> check_if_rested tie_session (employee_shift_cycle tie_state) [66] 738888"
    by (simp add: check_if_rested_def c)
  show "get_employee_score tie_session (employee_shift_cycle tie_state) [65] late_shift_id 738888
       (employee_workload tie_state) = Inr (1632554864921805 / 281474976710656)"
    using tie_rested
    by (simp add: get_employee_score_def getitem_def Let_def tie_lookups f c w ex_employee_def
        ex_shift_def get_opposite_shift_type_def ex_score_steps)
  show "get_employee_score tie_session (employee_shift_cycle tie_state) [66] late_shift_id 738888
       (employee_workload tie_state) = Inr (6530219459687219 / 1125899906842624)"
    using nr
    by (simp add: get_employee_score_def getitem_def Let_def tie_lookups f c w tie_employee_def
        ex_shift_def ex_score_steps tie_score_steps)
  show "(6530219459687219 / 1125899906842624 :: rat) < 1632554864921805 / 281474976710656"
    by simp
  show "(10 + (1 / 10) * 8 - 5 :: rat) = 10 - 5 + (1 / 10) * 8"
    by simp
qed

lemma tie_assign:
  "\<exists>st'. assign_employee_to_shift tie_session 738888 late_shift_id tie_state = Inr (True, st')
     \<and> assigned_on (schedule st') 738888 [66] = Some late_shift_id
     \<and> assigned_on (schedule st') 738888 [65] = None"
proof -
  have cc: "check_conflicts tie_session [65] late_shift_id 738888 (schedule tie_state) = []"
    "check_conflicts tie_session [66] late_shift_id 738888 (schedule tie_state) = []"
    using wednesday_738888
    by (simp_all add: check_conflicts_known [OF tie_lookups(1) tie_lookups(3)]
        check_conflicts_known [OF tie_lookups(2) tie_lookups(3)]
        ex_employee_def tie_employee_def ex_shift_def already_assigned_def tie_state_def
        dict_keys_def strftime_ymd_nonempty)
  have cands: "collect_candidates tie_session tie_state late_shift_id 738888 [[65], [66]]
      = Inr [(1632554864921805 / 281474976710656, [65]), (6530219459687219 / 1125899906842624, [66])]"
    by (simp add: cc tie_scores)
  have sorted: "sort_key fst [(1632554864921805 / 281474976710656 :: rat, [65 :: nat]),
                    (6530219459687219 / 1125899906842624, [66])]
      = [(6530219459687219 / 1125899906842624, [66]), (1632554864921805 / 281474976710656, [65])]"
    by (simp add: sort_key_def)
  have req: "get_required_staff tie_session late_shift_id 738888 (schedule tie_state) = Inr 1"
    using tie_lookups(3,4)
    by (simp add: get_required_staff_def flexible_shifts_def getitem_def ex_shift_def)
  have el: "employee_list tie_session = [[65], [66]]"
    by (simp add: employee_list_def dict_keys_def tie_session_def)
  have entry: "getitem (schedule tie_state) 738888
      = Inr \<lparr>assignments = [], shift_counts = [(late_shift_id, 0)]\<rparr>"
    by (simp add: getitem_def tie_state_def)
  have wl: "getitem (employee_workload tie_state) [66] = Inr \<lparr>days = 1, hours = 8\<rparr>"
    by (simp add: getitem_def tie_state_def)
  show ?thesis
    unfolding assign_employee_to_shift_def
    using tie_lookups(3) req entry cands sorted wl el
    by (simp add: getitem_def Let_def dict_get_or_def dict_keys_def assigned_on_def
        map_of_record_assignment)
qed

subsection \<open>The rotation record after an assignment\<close>

lemma update_cycle_rotation:
  "rotation_updated (check_if_rested cx cyc emp_id d) (cycle_of cyc emp_id) (get_shift_type shift_id) d
     (cycle_of (update_cycle cx cyc emp_id shift_id d) emp_id)
   \<and> rested (cycle_of (update_cycle cx cyc emp_id shift_id d) emp_id) = check_if_rested cx cyc emp_id d
   \<and> (\<forall>other. other \<noteq> emp_id \<longrightarrow>
         map_of (update_cycle cx cyc emp_id shift_id d) other = map_of cyc other)"
  by (auto simp: rotation_updated_def update_cycle_def Let_def cycle_of_def dict_get_or_def
      map_of_dict_set split: option.splits)

lemma update_cycle_idle_rotation:
  "rotation_updated (check_if_rested cx cyc emp_id d) (cycle_of cyc emp_id) (get_shift_type shift_id) d
     (cycle_of (update_cycle_idle cx cyc emp_id shift_id d) emp_id)
   \<and> rested (cycle_of (update_cycle_idle cx cyc emp_id shift_id d) emp_id)
       = (check_if_rested cx cyc emp_id d \<or> rested (cycle_of cyc emp_id))
   \<and> (\<forall>other. other \<noteq> emp_id \<longrightarrow>
         map_of (update_cycle_idle cx cyc emp_id shift_id d) other = map_of cyc other)"
  by (auto simp: rotation_updated_def update_cycle_idle_def Let_def cycle_of_def dict_get_or_def
      map_of_dict_set split: option.splits)

lemma try_shifts_cases:
  "try_shifts cx d emp_id xs st = Inr st' \<Longrightarrow>
     (st' = st \<and> (\<forall>x \<in> set xs. check_conflicts cx emp_id (fst x) d (schedule st) \<noteq> []))
     \<or> (\<exists>x entry shift wl. x \<in> set xs \<and> map_of (schedule st) d = Some entry
           \<and> map_of (shifts cx) (fst x) = Some shift
           \<and> map_of (employee_workload st) emp_id = Some wl
           \<and> check_conflicts cx emp_id (fst x) d (schedule st) = []
           \<and> st' = \<lparr>schedule = record_assignment (schedule st) d entry emp_id (fst x)
                                  (dict_get_or (shift_counts entry) (fst x) 0 + 1),
                     employee_workload = dict_set (employee_workload st) emp_id
                                           (add_work wl (duration_hours shift)),
                     employee_shift_cycle = update_cycle_idle cx (employee_shift_cycle st)
                                              emp_id (fst x) d\<rparr>)"
proof (induction xs)
  case Nil
  then show ?case by simp
next
  case (Cons x xs)
  show ?case
  proof (cases "check_conflicts cx emp_id (fst x) d (schedule st) = []")
    case False
    then have "try_shifts cx d emp_id xs st = Inr st'" using Cons.prems by simp
    from Cons.IH [OF this] show ?thesis using False by auto
  next
    case True
    from Cons.prems True obtain entry where entry: "getitem (schedule st) d = Inr entry"
      by (auto split: sum.splits)
    from Cons.prems True entry obtain shift where shift: "getitem (shifts cx) (fst x) = Inr shift"
      by (auto split: sum.splits)
    from Cons.prems True entry shift obtain wl where
      wl: "getitem (employee_workload st) emp_id = Inr wl"
      by (auto split: sum.splits)
    have "st' = \<lparr>schedule = record_assignment (schedule st) d entry emp_id (fst x)
                                  (dict_get_or (shift_counts entry) (fst x) 0 + 1),
                     employee_workload = dict_set (employee_workload st) emp_id
                                           (add_work wl (duration_hours shift)),
                     employee_shift_cycle = update_cycle_idle cx (employee_shift_cycle st)
                                              emp_id (fst x) d\<rparr>"
      using Cons.prems True entry shift wl by simp
    then show ?thesis
      using True entry shift wl
      by (intro disjI2 exI [of _ x] exI [of _ entry] exI [of _ shift] exI [of _ wl])
         (simp add: getitem_Inr)
  qed
qed

lemma assigned_on_record_assignment:
  "map_of sched d = Some entry \<Longrightarrow> e \<noteq> emp_id \<Longrightarrow>
     assigned_on (record_assignment sched d entry emp_id shift_id n) dd e = assigned_on sched dd e"
  by (simp add: assigned_on_def map_of_record_assignment map_of_dict_set)

lemma assign_fixed_staff_others:
  "assign_fixed_staff cx d shift required emps st = Inr st' \<Longrightarrow> e \<notin> set emps \<Longrightarrow>
     map_of (employee_shift_cycle st') e = map_of (employee_shift_cycle st) e
     \<and> assigned_on (schedule st') dd e = assigned_on (schedule st) dd e"
proof (induction emps arbitrary: st)
  case Nil
  then show ?case by simp
next
  case (Cons emp_id rest)
  from Cons.prems obtain entry where entry: "getitem (schedule st) d = Inr entry"
    by (auto split: sum.splits)
  let ?count = "dict_get_or (shift_counts entry) fixed_early_early_shift 0"
  have e: "e \<noteq> emp_id" "e \<notin> set rest" using Cons.prems(2) by auto
  show ?case
  proof (cases "?count \<ge> required")
    case True
    then show ?thesis using Cons.prems entry by simp
  next
    case False
    show ?thesis
    proof (cases "emp_id \<notin> set (dict_keys (assignments entry))
                 \<and> check_conflicts cx emp_id fixed_early_early_shift d (schedule st) = []")
      case no: False
      then have "assign_fixed_staff cx d shift required rest st = Inr st'"
        using Cons.prems entry False by auto
      then show ?thesis using Cons.IH e by blast
    next
      case yes: True
      then obtain wl where wl: "getitem (employee_workload st) emp_id = Inr wl"
        using Cons.prems entry False by (auto split: sum.splits)
      define st1 where "st1 = \<lparr>schedule = record_assignment (schedule st) d entry emp_id
                                   fixed_early_early_shift (?count + 1),
                      employee_workload = dict_set (employee_workload st) emp_id
                                            (add_work wl (duration_hours shift)),
                      employee_shift_cycle = dict_set (employee_shift_cycle st) emp_id
                        \<lparr>current_type = Some (get_shift_type fixed_early_early_shift),
                         last_work_date = Some d, rested = False\<rparr>\<rparr>"
      have "assign_fixed_staff cx d shift required rest st1 = Inr st'"
        using Cons.prems entry False yes wl by (simp add: st1_def)
      from Cons.IH [OF this e(2)]
      have "map_of (employee_shift_cycle st') e = map_of (employee_shift_cycle st1) e
          \<and> assigned_on (schedule st') dd e = assigned_on (schedule st1) dd e" .
      moreover have "map_of (employee_shift_cycle st1) e = map_of (employee_shift_cycle st) e"
        using e(1) by (simp add: st1_def map_of_dict_set)
      moreover have "assigned_on (schedule st1) dd e = assigned_on (schedule st) dd e"
        using e(1) entry by (simp add: st1_def assigned_on_record_assignment getitem_Inr)
      ultimately show ?thesis by simp
    qed
  qed
qed

lemma phase1_date_others:
  "phase1_date cx d st = Inr st' \<Longrightarrow> e \<notin> set (fixed_early_early_employees cx) \<Longrightarrow>
     map_of (employee_shift_cycle st') e = map_of (employee_shift_cycle st) e
     \<and> assigned_on (schedule st') dd e = assigned_on (schedule st) dd e"
  by (auto simp: phase1_date_def assign_fixed_staff_others split: if_splits sum.splits)

text \<open>
  C3 (amended): every successful assignment to an employee outside the fixed early-early
  list is made by \<^verbatim>\<open>assign_employee_to_shift\<close> (second and third round) or by the loop of
  the fourth round (\<open>try_shifts\<close>); the first round changes neither the assignments nor the
  rotation record of such an employee. Both places rewrite the rotation record of the
  assigned employee only: if the employee has just rested, the current type becomes the
  shift's type whatever it was (also when it was "other" or "mid"); if not, the current
  type is set to the shift's type only when it was unset. In both cases the last worked
  date becomes the date. \<open>try_shifts\<close> returns the state unchanged exactly when no
  shift of its list passes the conflict check.
\<close>

theorem assignment_rotation_update:
  "(assign_employee_to_shift cx d shift_id st = Inr (True, st') \<longrightarrow>
      (\<exists>emp_id entry.
         map_of (schedule st) d = Some entry \<and> emp_id \<notin> set (dict_keys (assignments entry))
         \<and> schedule st' = record_assignment (schedule st) d entry emp_id shift_id
                             (dict_get_or (shift_counts entry) shift_id 0 + 1)
         \<and> rotation_updated (check_if_rested cx (employee_shift_cycle st) emp_id d)
              (cycle_of (employee_shift_cycle st) emp_id) (get_shift_type shift_id) d
              (cycle_of (employee_shift_cycle st') emp_id)
         \<and> rested (cycle_of (employee_shift_cycle st') emp_id)
             = check_if_rested cx (employee_shift_cycle st) emp_id d
         \<and> (\<forall>other. other \<noteq> emp_id \<longrightarrow>
               map_of (employee_shift_cycle st') other = map_of (employee_shift_cycle st) other)))
   \<and> (try_shifts cx d emp_id xs st = Inr st' \<longrightarrow>
        (st' = st \<and> (\<forall>x \<in> set xs. check_conflicts cx emp_id (fst x) d (schedule st) \<noteq> []))
        \<or> (\<exists>x entry.
             x \<in> set xs \<and> map_of (schedule st) d = Some entry
             \<and> check_conflicts cx emp_id (fst x) d (schedule st) = []
             \<and> schedule st' = record_assignment (schedule st) d entry emp_id (fst x)
                                 (dict_get_or (shift_counts entry) (fst x) 0 + 1)
             \<and> rotation_updated (check_if_rested cx (employee_shift_cycle st) emp_id d)
                  (cycle_of (employee_shift_cycle st) emp_id) (get_shift_type (fst x)) d
                  (cycle_of (employee_shift_cycle st') emp_id)
             \<and> (\<forall>other. other \<noteq> emp_id \<longrightarrow>
                   map_of (employee_shift_cycle st') other = map_of (employee_shift_cycle st) other)))
   \<and> (phase1_date cx d st = Inr st' \<and> other \<notin> set (fixed_early_early_employees cx) \<longrightarrow>
        map_of (employee_shift_cycle st') other = map_of (employee_shift_cycle st) other
        \<and> assigned_on (schedule st') dd other = assigned_on (schedule st) dd other)"
proof (intro conjI impI)
  assume a: "assign_employee_to_shift cx d shift_id st = Inr (True, st')"
  from assign_employee_to_shift_cases [OF a]
  obtain emp_id entry and shift :: shift_rec and wl where
    e: "map_of (schedule st) d = Some entry" "emp_id \<notin> set (dict_keys (assignments entry))"
    and st': "st' = \<lparr>schedule = record_assignment (schedule st) d entry emp_id shift_id
                                 (dict_get_or (shift_counts entry) shift_id 0 + 1),
                    employee_workload = dict_set (employee_workload st) emp_id
                                          (add_work wl (duration_hours shift)),
                    employee_shift_cycle = update_cycle cx (employee_shift_cycle st)
                                             emp_id shift_id d\<rparr>"
    by auto
  show "\<exists>emp_id entry.
         map_of (schedule st) d = Some entry \<and> emp_id \<notin> set (dict_keys (assignments entry))
         \<and> schedule st' = record_assignment (schedule st) d entry emp_id shift_id
                             (dict_get_or (shift_counts entry) shift_id 0 + 1)
         \<and> rotation_updated (check_if_rested cx (employee_shift_cycle st) emp_id d)
              (cycle_of (employee_shift_cycle st) emp_id) (get_shift_type shift_id) d
              (cycle_of (employee_shift_cycle st') emp_id)
         \<and> rested (cycle_of (employee_shift_cycle st') emp_id)
             = check_if_rested cx (employee_shift_cycle st) emp_id d
         \<and> (\<forall>other. other \<noteq> emp_id \<longrightarrow>
               map_of (employee_shift_cycle st') other = map_of (employee_shift_cycle st) other)"
    using e st' update_cycle_rotation [of cx "employee_shift_cycle st" emp_id d shift_id]
    by (intro exI [of _ emp_id] exI [of _ entry]) simp
next
  assume t: "try_shifts cx d emp_id xs st = Inr st'"
  from try_shifts_cases [OF t]
  show "(st' = st \<and> (\<forall>x \<in> set xs. check_conflicts cx emp_id (fst x) d (schedule st) \<noteq> []))
        \<or> (\<exists>x entry.
             x \<in> set xs \<and> map_of (schedule st) d = Some entry
             \<and> check_conflicts cx emp_id (fst x) d (schedule st) = []
             \<and> schedule st' = record_assignment (schedule st) d entry emp_id (fst x)
                                 (dict_get_or (shift_counts entry) (fst x) 0 + 1)
             \<and> rotation_updated (check_if_rested cx (employee_shift_cycle st) emp_id d)
                  (cycle_of (employee_shift_cycle st) emp_id) (get_shift_type (fst x)) d
                  (cycle_of (employee_shift_cycle st') emp_id)
             \<and> (\<forall>other. other \<noteq> emp_id \<longrightarrow>
                   map_of (employee_shift_cycle st') other = map_of (employee_shift_cycle st) other))"
  proof
    assume "st' = st \<and> (\<forall>x \<in> set xs. check_conflicts cx emp_id (fst x) d (schedule st) \<noteq> [])"
    then show ?thesis by simp
  next
    assume "\<exists>x entry shift wl. x \<in> set xs \<and> map_of (schedule st) d = Some entry
           \<and> map_of (shifts cx) (fst x) = Some shift
           \<and> map_of (employee_workload st) emp_id = Some wl
           \<and> check_conflicts cx emp_id (fst x) d (schedule st) = []
           \<and> st' = \<lparr>schedule = record_assignment (schedule st) d entry emp_id (fst x)
                                  (dict_get_or (shift_counts entry) (fst x) 0 + 1),
                     employee_workload = dict_set (employee_workload st) emp_id
                                           (add_work wl (duration_hours shift)),
                     employee_shift_cycle = update_cycle_idle cx (employee_shift_cycle st)
                                              emp_id (fst x) d\<rparr>"
    then obtain x entry and shift :: shift_rec and wl where
      x: "x \<in> set xs" "map_of (schedule st) d = Some entry"
        "check_conflicts cx emp_id (fst x) d (schedule st) = []"
      and st': "st' = \<lparr>schedule = record_assignment (schedule st) d entry emp_id (fst x)
                                  (dict_get_or (shift_counts entry) (fst x) 0 + 1),
                     employee_workload = dict_set (employee_workload st) emp_id
                                           (add_work wl (duration_hours shift)),
                     employee_shift_cycle = update_cycle_idle cx (employee_shift_cycle st)
                                              emp_id (fst x) d\<rparr>"
      by blast
    have "\<exists>x entry.
             x \<in> set xs \<and> map_of (schedule st) d = Some entry
             \<and> check_conflicts cx emp_id (fst x) d (schedule st) = []
             \<and> schedule st' = record_assignment (schedule st) d entry emp_id (fst x)
                                 (dict_get_or (shift_counts entry) (fst x) 0 + 1)
             \<and> rotation_updated (check_if_rested cx (employee_shift_cycle st) emp_id d)
                  (cycle_of (employee_shift_cycle st) emp_id) (get_shift_type (fst x)) d
                  (cycle_of (employee_shift_cycle st') emp_id)
             \<and> (\<forall>other. other \<noteq> emp_id \<longrightarrow>
                   map_of (employee_shift_cycle st') other = map_of (employee_shift_cycle st) other)"
      using x st' update_cycle_idle_rotation [of cx "employee_shift_cycle st" emp_id d "fst x"]
      by (intro exI [of _ x] exI [of _ entry]) simp
    then show ?thesis by simp
  qed
next
  assume "phase1_date cx d st = Inr st' \<and> other \<notin> set (fixed_early_early_employees cx)"
  then show "map_of (employee_shift_cycle st') other = map_of (employee_shift_cycle st) other"
    using phase1_date_others by blast
next
  assume "phase1_date cx d st = Inr st' \<and> other \<notin> set (fixed_early_early_employees cx)"
  then show "assigned_on (schedule st') dd other = assigned_on (schedule st) dd other"
    using phase1_date_others by blast
qed


lemma ex_try_shifts:
  "try_shifts ex_session 738888 [65] [(late_shift_id, 3)] (ex_state t) = Inr ex_state_after"
proof -
  have ids: "late_shift_id \<noteq> early_shift_id"
    by (simp add: early_shift_id_def late_shift_id_def)
  have e65: "map_of (employees ex_session) [65] = Some ex_employee"
    by (simp add: ex_session_def)
  have late: "map_of (shifts ex_session) late_shift_id = Some (ex_shift 3)"
    using ids by (simp add: ex_session_def)
  have cc: "check_conflicts ex_session [65] late_shift_id 738888 (schedule (ex_state t)) = []"
    using wednesday_738888 e65 late
    by (simp add: check_conflicts_def ex_employee_def ex_shift_def ex_state_def dict_keys_def)
  have cyc: "update_cycle_idle ex_session (ex_cycle t) [65] late_shift_id 738888
      = [([65], \<lparr>current_type = Some Late, last_work_date = Some 738888, rested = True\<rparr>)]"
    using ex_rested [of t]
    by (simp add: update_cycle_idle_def Let_def ex_cycle_def get_shift_type_def late_shift_id_def)
  show ?thesis
    using late cc cyc ids
    by (simp add: getitem_def dict_get_or_def record_assignment_def add_work_def float_add_small
        ex_shift_def ex_state_def ex_state_after_def ex_workload_def)
qed

lemma ex_phase1_date: "phase1_date ex_session 738888 (ex_state t) = Inr (ex_state t)"
  using wednesday_738888
  by (simp add: phase1_date_def monday_def shift_list_def dict_keys_def ex_session_def
      fixed_early_early_shift_def early_early_shift_id_def early_shift_id_def late_shift_id_def)

text \<open>
  The claim C3 as stated fails for an employee whose current type is "other" and who has
  just rested: the claim keeps the current type, the source sets it to the type of the
  assigned shift (here a late shift).
\<close>

theorem assignment_rotation_update_counterexample:
  "check_if_rested ex_session (employee_shift_cycle (ex_state Other)) [65] 738888
   \<and> current_type (cycle_of (employee_shift_cycle (ex_state Other)) [65]) = Some Other
   \<and> spec_current_type_after True (Some Other) (get_shift_type late_shift_id) = Some Other
   \<and> assign_employee_to_shift ex_session 738888 late_shift_id (ex_state Other) = Inr (True, ex_state_after)
   \<and> try_shifts ex_session 738888 [65] [(late_shift_id, 3)] (ex_state Other) = Inr ex_state_after
   \<and> current_type (cycle_of (employee_shift_cycle ex_state_after) [65]) = Some Late"
  using ex_rested [of Other] ex_assign [of Other] ex_try_shifts [of Other]
  by (simp add: ex_state_def ex_state_after_def ex_cycle_def cycle_of_def dict_get_or_def
      spec_current_type_after_def)

theorem assignment_rotation_update_witness:
  "assign_employee_to_shift ex_session 738888 late_shift_id (ex_state Early) = Inr (True, ex_state_after)
   \<and> try_shifts ex_session 738888 [65] [(late_shift_id, 3)] (ex_state Early) = Inr ex_state_after
   \<and> ex_state_after \<noteq> ex_state Early
   \<and> phase1_date ex_session 738888 (ex_state Early) = Inr (ex_state Early)
   \<and> [66] \<notin> set (fixed_early_early_employees ex_session)
   \<and> (\<exists>emp_id entry.
         map_of (schedule (ex_state Early)) 738888 = Some entry
         \<and> emp_id \<notin> set (dict_keys (assignments entry))
         \<and> schedule ex_state_after = record_assignment (schedule (ex_state Early)) 738888 entry emp_id
                             late_shift_id (dict_get_or (shift_counts entry) late_shift_id 0 + 1)
         \<and> rotation_updated (check_if_rested ex_session (employee_shift_cycle (ex_state Early)) emp_id 738888)
              (cycle_of (employee_shift_cycle (ex_state Early)) emp_id) (get_shift_type late_shift_id) 738888
              (cycle_of (employee_shift_cycle ex_state_after) emp_id)
         \<and> rested (cycle_of (employee_shift_cycle ex_state_after) emp_id)
             = check_if_rested ex_session (employee_shift_cycle (ex_state Early)) emp_id 738888
         \<and> (\<forall>other. other \<noteq> emp_id \<longrightarrow>
               map_of (employee_shift_cycle ex_state_after) other
                 = map_of (employee_shift_cycle (ex_state Early)) other))
   \<and> (\<exists>x entry.
         x \<in> set [(late_shift_id, 3 :: int)] \<and> map_of (schedule (ex_state Early)) 738888 = Some entry
         \<and> check_conflicts ex_session [65] (fst x) 738888 (schedule (ex_state Early)) = []
         \<and> schedule ex_state_after = record_assignment (schedule (ex_state Early)) 738888 entry [65] (fst x)
                             (dict_get_or (shift_counts entry) (fst x) 0 + 1)
         \<and> rotation_updated (check_if_rested ex_session (employee_shift_cycle (ex_state Early)) [65] 738888)
              (cycle_of (employee_shift_cycle (ex_state Early)) [65]) (get_shift_type (fst x)) 738888
              (cycle_of (employee_shift_cycle ex_state_after) [65])
         \<and> (\<forall>other. other \<noteq> [65] \<longrightarrow>
               map_of (employee_shift_cycle ex_state_after) other
                 = map_of (employee_shift_cycle (ex_state Early)) other))
   \<and> current_type (cycle_of (employee_shift_cycle (ex_state Early)) [65]) = Some Early
   \<and> current_type (cycle_of (employee_shift_cycle ex_state_after) [65]) = Some Late
   \<and> last_work_date (cycle_of (employee_shift_cycle ex_state_after) [65]) = Some 738888"
proof -
  have differ: "ex_state_after \<noteq> ex_state Early"
    by (simp add: ex_state_def ex_state_after_def)
  have nofixed: "[66] \<notin> set (fixed_early_early_employees ex_session)"
    by (simp add: fixed_early_early_employees_def ex_session_def ex_rules_def)
  have vals: "current_type (cycle_of (employee_shift_cycle (ex_state Early)) [65]) = Some Early"
    "current_type (cycle_of (employee_shift_cycle ex_state_after) [65]) = Some Late"
    "last_work_date (cycle_of (employee_shift_cycle ex_state_after) [65]) = Some 738888"
    by (simp_all add: ex_state_def ex_state_after_def ex_cycle_def cycle_of_def dict_get_or_def)
  show ?thesis
    using assignment_rotation_update [of ex_session 738888 late_shift_id "ex_state Early" ex_state_after
        "[65]" "[(late_shift_id, 3)]"]
      assignment_rotation_update [of ex_session 738888 late_shift_id "ex_state Early" "ex_state Early"
        "[65]" "[]" "[66]" 738888]
      ex_assign [of Early] ex_try_shifts [of Early] ex_phase1_date [of Early] differ nofixed vals
    by simp
qed

subsection \<open>The run reads the employees, the shifts and the rules only\<close>

lemma same_inputs_fields:
  assumes "same_inputs a b"
  shows "employees a = employees b" "shifts a = shifts b" "rules a = rules b"
  using assms by (simp_all add: same_inputs_def)

lemma lists_agree:
  assumes "same_inputs a b"
  shows "employee_list a = employee_list b" "shift_list a = shift_list b"
    "fixed_early_early_employees a = fixed_early_early_employees b"
    "monday_no_early_early a = monday_no_early_early b"
    "shift_list_today a = shift_list_today b"
  unfolding employee_list_def shift_list_def fixed_early_early_employees_def
    monday_no_early_early_def shift_list_today_def [abs_def] same_inputs_fields [OF assms]
  by (rule refl)+

lemma check_conflicts_agree:
  assumes "same_inputs a b"
  shows "check_conflicts a = check_conflicts b"
  unfolding check_conflicts_def [abs_def] same_inputs_fields [OF assms]
  by (rule refl)

lemma check_if_rested_agree:
  assumes "same_inputs a b"
  shows "check_if_rested a = check_if_rested b"
  unfolding check_if_rested_def [abs_def] same_inputs_fields [OF assms]
  by (rule refl)

lemma get_employee_score_agree:
  assumes "same_inputs a b"
  shows "get_employee_score a = get_employee_score b"
  unfolding get_employee_score_def [abs_def] same_inputs_fields [OF assms]
    check_if_rested_agree [OF assms] lists_agree [OF assms]
  by (rule refl)

lemma get_required_staff_agree:
  assumes "same_inputs a b"
  shows "get_required_staff a = get_required_staff b"
  unfolding get_required_staff_def [abs_def] same_inputs_fields [OF assms]
  by (rule refl)

lemma update_cycle_agree:
  assumes "same_inputs a b"
  shows "update_cycle a = update_cycle b" "update_cycle_idle a = update_cycle_idle b"
  unfolding update_cycle_def [abs_def] update_cycle_idle_def [abs_def]
    check_if_rested_agree [OF assms]
  by (rule refl)+

lemma collect_candidates_agree:
  assumes "same_inputs a b"
  shows "collect_candidates a st shift_id d es = collect_candidates b st shift_id d es"
  by (induction es)
     (simp_all add: check_conflicts_agree [OF assms] get_employee_score_agree [OF assms]
        cong: sum.case_cong)

lemma assign_employee_to_shift_agree:
  assumes "same_inputs a b"
  shows "assign_employee_to_shift a = assign_employee_to_shift b"
  unfolding assign_employee_to_shift_def [abs_def] same_inputs_fields [OF assms]
    get_required_staff_agree [OF assms] collect_candidates_agree [OF assms]
    update_cycle_agree [OF assms] lists_agree [OF assms]
  by (rule refl)

lemma assign_fixed_staff_agree:
  assumes "same_inputs a b"
  shows "assign_fixed_staff a d shift required es st = assign_fixed_staff b d shift required es st"
  by (induction es arbitrary: st)
     (simp_all add: check_conflicts_agree [OF assms] cong: sum.case_cong if_cong)

lemma phase1_agree:
  assumes "same_inputs a b"
  shows "phase1 a = phase1 b"
  unfolding phase1_def [abs_def] phase1_date_def [abs_def] same_inputs_fields [OF assms]
    lists_agree [OF assms] assign_fixed_staff_agree [OF assms]
  by (rule refl)

lemma fill_shift_agree:
  "same_inputs a b \<Longrightarrow>
     fill_shift a d shift_id required current_count st
       = fill_shift b d shift_id required current_count st"
proof (induction a d shift_id required current_count st rule: fill_shift.induct)
  case (1 cx date_str shift_id required current_count st)
  show ?case
    apply (subst fill_shift.simps)
    apply (subst (2) fill_shift.simps)
    using 1
    by (auto simp: assign_employee_to_shift_agree [OF "1.prems"] split: sum.splits)
qed

lemma phase2_agree:
  assumes "same_inputs a b"
  shows "phase2 a = phase2 b"
  unfolding phase2_def [abs_def] phase2_date_def [abs_def] phase2_shift_def [abs_def]
    same_inputs_fields [OF assms] lists_agree [OF assms] get_required_staff_agree [OF assms]
    fill_shift_agree [OF assms]
  by (rule refl)

lemma phase3_passes_agree:
  assumes "same_inputs a b"
  shows "phase3_passes n a st = phase3_passes n b st"
proof -
  have d: "phase3_date a = phase3_date b"
    unfolding phase3_date_def [abs_def] phase3_shift_def [abs_def]
      same_inputs_fields [OF assms] lists_agree [OF assms] get_required_staff_agree [OF assms]
      assign_employee_to_shift_agree [OF assms]
    by (rule refl)
  show ?thesis
    by (induction n arbitrary: st) (simp_all add: d cong: sum.case_cong if_cong)
qed

lemma find_shortages_agree:
  assumes "same_inputs a b"
  shows "find_shortages a d sched xs = find_shortages b d sched xs"
  by (induction xs)
     (simp_all add: same_inputs_fields [OF assms] get_required_staff_agree [OF assms]
        cong: sum.case_cong)

lemma try_shifts_agree:
  assumes "same_inputs a b"
  shows "try_shifts a d emp_id xs st = try_shifts b d emp_id xs st"
  by (induction xs)
     (simp_all add: same_inputs_fields [OF assms] check_conflicts_agree [OF assms]
        update_cycle_agree [OF assms] cong: sum.case_cong if_cong)

lemma phase4_agree:
  assumes "same_inputs a b"
  shows "phase4 a = phase4 b"
  unfolding phase4_def [abs_def] phase4_date_def [abs_def] phase4_employee_def [abs_def]
    order_shortages_def [abs_def]
    lists_agree [OF assms] check_if_rested_agree [OF assms] find_shortages_agree [OF assms]
    try_shifts_agree [OF assms]
  by (rule refl)

lemma run_generation_agree:
  assumes "same_inputs a b"
  shows "run_generation a = run_generation b"
  unfolding run_generation_def [abs_def] initial_state_def [abs_def] phase3_def [abs_def]
    same_inputs_fields [OF assms] lists_agree [OF assms]
    phase1_agree [OF assms] phase2_agree [OF assms] phase3_passes_agree [OF assms]
    phase4_agree [OF assms]
  by (rule refl)

text \<open>
  C9: the outcome and the generated schedule are determined by the employees, the
  shifts, the rules (each with its order) and the two dates. Every function of the run
  is given the whole session, as the nested functions of the source can read all of
  \<^verbatim>\<open>st.session_state\<close>; none of them reads the stored schedule or the default period,
  which is the one part of the session computed from the clock. The module imports no
  source of randomness, and the float operations round in one fixed way.
\<close>

theorem generate_schedule_deterministic:
  assumes "employees ss1 = employees ss2" and "shifts ss1 = shifts ss2" and "rules ss1 = rules ss2"
  shows "run_generation ss1 start_date end_date = run_generation ss2 start_date end_date
     \<and> fst (generate_schedule ss1 start_date end_date) = fst (generate_schedule ss2 start_date end_date)
     \<and> (fst (generate_schedule ss1 start_date end_date) = Generated
          \<longrightarrow> stored_schedule (snd (generate_schedule ss1 start_date end_date))
              = stored_schedule (snd (generate_schedule ss2 start_date end_date)))"
proof -
  have "same_inputs ss1 ss2"
    using assms by (simp add: same_inputs_def)
  then have "run_generation ss1 start_date end_date = run_generation ss2 start_date end_date"
    by (simp add: run_generation_agree)
  then show ?thesis
    using assms(1,2) by (auto simp: generate_schedule_def split: sum.splits)
qed

theorem generate_schedule_deterministic_witness:
  "stored_schedule (demo_session [] (init_schedule_period 738886))
     \<noteq> stored_schedule (demo_session ex_schedule (init_schedule_period 739000))
   \<and> schedule_period (demo_session [] (init_schedule_period 738886))
     \<noteq> schedule_period (demo_session ex_schedule (init_schedule_period 739000))
   \<and> run_generation (demo_session [] (init_schedule_period 738886)) 738886 738887 = Inr demo_schedule
   \<and> run_generation (demo_session ex_schedule (init_schedule_period 739000)) 738886 738887
       = Inr demo_schedule
   \<and> fst (generate_schedule (demo_session ex_schedule (init_schedule_period 739000)) 738886 738887)
       = Generated
   \<and> stored_schedule (snd (generate_schedule (demo_session [] (init_schedule_period 738886)) 738886 738887))
       = stored_schedule
           (snd (generate_schedule (demo_session ex_schedule (init_schedule_period 739000)) 738886 738887))"
proof -
  have same: "employees (demo_session [] (init_schedule_period 738886))
        = employees (demo_session ex_schedule (init_schedule_period 739000))"
    "shifts (demo_session [] (init_schedule_period 738886))
        = shifts (demo_session ex_schedule (init_schedule_period 739000))"
    "rules (demo_session [] (init_schedule_period 738886))
        = rules (demo_session ex_schedule (init_schedule_period 739000))"
    by (simp_all add: demo_session_def)
  have differ: "stored_schedule (demo_session [] (init_schedule_period 738886))
      \<noteq> stored_schedule (demo_session ex_schedule (init_schedule_period 739000))"
    "schedule_period (demo_session [] (init_schedule_period 738886))
      \<noteq> schedule_period (demo_session ex_schedule (init_schedule_period 739000))"
    by (simp_all add: demo_session_def ex_schedule_def init_schedule_period_def)
  have gen: "fst (generate_schedule (demo_session [] (init_schedule_period 738886)) 738886 738887)
      = Generated"
    by (simp add: demo_generate)
  have run: "run_generation (demo_session [] (init_schedule_period 738886)) 738886 738887
      = Inr demo_schedule"
    by (simp add: demo_run)
  show ?thesis
    using generate_schedule_deterministic [OF same, of 738886 738887] differ gen run by simp
qed

end
